theory Spec2Isabelle
  imports Complex_Main
begin

section \<open>The image sync service (src/src/services/imageSyncService.ts)\<close>

text \<open>
  The service is a TypeScript class driven by the JavaScript event loop. The embedding
  follows that shape:
  \<^item> the private fields of the class and the parts of the outside world the class talks
    to (key-value storage, file system, pending timers, downloads in flight, console,
    the requests issued) are the fields of one record, \<open>World\<close>;
  \<^item> every method is a function from the world to the new world; a method that can throw
    returns \<open>error + 'a\<close> next to the world;
  \<^item> what the outside world answers (the manifest, the status of a transfer, the clock)
    is an argument of the function that consumes the answer;
  \<^item> a JavaScript number of the configuration is a \<open>rat\<close>: the schema asks for a
    number, not for a whole number, so fractions are among the values it lets through
    (not-a-number and the infinities are left out); a counter of the class is an
    \<open>int\<close>;
  \<^item> a property of a JSON object is a \<open>jsval\<close>: a string, \<open>null\<close>, or
    \<open>undefined\<close> when the object lacks it.
\<close>

subsection \<open>Configuration\<close>

type_synonym addr = nat

text \<open>
  \<open>ImageSyncConfig\<close>, the type inferred from \<open>ConfigSchema\<close>. The field
  \<open>fileTypes\<close> is a JavaScript array, the only field that is not a primitive value: the
  record is parametric in how that field is held, by value (\<open>string list\<close>, the result of
  parsing) or by reference (\<open>addr\<close>, an object in the store).
\<close>

record 'a ImageSyncConfig =
  pollingInterval :: rat
  sourceEndpoint :: string
  maxConcurrentDownloads :: rat
  fileTypes :: 'a
  storageLocation :: string
  authToken :: "string option"
  retryAttempts :: rat
  retryDelay :: rat
  logLevel :: string

text \<open>
  The object handed to \<open>ConfigSchema.parse\<close>. Each property is a value or
  \<open>undefined\<close> (\<open>None\<close>); to the schema a property that is missing and one that
  is \<open>undefined\<close> are the same.
\<close>

record RawConfig =
  raw_pollingInterval :: "rat option"
  raw_sourceEndpoint :: "string option"
  raw_maxConcurrentDownloads :: "rat option"
  raw_fileTypes :: "string list option"
  raw_storageLocation :: "string option"
  raw_authToken :: "string option"
  raw_retryAttempts :: "rat option"
  raw_retryDelay :: "rat option"
  raw_logLevel :: "string option"

text \<open>
  \<open>Partial<ImageSyncConfig>\<close> as a caller of \<open>updateConfig\<close> passes it. Here the
  difference counts: a property the object lacks is \<open>Absent\<close>, one it has is
  \<open>Present\<close>, with a value or with \<open>undefined\<close> (\<open>Present None\<close>).
\<close>

datatype 'a property = Absent | Present "'a option"

record PartialConfig =
  part_pollingInterval :: "rat property"
  part_sourceEndpoint :: "string property"
  part_maxConcurrentDownloads :: "rat property"
  part_fileTypes :: "string list property"
  part_storageLocation :: "string property"
  part_authToken :: "string property"
  part_retryAttempts :: "rat property"
  part_retryDelay :: "rat property"
  part_logLevel :: "string property"

datatype error =
    InvalidConfiguration
  | ServiceIsNotRunning
  | FetchTransportError
  | FailedToFetchImages nat
  | InvalidJson
  | InvalidResponseFormat
  | TypeError
  | MakeDirectoryError
  | DownloadTransportError
  | DownloadFailedWithStatus nat
  | NoAuthenticatedUserError
  | InsertError

definition orDefault :: "'a option \<Rightarrow> 'a \<Rightarrow> 'a" where
  "orDefault v d = (case v of None \<Rightarrow> d | Some x \<Rightarrow> x)"

text \<open>
  \<open>ConfigSchema.parse\<close>. The test \<open>z.string().url()\<close> belongs to the zod library and
  \<open>FileSystem.documentDirectory\<close> to the platform: both are parameters (\<open>isUrl\<close>,
  \<open>documentDirectory\<close>). The result holds a freshly built \<open>fileTypes\<close> array.
\<close>

definition ConfigSchema_parse ::
  "(string \<Rightarrow> bool) \<Rightarrow> string \<Rightarrow> RawConfig \<Rightarrow> (string list) ImageSyncConfig option" where
  "ConfigSchema_parse isUrl documentDirectory raw =
     (let pi = orDefault (raw_pollingInterval raw) 300000;
          mc = orDefault (raw_maxConcurrentDownloads raw) 3;
          ra = orDefault (raw_retryAttempts raw) 3;
          rd = orDefault (raw_retryDelay raw) 5000;
          ll = orDefault (raw_logLevel raw) ''info''
      in case raw_sourceEndpoint raw of
           None \<Rightarrow> None
         | Some ep \<Rightarrow>
             if 1000 \<le> pi \<and> isUrl ep \<and> 1 \<le> mc \<and> mc \<le> 10 \<and> 1 \<le> ra \<and> 1000 \<le> rd
                \<and> ll \<in> set [''debug'', ''info'', ''warn'', ''error'']
             then Some \<lparr> pollingInterval = pi, sourceEndpoint = ep,
                         maxConcurrentDownloads = mc,
                         fileTypes = orDefault (raw_fileTypes raw) [''jpg'', ''jpeg'', ''png''],
                         storageLocation =
                           orDefault (raw_storageLocation raw) (documentDirectory @ ''images/''),
                         authToken = raw_authToken raw,
                         retryAttempts = ra, retryDelay = rd, logLevel = ll \<rparr>
             else None)"

text \<open>
  One property of the object literal \<open>{ ...this.config, ...config }\<close>: the later
  spread wins wherever \<open>config\<close> has the property, also when its value there is
  \<open>undefined\<close>.
\<close>

definition spreadProp :: "'a option \<Rightarrow> 'a property \<Rightarrow> 'a option" where
  "spreadProp cur p = (case p of Absent \<Rightarrow> cur | Present v \<Rightarrow> v)"

definition spreadConfig :: "(string list) ImageSyncConfig \<Rightarrow> PartialConfig \<Rightarrow> RawConfig" where
  "spreadConfig cur partial =
     \<lparr> raw_pollingInterval =
         spreadProp (Some (pollingInterval cur)) (part_pollingInterval partial),
       raw_sourceEndpoint =
         spreadProp (Some (sourceEndpoint cur)) (part_sourceEndpoint partial),
       raw_maxConcurrentDownloads =
         spreadProp (Some (maxConcurrentDownloads cur)) (part_maxConcurrentDownloads partial),
       raw_fileTypes = spreadProp (Some (fileTypes cur)) (part_fileTypes partial),
       raw_storageLocation =
         spreadProp (Some (storageLocation cur)) (part_storageLocation partial),
       raw_authToken = spreadProp (authToken cur) (part_authToken partial),
       raw_retryAttempts =
         spreadProp (Some (retryAttempts cur)) (part_retryAttempts partial),
       raw_retryDelay = spreadProp (Some (retryDelay cur)) (part_retryDelay partial),
       raw_logLevel = spreadProp (Some (logLevel cur)) (part_logLevel partial) \<rparr>"

subsection \<open>Items\<close>

text \<open>
  A property of an object of the response that the program treats as a string: a
  string, \<open>null\<close>, or \<open>undefined\<close> when the object lacks it.
\<close>

datatype jsval = Undefined | Null | Str string

text \<open>One element of the JSON array the source answers with.\<close>

record ManifestItem =
  item_id :: jsval
  item_url :: jsval
  item_timestamp :: jsval
  item_deviceId :: jsval
  item_fileName :: jsval

text \<open>
  \<open>ImageMetadata\<close>. The interface declares strings, but \<open>fetchNewImages\<close> copies the
  properties of the response unchecked, so at run time the first four are whatever the
  response held.
\<close>

record ImageMetadata =
  img_id :: jsval
  img_url :: jsval
  img_timestamp :: jsval
  img_deviceId :: jsval
  img_fileName :: string

text \<open>A value inside a template literal: \<open>undefined\<close> and \<open>null\<close> print as words.\<close>

definition jsString :: "jsval \<Rightarrow> string" where
  "jsString v = (case v of Undefined \<Rightarrow> ''undefined'' | Null \<Rightarrow> ''null'' | Str s \<Rightarrow> s)"

definition isAlnum :: "char \<Rightarrow> bool" where
  "isAlnum c = (let n = (of_char c :: nat)
                in (48 \<le> n \<and> n \<le> 57) \<or> (65 \<le> n \<and> n \<le> 90) \<or> (97 \<le> n \<and> n \<le> 122))"

definition toLowerCase :: "string \<Rightarrow> string" where
  "toLowerCase s =
     map (\<lambda>c. let n = (of_char c :: nat) in if 65 \<le> n \<and> n \<le> 90 then char_of (n + 32) else c) s"

text \<open>
  The leftmost match of \<open>/\.([a-zA-Z0-9]+)(?:\?|#|$)/\<close>, its first group. The group is
  greedy and what must follow it is not alphanumeric, so at each dot only the longest
  run of alphanumerics can match.
\<close>

fun matchExtension :: "string \<Rightarrow> string option" where
  "matchExtension [] = None"
| "matchExtension (c # cs) =
     (if c = CHR ''.'' then
        (let run = takeWhile isAlnum cs; rest = dropWhile isAlnum cs
         in if run \<noteq> [] \<and> (case rest of [] \<Rightarrow> True | d # _ \<Rightarrow> d = CHR ''?'' \<or> d = CHR ''#'')
            then Some run else matchExtension cs)
      else matchExtension cs)"

definition getFileExtension :: "string \<Rightarrow> string" where
  "getFileExtension url = (case matchExtension url of Some e \<Rightarrow> toLowerCase e | None \<Rightarrow> ''jpg'')"

text \<open>
  The arrow function given to \<open>data.map\<close>. \<open>item.fileName || ...\<close> takes the right side
  for a name that is missing, \<open>null\<close> or empty; the right side calls \<open>url.match\<close>, which
  throws a \<open>TypeError\<close> when \<open>url\<close> is \<open>undefined\<close> or \<open>null\<close>.
\<close>

definition fileNameOf :: "ManifestItem \<Rightarrow> error + string" where
  "fileNameOf item =
     (let synthesized =
            (case item_url item of
               Str u \<Rightarrow> Inr (''image_'' @ jsString (item_id item) @ ''.'' @ getFileExtension u)
             | _ \<Rightarrow> Inl TypeError)
      in case item_fileName item of
           Str f \<Rightarrow> if f = [] then synthesized else Inr f
         | _ \<Rightarrow> synthesized)"

definition mapItem :: "ManifestItem \<Rightarrow> error + ImageMetadata" where
  "mapItem item =
     (case fileNameOf item of
        Inl e \<Rightarrow> Inl e
      | Inr name \<Rightarrow>
          Inr \<lparr> img_id = item_id item, img_url = item_url item,
                img_timestamp = item_timestamp item, img_deviceId = item_deviceId item,
                img_fileName = name \<rparr>)"

text \<open>\<open>data.map\<close>: left to right, the first exception ends it.\<close>

fun mapItems :: "ManifestItem list \<Rightarrow> error + ImageMetadata list" where
  "mapItems [] = Inr []"
| "mapItems (x # xs) =
     (case mapItem x of
        Inl e \<Rightarrow> Inl e
      | Inr m \<Rightarrow> (case mapItems xs of Inl e \<Rightarrow> Inl e | Inr ms \<Rightarrow> Inr (m # ms)))"

subsection \<open>The world\<close>

datatype Console = ConsoleDebug | ConsoleInfo | ConsoleWarn | ConsoleError

text \<open>The messages of the program, with the values they interpolate.\<close>

datatype LogMsg =
    ServiceAlreadyRunning
  | ServiceNotRunning
  | ServiceStarted
  | ServiceStopped
  | ConfigurationUpdated
  | ConfigurationValidationFailed
  | InitialSyncFailed
  | PeriodicSyncFailed
  | NoAuthenticatedUser
  | NoNewImages
  | FoundNewImages nat
  | SyncFailed
  | FetchOperationAborted
  | FailedToFetchNewImages
  | FailedToDownloadImage jsval
  | SchedulingRetry int rat jsval
  | MaxRetryAttemptsReached jsval
  | DownloadedImage jsval string
  | FailedToStoreImageMetadata jsval
  | FailedToGetLastSync
  | FailedToUpdateLastSync
  | WaitingForActiveDownloads int
  | CreatedStorageDirectory string
  | FailedToEnsureStorageDirectory

text \<open>The row \<open>storeImageMetadata\<close> inserts into \<open>device_images\<close>.\<close>

record DeviceImageRow =
  row_id :: jsval
  row_device_id :: jsval
  row_url :: jsval
  row_local_path :: string
  row_md5_hash :: string
  row_created_at :: jsval

text \<open>
  Every call that leaves the process, in the order issued. \<open>HttpGet\<close> carries the
  endpoint and the query parameters \<open>since\<close> and \<open>fileTypes\<close> and the bearer token, each
  absent or present, instead of the encoded URL.
\<close>

datatype Effect =
    GetCurrentUser
  | StorageGetItem
  | StorageSetItem string
  | HttpGet string "string option" "string list option" "string option"
  | GetInfoAsync string
  | MakeDirectoryAsync string
  | DownloadAsync jsval string "string option"
  | InsertDeviceImage DeviceImageRow

text \<open>
  Who awaits a run of \<open>syncImages\<close>, and the answer the run is waiting for: the
  user, the stored watermark, the manifest, or the write of a new watermark (with the
  value being written).
\<close>

datatype Caller = FromStart | FromInterval | FromForceSyncNow

datatype SyncStage = AwaitUser | AwaitLastSync | AwaitManifest | AwaitWrite string

text \<open>
  A download in flight: the image, and the file path \<open>downloadImage\<close> computed when
  it was called.
\<close>

type_synonym Download = "ImageMetadata \<times> string"

text \<open>
  The first seven fields are the private fields of \<open>ImageSyncService\<close>. The others are
  what the class acts on:
  \<^item> \<open>arrays\<close>, the store of array objects, and \<open>nextHandle\<close>, the next fresh address,
    timer id or controller id;
  \<^item> \<open>intervalTimers\<close>, the armed \<open>setInterval\<close> timers; \<open>abortedSignals\<close>, the
    controllers \<open>abort()\<close> was called on;
  \<^item> \<open>inFlight\<close>, the downloads dispatched and not settled; \<open>retryTimers\<close>, the pending
    \<open>setTimeout\<close> callbacks that will put an image back into the queue;
  \<^item> \<open>stopPolls\<close>, the calls of \<open>stop\<close> polling in \<open>waitForActiveDownloads\<close>;
    \<open>stopsCompleted\<close>, how many such calls have returned;
  \<^item> \<open>pendingSyncs\<close>, the runs of \<open>syncImages\<close> begun and not finished, each
    with the answer it waits for; \<open>storageCheck\<close>, whether the check of the storage
    directory begun by the constructor is still waiting for its answer;
  \<^item> \<open>lastSyncItem\<close>, the value stored under \<open>LAST_SYNC_KEY\<close>; \<open>files\<close>, the local
    files (path to content hash); \<open>device_images\<close>, the rows inserted;
  \<^item> \<open>effects\<close> and \<open>console\<close>, the calls issued and the lines printed, oldest first.
\<close>

record World =
  config :: "addr ImageSyncConfig"
  isRunning :: bool
  intervalId :: "nat option"
  abortController :: "nat option"
  downloadQueue :: "ImageMetadata list"
  activeDownloads :: int
  retryMap :: "jsval \<Rightarrow> int option"
  arrays :: "addr \<Rightarrow> string list"
  nextHandle :: nat
  intervalTimers :: "nat list"
  abortedSignals :: "nat list"
  inFlight :: "Download list"
  retryTimers :: "ImageMetadata list"
  stopPolls :: nat
  stopsCompleted :: nat
  pendingSyncs :: "(Caller \<times> SyncStage) list"
  storageCheck :: bool
  lastSyncItem :: "string option"
  files :: "string \<Rightarrow> string option"
  device_images :: "DeviceImageRow list"
  effects :: "Effect list"
  console :: "(Console \<times> LogMsg) list"

definition emit :: "Effect \<Rightarrow> World \<Rightarrow> World" where
  "emit e w = w\<lparr>effects := effects w @ [e]\<rparr>"

definition logInfo :: "LogMsg \<Rightarrow> World \<Rightarrow> World" where
  "logInfo m w =
     (if logLevel (config w) \<in> set [''debug'', ''info'']
      then w\<lparr>console := console w @ [(ConsoleInfo, m)]\<rparr> else w)"

definition logWarn :: "LogMsg \<Rightarrow> World \<Rightarrow> World" where
  "logWarn m w =
     (if logLevel (config w) \<in> set [''debug'', ''info'', ''warn'']
      then w\<lparr>console := console w @ [(ConsoleWarn, m)]\<rparr> else w)"

definition logError :: "LogMsg \<Rightarrow> World \<Rightarrow> World" where
  "logError m w = w\<lparr>console := console w @ [(ConsoleError, m)]\<rparr>"

text \<open>A truthy string: present and not empty.\<close>

definition truthy :: "string option \<Rightarrow> bool" where
  "truthy v = (case v of None \<Rightarrow> False | Some s \<Rightarrow> s \<noteq> [])"

definition bearer :: "World \<Rightarrow> string option" where
  "bearer w = (if truthy (authToken (config w)) then authToken (config w) else None)"

subsection \<open>Downloading one image\<close>

text \<open>
  What the outside world answers to one run of \<open>downloadImage\<close>: whether the directory
  could be made, the status and content hash of the transfer (\<open>None\<close> when
  \<open>downloadAsync\<close> throws), whether a user is signed in and whether the insert went
  through.
\<close>

record DownloadEnv =
  dl_mkdirOk :: bool
  dl_transfer :: "(nat \<times> string) option"
  dl_user :: bool
  dl_insertOk :: bool

definition storeImageMetadata ::
  "DownloadEnv \<Rightarrow> ImageMetadata \<Rightarrow> string \<Rightarrow> string \<Rightarrow> World \<Rightarrow> (error + unit) \<times> World" where
  "storeImageMetadata env img localPath md5 w =
     (let w1 = emit GetCurrentUser w
      in if \<not> dl_user env
         then (Inl NoAuthenticatedUserError,
               logError (FailedToStoreImageMetadata (img_id img)) w1)
         else
           (let row = \<lparr> row_id = img_id img, row_device_id = img_deviceId img,
                          row_url = img_url img, row_local_path = localPath,
                          row_md5_hash = md5, row_created_at = img_timestamp img \<rparr>;
                w2 = emit (InsertDeviceImage row) w1
            in if dl_insertOk env
               then (Inr (), w2\<lparr>device_images := device_images w2 @ [row]\<rparr>)
               else (Inl InsertError,
                     logError (FailedToStoreImageMetadata (img_id img)) w2)))"

definition filePathOf :: "World \<Rightarrow> ImageMetadata \<Rightarrow> string" where
  "filePathOf w img =
     storageLocation (config w) @ jsString (img_deviceId img) @ ''/'' @ img_fileName img"

text \<open>
  \<open>downloadImage\<close>, in the two parts in which it runs. A call runs up to the first
  \<open>await\<close> (lines 343 to 349): the file path is computed and the directory asked
  for. The rest (lines 349 to 375) runs when the outside world has answered, on the
  path computed at the call. The transfer is
  \<open>FileSystem.downloadAsync(image.url, filePath, ...)\<close>: the library stores what the
  server sent at \<open>filePath\<close>, in place of a file already there; that is the update of
  \<open>files\<close>. The function reads neither \<open>files\<close> nor a content hash before the
  transfer.
\<close>

definition directoryOf :: "World \<Rightarrow> ImageMetadata \<Rightarrow> string" where
  "directoryOf w img = storageLocation (config w) @ jsString (img_deviceId img)"

definition downloadImage_begin :: "ImageMetadata \<Rightarrow> World \<Rightarrow> string \<times> World" where
  "downloadImage_begin img w =
     (filePathOf w img, emit (MakeDirectoryAsync (directoryOf w img)) w)"

definition downloadImage_resume ::
  "DownloadEnv \<Rightarrow> ImageMetadata \<Rightarrow> string \<Rightarrow> World \<Rightarrow> (error + unit) \<times> World" where
  "downloadImage_resume env img filePath w1 =
     (if \<not> dl_mkdirOk env
      then (Inl MakeDirectoryError, logError (FailedToDownloadImage (img_id img)) w1)
      else
        (let w2 = emit (DownloadAsync (img_url img) filePath (bearer w1)) w1
         in case dl_transfer env of
              None \<Rightarrow>
                (Inl DownloadTransportError,
                 logError (FailedToDownloadImage (img_id img)) w2)
            | Some (status, md5) \<Rightarrow>
                (let w3 = w2\<lparr>files := (files w2)(filePath \<mapsto> md5)\<rparr>
                 in if status \<noteq> 200
                    then (Inl (DownloadFailedWithStatus status),
                          logError (FailedToDownloadImage (img_id img)) w3)
                    else
                      (let w4 = logInfo (DownloadedImage (img_id img) filePath) w3
                       in case storeImageMetadata env img filePath md5 w4 of
                            (Inl e, w5) \<Rightarrow>
                              (Inl e, logError (FailedToDownloadImage (img_id img)) w5)
                          | (Inr u, w5) \<Rightarrow>
                              (Inr (),
                               w5\<lparr>retryMap := (retryMap w5)(img_id img := None)\<rparr>)))))"

text \<open>
  \<open>downloadImage\<close>, run to its end with the answers of \<open>env\<close> and nothing else
  happening in between.
\<close>

definition downloadImage ::
  "DownloadEnv \<Rightarrow> ImageMetadata \<Rightarrow> World \<Rightarrow> (error + unit) \<times> World" where
  "downloadImage env img w =
     (case downloadImage_begin img w of
        (filePath, w1) \<Rightarrow> downloadImage_resume env img filePath w1)"

subsection \<open>The download queue\<close>

text \<open>
  The loop of \<open>processDownloadQueue\<close>. The loop has no \<open>await\<close>: each turn takes the
  head of the queue, counts it as active and calls \<open>downloadImage\<close>, which runs up to
  its first \<open>await\<close>; the download then is in flight until the outside world settles
  it.
\<close>

function processDownloadQueue :: "World \<Rightarrow> World" where
  "processDownloadQueue w =
     (if length (downloadQueue w) > 0
         \<and> of_int (activeDownloads w) < maxConcurrentDownloads (config w)
      then
        (let img = hd (downloadQueue w);
             started = downloadImage_begin img
                         (w\<lparr>downloadQueue := tl (downloadQueue w),
                            activeDownloads := activeDownloads w + 1\<rparr>)
         in processDownloadQueue
              ((snd started)\<lparr>inFlight := inFlight (snd started) @ [(img, fst started)]\<rparr>))
      else w)"
  by pat_completeness auto
termination
  by (relation "measure (\<lambda>w. length (downloadQueue w))")
     (auto simp add: downloadImage_begin_def emit_def)

declare processDownloadQueue.simps [simp del]

text \<open>The handler given to \<open>.catch\<close> (lines 307 to 324).\<close>

definition onDownloadRejected :: "ImageMetadata \<Rightarrow> World \<Rightarrow> World" where
  "onDownloadRejected img w =
     (let w1 = logError (FailedToDownloadImage (img_id img)) w;
          attempts = orDefault (retryMap w1 (img_id img)) 0
      in if of_int attempts < retryAttempts (config w1)
         then
           (let w2 = w1\<lparr>retryMap := (retryMap w1)(img_id img \<mapsto> attempts + 1)\<rparr>;
                w3 = logInfo (SchedulingRetry (attempts + 1) (retryAttempts (config w2))
                                (img_id img)) w2
            in w3\<lparr>retryTimers := retryTimers w3 @ [img]\<rparr>)
         else logWarn (MaxRetryAttemptsReached (img_id img)) w1)"

text \<open>The handler given to \<open>.finally\<close> (lines 325 to 332).\<close>

definition onDownloadSettled :: "World \<Rightarrow> World" where
  "onDownloadSettled w =
     (let w1 = w\<lparr>activeDownloads := activeDownloads w - 1\<rparr>
      in if length (downloadQueue w1) > 0 then processDownloadQueue w1 else w1)"

text \<open>The callback given to \<open>setTimeout\<close> (lines 317 to 320).\<close>

definition retryCallback :: "ImageMetadata \<Rightarrow> World \<Rightarrow> World" where
  "retryCallback img w =
     processDownloadQueue (w\<lparr>downloadQueue := downloadQueue w @ [img]\<rparr>)"

text \<open>
  A download in flight settles: the rest of \<open>downloadImage\<close> is run with the answers
  of the outside world, then the \<open>.catch\<close> handler when it threw, then the
  \<open>.finally\<close> handler.
\<close>

definition downloadSettles :: "DownloadEnv \<Rightarrow> Download \<Rightarrow> World \<Rightarrow> World" where
  "downloadSettles env d w =
     (if d \<in> set (inFlight w) then
        (case downloadImage_resume env (fst d) (snd d)
                (w\<lparr>inFlight := remove1 d (inFlight w)\<rparr>) of
           (Inl e, w1) \<Rightarrow> onDownloadSettled (onDownloadRejected (fst d) w1)
         | (Inr u, w1) \<Rightarrow> onDownloadSettled w1)
      else w)"

definition retryTimerFires :: "ImageMetadata \<Rightarrow> World \<Rightarrow> World" where
  "retryTimerFires img w =
     (if img \<in> set (retryTimers w)
      then retryCallback img (w\<lparr>retryTimers := remove1 img (retryTimers w)\<rparr>)
      else w)"

subsection \<open>One sync cycle\<close>

datatype JsonBody = JsonInvalid | JsonNotArray | JsonArray "ManifestItem list"

datatype FetchOutcome = FetchAborted | FetchFailed | FetchResponse nat JsonBody

text \<open>
  What the outside world answers to one run of \<open>syncImages\<close>: whether a user is signed
  in, whether the storage can be read and written, the outcome of the request, and the
  clock (\<open>new Date().toISOString()\<close>).
\<close>

record SyncEnv =
  sync_user :: bool
  sync_getItemOk :: bool
  sync_fetch :: FetchOutcome
  sync_now :: string
  sync_setItemOk :: bool

text \<open>
  \<open>getLastSyncTimestamp\<close> and \<open>fetchNewImages\<close>, each in the two parts in which it
  runs, up to its \<open>await\<close> on the outside world (the storage at line 171, the
  request at line 258) and from the answer on, and then run to its end. The request is
  built from the configuration as it is when the function is called.
\<close>

definition getLastSyncTimestamp_begin :: "World \<Rightarrow> World" where
  "getLastSyncTimestamp_begin w = emit StorageGetItem w"

definition getLastSyncTimestamp_resume :: "SyncEnv \<Rightarrow> World \<Rightarrow> string option \<times> World" where
  "getLastSyncTimestamp_resume env w1 =
     (if sync_getItemOk env then (lastSyncItem w1, w1)
      else (None, logError FailedToGetLastSync w1))"

definition getLastSyncTimestamp :: "SyncEnv \<Rightarrow> World \<Rightarrow> string option \<times> World" where
  "getLastSyncTimestamp env w =
     getLastSyncTimestamp_resume env (getLastSyncTimestamp_begin w)"

definition fetchNewImages_begin :: "string option \<Rightarrow> World \<Rightarrow> World" where
  "fetchNewImages_begin lastSync w =
     (let since = (if truthy lastSync then lastSync else None);
          types = arrays w (fileTypes (config w))
      in emit (HttpGet (sourceEndpoint (config w)) since
                 (if length types > 0 then Some types else None) (bearer w)) w)"

definition fetchNewImages_resume ::
  "SyncEnv \<Rightarrow> World \<Rightarrow> (error + ImageMetadata list) \<times> World" where
  "fetchNewImages_resume env w1 =
     (case sync_fetch env of
        FetchAborted \<Rightarrow> (Inr [], logInfo FetchOperationAborted w1)
      | FetchFailed \<Rightarrow> (Inl FetchTransportError, logError FailedToFetchNewImages w1)
      | FetchResponse status body \<Rightarrow>
          if \<not> (200 \<le> status \<and> status \<le> 299)
          then (Inl (FailedToFetchImages status), logError FailedToFetchNewImages w1)
          else (case body of
                  JsonInvalid \<Rightarrow> (Inl InvalidJson, logError FailedToFetchNewImages w1)
                | JsonNotArray \<Rightarrow>
                    (Inl InvalidResponseFormat, logError FailedToFetchNewImages w1)
                | JsonArray data \<Rightarrow>
                    (case mapItems data of
                       Inl e \<Rightarrow> (Inl e, logError FailedToFetchNewImages w1)
                     | Inr images \<Rightarrow> (Inr images, w1))))"

definition fetchNewImages ::
  "SyncEnv \<Rightarrow> string option \<Rightarrow> World \<Rightarrow> (error + ImageMetadata list) \<times> World" where
  "fetchNewImages env lastSync w =
     fetchNewImages_resume env (fetchNewImages_begin lastSync w)"

text \<open>
  \<open>updateLastSyncTimestamp\<close> in its two parts: the clock is read and the write
  issued (lines 419 and 420), and the write is answered.
\<close>

definition updateLastSyncTimestamp_begin :: "SyncEnv \<Rightarrow> World \<Rightarrow> string \<times> World" where
  "updateLastSyncTimestamp_begin env w =
     (let now = sync_now env in (now, emit (StorageSetItem now) w))"

definition updateLastSyncTimestamp_resume :: "SyncEnv \<Rightarrow> string \<Rightarrow> World \<Rightarrow> World" where
  "updateLastSyncTimestamp_resume env now w1 =
     (if sync_setItemOk env then w1\<lparr>lastSyncItem := Some now\<rparr>
      else logError FailedToUpdateLastSync w1)"

definition updateLastSyncTimestamp :: "SyncEnv \<Rightarrow> World \<Rightarrow> World" where
  "updateLastSyncTimestamp env w =
     (case updateLastSyncTimestamp_begin env w of
        (now, w1) \<Rightarrow> updateLastSyncTimestamp_resume env now w1)"

text \<open>
  \<open>syncImages\<close> in the parts in which it runs, one for each answer it awaits: the
  user (line 196), the stored watermark (line 203), the response to the manifest
  request (line 206) and the write of the new watermark (line 222). The part after the
  user returns \<open>Some\<close> when the function returns there; the part after the manifest
  says whether the function returns there or awaits the write, and of which value. From
  the push onto the queue to the call of \<open>AsyncStorage.setItem\<close> there is no
  \<open>await\<close>: \<open>processDownloadQueue()\<close> is called and its promise dropped.
\<close>

datatype Progress = Returns "error + unit" | Writes string

definition syncImages_begin :: "World \<Rightarrow> World" where
  "syncImages_begin w = emit GetCurrentUser w"

definition syncImages_afterUser :: "SyncEnv \<Rightarrow> World \<Rightarrow> (error + unit) option \<times> World" where
  "syncImages_afterUser env w1 =
     (if \<not> sync_user env then (Some (Inr ()), logWarn NoAuthenticatedUser w1)
      else (None, getLastSyncTimestamp_begin w1))"

definition syncImages_afterLastSync :: "SyncEnv \<Rightarrow> World \<Rightarrow> World" where
  "syncImages_afterLastSync env w =
     (case getLastSyncTimestamp_resume env w of
        (lastSync, w2) \<Rightarrow> fetchNewImages_begin lastSync w2)"

definition syncImages_afterManifest :: "SyncEnv \<Rightarrow> World \<Rightarrow> Progress \<times> World" where
  "syncImages_afterManifest env w =
     (case fetchNewImages_resume env w of
        (Inl e, w3) \<Rightarrow> (Returns (Inl e), logError SyncFailed w3)
      | (Inr newImages, w3) \<Rightarrow>
          if length newImages = 0 then (Returns (Inr ()), logInfo NoNewImages w3)
          else
            (let w4 = logInfo (FoundNewImages (length newImages)) w3;
                 w5 = w4\<lparr>downloadQueue := downloadQueue w4 @ newImages\<rparr>;
                 w6 = processDownloadQueue w5
             in case updateLastSyncTimestamp_begin env w6 of
                  (now, w7) \<Rightarrow> (Writes now, w7)))"

definition syncImages_afterWrite :: "SyncEnv \<Rightarrow> string \<Rightarrow> World \<Rightarrow> (error + unit) \<times> World" where
  "syncImages_afterWrite env now w = (Inr (), updateLastSyncTimestamp_resume env now w)"

text \<open>
  \<open>syncImages\<close>, run to its end with the answers of \<open>env\<close> and nothing else
  happening in between.
\<close>

definition syncImages :: "SyncEnv \<Rightarrow> World \<Rightarrow> (error + unit) \<times> World" where
  "syncImages env w =
     (case syncImages_afterUser env (syncImages_begin w) of
        (Some r, w1) \<Rightarrow> (r, w1)
      | (None, w1) \<Rightarrow>
          (case syncImages_afterManifest env (syncImages_afterLastSync env w1) of
             (Returns r, w3) \<Rightarrow> (r, w3)
           | (Writes now, w3) \<Rightarrow> syncImages_afterWrite env now w3))"

subsection \<open>Starting and stopping\<close>

text \<open>
  A call of \<open>syncImages\<close>: the function runs up to its first \<open>await\<close>, and the run
  joins \<open>pendingSyncs\<close> with the name of its caller.
\<close>

definition beginSync :: "Caller \<Rightarrow> World \<Rightarrow> World" where
  "beginSync caller w =
     (let w1 = syncImages_begin w
      in w1\<lparr>pendingSyncs := pendingSyncs w1 @ [(caller, AwaitUser)]\<rparr>)"

text \<open>
  \<open>start\<close> up to \<open>await this.syncImages()\<close>; the rest of \<open>start\<close>
  (\<open>start_afterSync\<close>) runs when the run of \<open>syncImages\<close> has finished.
\<close>

definition start :: "World \<Rightarrow> World" where
  "start w =
     (if isRunning w then logInfo ServiceAlreadyRunning w
      else beginSync FromStart
             (w\<lparr>isRunning := True,
                abortController := Some (nextHandle w),
                nextHandle := nextHandle w + 1\<rparr>))"

definition start_afterSync :: "error + unit \<Rightarrow> World \<Rightarrow> World" where
  "start_afterSync r w =
     (let w1 = (case r of Inl e \<Rightarrow> logError InitialSyncFailed w | Inr u \<Rightarrow> w);
          w2 = w1\<lparr>intervalId := Some (nextHandle w1),
                  intervalTimers := intervalTimers w1 @ [nextHandle w1],
                  nextHandle := nextHandle w1 + 1\<rparr>
      in logInfo ServiceStarted w2)"

text \<open>The callback given to \<open>setInterval\<close> (lines 84 to 92), up to its \<open>await\<close>.\<close>

definition intervalCallback :: "World \<Rightarrow> World" where
  "intervalCallback w =
     (if \<not> isRunning w then w else beginSync FromInterval w)"

text \<open>
  \<open>checkDownloads\<close> inside \<open>waitForActiveDownloads\<close>: \<open>True\<close> when it resolves the
  promise, \<open>False\<close> when it arms the 500 ms timer to look again.
\<close>

definition checkDownloads :: "World \<Rightarrow> bool \<times> World" where
  "checkDownloads w =
     (if activeDownloads w = 0 then (True, w)
      else (False, logInfo (WaitingForActiveDownloads (activeDownloads w)) w))"

text \<open>
  Where a call of \<open>stop\<close> stands when the code that called it goes on: it has returned
  (the service was not running), the promise it awaits is resolved and the rest of
  \<open>stop\<close> is the next microtask, or it is polling.
\<close>

datatype StopAwait = StopDone | StopResolved | StopPolling

text \<open>\<open>stop\<close> up to \<open>await this.waitForActiveDownloads()\<close>, the first check included.\<close>

definition stop :: "World \<Rightarrow> StopAwait \<times> World" where
  "stop w =
     (if \<not> isRunning w then (StopDone, logInfo ServiceNotRunning w)
      else
        (let w1 = (case intervalId w of
                     None \<Rightarrow> w
                   | Some t \<Rightarrow> w\<lparr>intervalTimers := removeAll t (intervalTimers w),
                                 intervalId := None\<rparr>);
             w2 = (case abortController w1 of
                     None \<Rightarrow> w1
                   | Some c \<Rightarrow> w1\<lparr>abortedSignals := abortedSignals w1 @ [c],
                                  abortController := None\<rparr>)
         in case checkDownloads w2 of
              (True, w3) \<Rightarrow> (StopResolved, w3)
            | (False, w3) \<Rightarrow> (StopPolling, w3\<lparr>stopPolls := stopPolls w3 + 1\<rparr>)))"

text \<open>The rest of \<open>stop\<close>, lines 122 and 123; the call has then returned.\<close>

definition stop_afterWait :: "World \<Rightarrow> World" where
  "stop_afterWait w =
     logInfo ServiceStopped (w\<lparr>isRunning := False, stopsCompleted := stopsCompleted w + 1\<rparr>)"

text \<open>
  The microtask that follows the calling code: the rest of a \<open>stop\<close> whose promise is
  resolved.
\<close>

definition afterCaller :: "StopAwait \<Rightarrow> World \<Rightarrow> World" where
  "afterCaller p w = (if p = StopResolved then stop_afterWait w else w)"

text \<open>The 500 ms timer of a polling \<open>stop\<close> fires: \<open>checkDownloads\<close> runs again.\<close>

definition stopPollFires :: "World \<Rightarrow> World" where
  "stopPollFires w =
     (if stopPolls w = 0 then w
      else (case checkDownloads w of
              (True, w1) \<Rightarrow> stop_afterWait (w1\<lparr>stopPolls := stopPolls w1 - 1\<rparr>)
            | (False, w1) \<Rightarrow> w1))"

subsection \<open>Reading and changing the configuration\<close>

text \<open>The current configuration with its array read from the store.\<close>

definition byValue :: "World \<Rightarrow> (string list) ImageSyncConfig" where
  "byValue w =
     \<lparr> pollingInterval = pollingInterval (config w),
       sourceEndpoint = sourceEndpoint (config w),
       maxConcurrentDownloads = maxConcurrentDownloads (config w),
       fileTypes = arrays w (fileTypes (config w)),
       storageLocation = storageLocation (config w),
       authToken = authToken (config w),
       retryAttempts = retryAttempts (config w),
       retryDelay = retryDelay (config w),
       logLevel = logLevel (config w) \<rparr>"

text \<open>\<open>this.config = ...\<close>: the parsed object, its array at a fresh address.\<close>

definition assignConfig :: "(string list) ImageSyncConfig \<Rightarrow> World \<Rightarrow> World" where
  "assignConfig c w =
     w\<lparr>config :=
         \<lparr> pollingInterval = pollingInterval c,
           sourceEndpoint = sourceEndpoint c,
           maxConcurrentDownloads = maxConcurrentDownloads c,
           fileTypes = nextHandle w,
           storageLocation = storageLocation c,
           authToken = authToken c,
           retryAttempts = retryAttempts c,
           retryDelay = retryDelay c,
           logLevel = logLevel c \<rparr>,
       arrays := (arrays w)(nextHandle w := fileTypes c),
       nextHandle := nextHandle w + 1\<rparr>"

text \<open>
  The body of \<open>updateConfig\<close>. \<open>this.stop()\<close> and \<open>this.start()\<close> are called without
  \<open>await\<close>: of each only the part before its first \<open>await\<close> runs here, and the function
  also returns where the call of \<open>stop\<close> stands.
\<close>

definition updateConfig ::
  "(string \<Rightarrow> bool) \<Rightarrow> string \<Rightarrow> PartialConfig \<Rightarrow> World
     \<Rightarrow> (error + unit) \<times> StopAwait \<times> World" where
  "updateConfig isUrl documentDirectory partial w =
     (let wasRunning = isRunning w
      in case (if wasRunning then stop w else (StopDone, w)) of
           (p, w1) \<Rightarrow>
             (case ConfigSchema_parse isUrl documentDirectory
                     (spreadConfig (byValue w1) partial) of
                None \<Rightarrow>
                  (Inl InvalidConfiguration, p, logError ConfigurationValidationFailed w1)
              | Some c \<Rightarrow>
                  (let w2 = assignConfig c w1;
                       w3 = (if wasRunning then start w2 else w2)
                   in (Inr (), p, logInfo ConfigurationUpdated w3))))"

text \<open>
  \<open>getConfig\<close> returns \<open>{ ...this.config }\<close>: a new object with the property values of
  the configuration. The value of \<open>fileTypes\<close> is the address of the array, so the new
  object refers to the array the service holds.
\<close>

definition getConfig :: "World \<Rightarrow> addr ImageSyncConfig" where
  "getConfig w = config w"

text \<open>
  What a caller can do to the object it got from \<open>getConfig\<close>: assign a property, or
  change the array behind \<open>fileTypes\<close> in place (\<open>push\<close>).
\<close>

datatype ConfigMutation =
    AssignPollingInterval rat
  | AssignSourceEndpoint string
  | AssignMaxConcurrentDownloads rat
  | AssignFileTypes "string list"
  | AssignStorageLocation string
  | AssignAuthToken "string option"
  | AssignRetryAttempts rat
  | AssignRetryDelay rat
  | AssignLogLevel string
  | PushFileType string

fun mutate :: "ConfigMutation \<Rightarrow> addr ImageSyncConfig \<times> World \<Rightarrow> addr ImageSyncConfig \<times> World" where
  "mutate (AssignPollingInterval v) (c, w) = (c\<lparr>pollingInterval := v\<rparr>, w)"
| "mutate (AssignSourceEndpoint v) (c, w) = (c\<lparr>sourceEndpoint := v\<rparr>, w)"
| "mutate (AssignMaxConcurrentDownloads v) (c, w) = (c\<lparr>maxConcurrentDownloads := v\<rparr>, w)"
| "mutate (AssignFileTypes v) (c, w) =
     (c\<lparr>fileTypes := nextHandle w\<rparr>,
      w\<lparr>arrays := (arrays w)(nextHandle w := v), nextHandle := nextHandle w + 1\<rparr>)"
| "mutate (AssignStorageLocation v) (c, w) = (c\<lparr>storageLocation := v\<rparr>, w)"
| "mutate (AssignAuthToken v) (c, w) = (c\<lparr>authToken := v\<rparr>, w)"
| "mutate (AssignRetryAttempts v) (c, w) = (c\<lparr>retryAttempts := v\<rparr>, w)"
| "mutate (AssignRetryDelay v) (c, w) = (c\<lparr>retryDelay := v\<rparr>, w)"
| "mutate (AssignLogLevel v) (c, w) = (c\<lparr>logLevel := v\<rparr>, w)"
| "mutate (PushFileType v) (c, w) =
     (c, w\<lparr>arrays := (arrays w)(fileTypes c := arrays w (fileTypes c) @ [v])\<rparr>)"

text \<open>
  \<open>forceSyncNow\<close> up to \<open>await this.syncImages()\<close>; \<open>Inr\<close> says that the run of
  \<open>syncImages\<close> has begun.
\<close>

definition forceSyncNow :: "World \<Rightarrow> (error + unit) \<times> World" where
  "forceSyncNow w =
     (if \<not> isRunning w then (Inl ServiceIsNotRunning, w)
      else (Inr (), beginSync FromForceSyncNow w))"

subsection \<open>Construction\<close>

text \<open>
  What the file system answers to \<open>ensureStorageDirectory\<close>: the directory exists;
  it does not, and making it succeeds or fails; or \<open>getInfoAsync\<close> fails.
\<close>

datatype DirEnv = DirExists | DirMissing bool | DirInfoFails

text \<open>
  \<open>ensureStorageDirectory\<close> in the two parts in which it runs, up to
  \<open>await FileSystem.getInfoAsync\<close> (line 448) and from the answer on, and then run to
  its end.
\<close>

definition ensureStorageDirectory_begin :: "World \<Rightarrow> World" where
  "ensureStorageDirectory_begin w = emit (GetInfoAsync (storageLocation (config w))) w"

definition ensureStorageDirectory_resume :: "DirEnv \<Rightarrow> World \<Rightarrow> World" where
  "ensureStorageDirectory_resume env w1 =
     (case env of
        DirExists \<Rightarrow> w1
      | DirInfoFails \<Rightarrow> logError FailedToEnsureStorageDirectory w1
      | DirMissing made \<Rightarrow>
          (let w2 = emit (MakeDirectoryAsync (storageLocation (config w1))) w1
           in if made then logInfo (CreatedStorageDirectory (storageLocation (config w2))) w2
              else logError FailedToEnsureStorageDirectory w2))"

definition ensureStorageDirectory :: "DirEnv \<Rightarrow> World \<Rightarrow> World" where
  "ensureStorageDirectory env w =
     ensureStorageDirectory_resume env (ensureStorageDirectory_begin w)"

text \<open>The field initialisers of the class, around a parsed configuration.\<close>

definition freshService :: "(string list) ImageSyncConfig \<Rightarrow> World" where
  "freshService c =
     \<lparr> config =
         \<lparr> pollingInterval = pollingInterval c,
           sourceEndpoint = sourceEndpoint c,
           maxConcurrentDownloads = maxConcurrentDownloads c,
           fileTypes = 0,
           storageLocation = storageLocation c,
           authToken = authToken c,
           retryAttempts = retryAttempts c,
           retryDelay = retryDelay c,
           logLevel = logLevel c \<rparr>,
       isRunning = False,
       intervalId = None,
       abortController = None,
       downloadQueue = [],
       activeDownloads = 0,
       retryMap = (\<lambda>k. None),
       arrays = (\<lambda>a. [])(0 := fileTypes c),
       nextHandle = 1,
       intervalTimers = [],
       abortedSignals = [],
       inFlight = [],
       retryTimers = [],
       stopPolls = 0,
       stopsCompleted = 0,
       pendingSyncs = [],
       storageCheck = False,
       lastSyncItem = None,
       files = (\<lambda>p. None),
       device_images = [],
       effects = [],
       console = [] \<rparr>"


subsection \<open>The event loop\<close>

text \<open>
  One event is one task of the event loop: a call from outside, a timer that fires, or
  an answer of the outside world. An event that cannot occur in a world (a download
  that is not in flight, a timer that is not armed) leaves the world as it is.
  JavaScript runs one task at a time, and the promise reactions a task queues run
  before the next task. The steps are cut accordingly:
  \<^item> a call runs up to its first \<open>await\<close> on the outside world; the rest of \<open>stop\<close>,
    which awaits a promise of the service's own, follows the calling code in the same
    step (\<open>afterCaller\<close>);
  \<^item> a run of \<open>syncImages\<close> takes one step for each answer it awaits (the user, the
    stored watermark, the manifest, the write of the new watermark; the response to the
    request and its body arrive in one step); from the push onto the queue to the call
    that writes the watermark it has no \<open>await\<close>, so that part is inside the step of
    the manifest;
  \<^item> a download is dispatched, up to its first \<open>await\<close>, in the step of the loop that
    starts it. The rest is one step, taken when the download settles: between the answer
    about the directory and the end of \<open>downloadImage\<close> the function touches the
    files, the table, the console and the requests issued, writes no field of the class
    and reads of the class only the token of the configuration; the retry ledger and
    the \<open>.catch\<close> and \<open>.finally\<close> handlers come at the end;
  \<^item> the check of the storage directory that the constructor begins goes on in the
    step in which the file system answers.
\<close>

datatype Event =
    CallStart
  | CallStop
  | CallUpdateConfig PartialConfig
  | CallForceSyncNow
  | IntervalFires nat
  | SyncProceeds Caller SyncStage SyncEnv
  | DownloadSettles Download DownloadEnv
  | RetryTimerFires ImageMetadata
  | StopPollFires
  | StorageDirectoryAnswers DirEnv

text \<open>A run of \<open>syncImages\<close> has returned: the code that awaited it goes on.\<close>

definition syncReturns :: "Caller \<Rightarrow> error + unit \<Rightarrow> World \<Rightarrow> World" where
  "syncReturns caller r w =
     (case caller of
        FromStart \<Rightarrow> start_afterSync r w
      | FromInterval \<Rightarrow> (case r of Inl e \<Rightarrow> logError PeriodicSyncFailed w | Inr u \<Rightarrow> w)
      | FromForceSyncNow \<Rightarrow> w)"

definition syncProceeds :: "Caller \<Rightarrow> SyncStage \<Rightarrow> SyncEnv \<Rightarrow> World \<Rightarrow> World" where
  "syncProceeds caller stage env w =
     (if (caller, stage) \<in> set (pendingSyncs w) then
        (let w0 = w\<lparr>pendingSyncs := remove1 (caller, stage) (pendingSyncs w)\<rparr>
         in case stage of
              AwaitUser \<Rightarrow>
                (case syncImages_afterUser env w0 of
                   (Some r, w1) \<Rightarrow> syncReturns caller r w1
                 | (None, w1) \<Rightarrow>
                     w1\<lparr>pendingSyncs := pendingSyncs w1 @ [(caller, AwaitLastSync)]\<rparr>)
            | AwaitLastSync \<Rightarrow>
                (let w1 = syncImages_afterLastSync env w0
                 in w1\<lparr>pendingSyncs := pendingSyncs w1 @ [(caller, AwaitManifest)]\<rparr>)
            | AwaitManifest \<Rightarrow>
                (case syncImages_afterManifest env w0 of
                   (Returns r, w1) \<Rightarrow> syncReturns caller r w1
                 | (Writes now, w1) \<Rightarrow>
                     w1\<lparr>pendingSyncs := pendingSyncs w1 @ [(caller, AwaitWrite now)]\<rparr>)
            | AwaitWrite now \<Rightarrow>
                (case syncImages_afterWrite env now w0 of
                   (r, w1) \<Rightarrow> syncReturns caller r w1))
      else w)"

fun step :: "(string \<Rightarrow> bool) \<Rightarrow> string \<Rightarrow> Event \<Rightarrow> World \<Rightarrow> World" where
  "step isUrl dd CallStart w = start w"
| "step isUrl dd CallStop w = (case stop w of (p, w1) \<Rightarrow> afterCaller p w1)"
| "step isUrl dd (CallUpdateConfig partial) w =
     (case updateConfig isUrl dd partial w of (r, p, w1) \<Rightarrow> afterCaller p w1)"
| "step isUrl dd CallForceSyncNow w = snd (forceSyncNow w)"
| "step isUrl dd (IntervalFires t) w =
     (if t \<in> set (intervalTimers w) then intervalCallback w else w)"
| "step isUrl dd (SyncProceeds caller stage env) w = syncProceeds caller stage env w"
| "step isUrl dd (DownloadSettles d env) w = downloadSettles env d w"
| "step isUrl dd (RetryTimerFires img) w = retryTimerFires img w"
| "step isUrl dd StopPollFires w = stopPollFires w"
| "step isUrl dd (StorageDirectoryAnswers env) w =
     (if storageCheck w then ensureStorageDirectory_resume env (w\<lparr>storageCheck := False\<rparr>)
      else w)"

fun run :: "(string \<Rightarrow> bool) \<Rightarrow> string \<Rightarrow> Event list \<Rightarrow> World \<Rightarrow> World" where
  "run isUrl dd [] w = w"
| "run isUrl dd (e # es) w = run isUrl dd es (step isUrl dd e w)"

subsection \<open>Notions used in the statements\<close>

text \<open>
  How many images one call of \<open>processDownloadQueue\<close> dispatches: the loop goes on
  while the counter is below the limit, so a limit that is not a whole number admits
  the next whole number of downloads.
\<close>

definition dispatchable :: "World \<Rightarrow> nat" where
  "dispatchable w =
     min (length (downloadQueue w))
         (nat \<lceil>maxConcurrentDownloads (config w) - of_int (activeDownloads w)\<rceil>)"

text \<open>The answers with which \<open>downloadImage\<close> throws.\<close>

definition failing :: "DownloadEnv \<Rightarrow> bool" where
  "failing env =
     (\<not> dl_mkdirOk env
      \<or> (case dl_transfer env of None \<Rightarrow> True | Some (status, md5) \<Rightarrow> status \<noteq> 200)
      \<or> \<not> dl_user env \<or> \<not> dl_insertOk env)"

text \<open>The lines printed with \<open>console.warn\<close>.\<close>

definition warnings :: "World \<Rightarrow> LogMsg list" where
  "warnings w = map snd (filter (\<lambda>l. fst l = ConsoleWarn) (console w))"

text \<open>
  An element of the response from which a file name can be had: its \<open>fileName\<close> is
  a non-empty string, or its \<open>url\<close> is a string.
\<close>

definition nameable :: "ManifestItem \<Rightarrow> bool" where
  "nameable item =
     ((case item_fileName item of Str f \<Rightarrow> f \<noteq> [] | _ \<Rightarrow> False)
      \<or> (case item_url item of Str u \<Rightarrow> True | _ \<Rightarrow> False))"

text \<open>
  A world in which the download \<open>d\<close> is in flight and nothing else is queued, in
  flight or waiting for a retry.
\<close>

definition onlyAttempt :: "Download \<Rightarrow> World \<Rightarrow> bool" where
  "onlyAttempt d w =
     (inFlight w = [d] \<and> downloadQueue w = [] \<and> retryTimers w = []
      \<and> activeDownloads w = 1)"

text \<open>
  The counter \<open>activeDownloads\<close> and the configured limit, rounded up, are both at most
  \<open>h\<close>, and the counter counts the downloads in flight.
\<close>

definition withinLimit :: "int \<Rightarrow> World \<Rightarrow> bool" where
  "withinLimit h w =
     (activeDownloads w \<le> h \<and> \<lceil>maxConcurrentDownloads (config w)\<rceil> \<le> h
      \<and> activeDownloads w = int (length (inFlight w)))"






text \<open>A mutation that assigns a property of the object, as opposed to \<open>push\<close>.\<close>

definition isAssignment :: "ConfigMutation \<Rightarrow> bool" where
  "isAssignment m = (case m of PushFileType v \<Rightarrow> False | _ \<Rightarrow> True)"

subsection \<open>Sample inputs\<close>

definition sampleIsUrl :: "string \<Rightarrow> bool" where
  "sampleIsUrl s = (take 8 s = ''https://'')"

definition sampleConfig :: "rat \<Rightarrow> rat \<Rightarrow> (string list) ImageSyncConfig" where
  "sampleConfig cap retries =
     \<lparr> pollingInterval = 300000, sourceEndpoint = ''https://api.fieldshield.com/images'',
       maxConcurrentDownloads = cap, fileTypes = [''jpg'', ''jpeg'', ''png''],
       storageLocation = ''/documents/images/'', authToken = None,
       retryAttempts = retries, retryDelay = 1000, logLevel = ''info'' \<rparr>"


text \<open>The object \<open>{}\<close>, and objects with one property.\<close>

definition noChange :: PartialConfig where
  "noChange =
     \<lparr> part_pollingInterval = Absent, part_sourceEndpoint = Absent,
       part_maxConcurrentDownloads = Absent, part_fileTypes = Absent,
       part_storageLocation = Absent, part_authToken = Absent,
       part_retryAttempts = Absent, part_retryDelay = Absent, part_logLevel = Absent \<rparr>"

definition limitOnly :: "rat \<Rightarrow> PartialConfig" where
  "limitOnly cap = noChange\<lparr>part_maxConcurrentDownloads := Present (Some cap)\<rparr>"

definition zeroCap :: PartialConfig where
  "zeroCap = limitOnly 0"

definition undefinedEndpoint :: PartialConfig where
  "undefinedEndpoint = noChange\<lparr>part_sourceEndpoint := Present None\<rparr>"

definition sampleItem :: "string \<Rightarrow> string \<Rightarrow> ManifestItem" where
  "sampleItem i t =
     \<lparr> item_id = Str i, item_url = Str (''https://cdn.fieldshield.com/'' @ i @ ''.PNG?v=2''),
       item_timestamp = Str t, item_deviceId = Str ''dev1'', item_fileName = Undefined \<rparr>"

definition sampleImage :: "string \<Rightarrow> string \<Rightarrow> ImageMetadata" where
  "sampleImage i t =
     \<lparr> img_id = Str i, img_url = Str (''https://cdn.fieldshield.com/'' @ i @ ''.PNG?v=2''),
       img_timestamp = Str t, img_deviceId = Str ''dev1'',
       img_fileName = ''image_'' @ i @ ''.png'' \<rparr>"

text \<open>The download of a sample image, called under \<open>sampleConfig\<close>.\<close>

definition sampleDownload :: "string \<Rightarrow> string \<Rightarrow> Download" where
  "sampleDownload i t = (sampleImage i t, ''/documents/images/dev1/image_'' @ i @ ''.png'')"

definition sampleSync :: "ManifestItem list \<Rightarrow> SyncEnv" where
  "sampleSync data =
     \<lparr> sync_user = True, sync_getItemOk = True,
       sync_fetch = FetchResponse 200 (JsonArray data),
       sync_now = ''2026-11-02T09:00:00.000Z'', sync_setItemOk = True \<rparr>"

definition transferred :: "nat \<Rightarrow> string \<Rightarrow> DownloadEnv" where
  "transferred status md5 =
     \<lparr> dl_mkdirOk = True, dl_transfer = Some (status, md5), dl_user = True,
       dl_insertOk = True \<rparr>"


text \<open>
  The same service once its storage directory is found to exist, started, its first
  cycle waiting for the user.
\<close>

definition sampleStarted :: "rat \<Rightarrow> rat \<Rightarrow> World" where
  "sampleStarted cap retries =
     start (ensureStorageDirectory DirExists (freshService (sampleConfig cap retries)))"

text \<open>
  The manifest of the end-to-end scenario: three well-formed items, and a fourth that
  lacks \<open>url\<close>, once with a file name of its own and once without.
\<close>

definition threeItems :: "ManifestItem list" where
  "threeItems =
     [sampleItem ''a'' ''2025-01-01T10:00:00.000Z'',
      sampleItem ''b'' ''2025-01-03T10:00:00.000Z'',
      sampleItem ''c'' ''2025-01-02T10:00:00.000Z'']"

definition threeImages :: "ImageMetadata list" where
  "threeImages =
     [sampleImage ''a'' ''2025-01-01T10:00:00.000Z'',
      sampleImage ''b'' ''2025-01-03T10:00:00.000Z'',
      sampleImage ''c'' ''2025-01-02T10:00:00.000Z'']"

definition noUrlNamed :: ManifestItem where
  "noUrlNamed =
     \<lparr> item_id = Str ''d'', item_url = Undefined,
       item_timestamp = Str ''2025-01-04T10:00:00.000Z'', item_deviceId = Str ''dev1'',
       item_fileName = Str ''d.png'' \<rparr>"

definition noUrlUnnamed :: ManifestItem where
  "noUrlUnnamed =
     \<lparr> item_id = Str ''d'', item_url = Undefined,
       item_timestamp = Str ''2025-01-04T10:00:00.000Z'', item_deviceId = Str ''dev1'',
       item_fileName = Undefined \<rparr>"

text \<open>
  The four answers a run of \<open>syncImages\<close> awaits, arriving one after the other.
\<close>

definition cycle :: "Caller \<Rightarrow> SyncEnv \<Rightarrow> Event list" where
  "cycle caller env =
     [SyncProceeds caller AwaitUser env, SyncProceeds caller AwaitLastSync env,
      SyncProceeds caller AwaitManifest env,
      SyncProceeds caller (AwaitWrite (sync_now env)) env]"

text \<open>The first cycle of a started service, run on a manifest.\<close>

definition firstCycle :: "rat \<Rightarrow> rat \<Rightarrow> ManifestItem list \<Rightarrow> World" where
  "firstCycle cap retries data =
     run sampleIsUrl ''/documents/'' (cycle FromStart (sampleSync data))
       (sampleStarted cap retries)"

text \<open>A world in which a file with a given content hash lies at a path.\<close>

definition withFile :: "string \<Rightarrow> string \<Rightarrow> World \<Rightarrow> World" where
  "withFile path md5 w = w\<lparr>files := (files w)(path \<mapsto> md5)\<rparr>"

text \<open>A transfer the server answers with status 500.\<close>

definition refused :: DownloadEnv where
  "refused = transferred 500 ''''"

definition itemA :: ManifestItem where
  "itemA = sampleItem ''a'' ''2025-01-01T10:00:00.000Z''"

definition imgA :: ImageMetadata where
  "imgA = sampleImage ''a'' ''2025-01-01T10:00:00.000Z''"

definition dlA :: Download where
  "dlA = sampleDownload ''a'' ''2025-01-01T10:00:00.000Z''"

definition itemB :: ManifestItem where
  "itemB = sampleItem ''b'' ''2025-01-03T10:00:00.000Z''"


definition dlB :: Download where
  "dlB = sampleDownload ''b'' ''2025-01-03T10:00:00.000Z''"

text \<open>
  The first cycle on a manifest, then the download of \<open>imgA\<close> refused once, twice and
  three times, its retry timer firing in between.
\<close>

definition oneFailure :: "rat \<Rightarrow> rat \<Rightarrow> ManifestItem list \<Rightarrow> World" where
  "oneFailure cap retries data = downloadSettles refused dlA (firstCycle cap retries data)"

definition twoFailures :: "rat \<Rightarrow> rat \<Rightarrow> ManifestItem list \<Rightarrow> World" where
  "twoFailures cap retries data =
     downloadSettles refused dlA (retryTimerFires imgA (oneFailure cap retries data))"

definition threeFailures :: "rat \<Rightarrow> rat \<Rightarrow> ManifestItem list \<Rightarrow> World" where
  "threeFailures cap retries data =
     downloadSettles refused dlA (retryTimerFires imgA (twoFailures cap retries data))"

text \<open>
  A running service whose first cycle found nothing, and a change of configuration that
  fails validation.
\<close>

definition sampleRunning :: "rat \<Rightarrow> rat \<Rightarrow> World" where
  "sampleRunning cap retries = firstCycle cap retries []"

text \<open>
  \<open>stop\<close> is called while \<open>imgA\<close> is being downloaded; the poll timer fires once
  before the download succeeds.
\<close>

definition stopTrace :: "Event list" where
  "stopTrace = [CallStop, StopPollFires, DownloadSettles dlA (transferred 200 ''h1'')]"




section \<open>Properties\<close>

subsection \<open>What the primitive operations leave alone\<close>

lemma emit_frame [simp]:
  shows "config (emit e w) = config w"
    "isRunning (emit e w) = isRunning w"
    "intervalId (emit e w) = intervalId w"
    "abortController (emit e w) = abortController w"
    "downloadQueue (emit e w) = downloadQueue w"
    "activeDownloads (emit e w) = activeDownloads w"
    "retryMap (emit e w) = retryMap w"
    "arrays (emit e w) = arrays w"
    "nextHandle (emit e w) = nextHandle w"
    "intervalTimers (emit e w) = intervalTimers w"
    "abortedSignals (emit e w) = abortedSignals w"
    "inFlight (emit e w) = inFlight w"
    "retryTimers (emit e w) = retryTimers w"
    "stopPolls (emit e w) = stopPolls w"
    "stopsCompleted (emit e w) = stopsCompleted w"
    "pendingSyncs (emit e w) = pendingSyncs w"
    "storageCheck (emit e w) = storageCheck w"
    "lastSyncItem (emit e w) = lastSyncItem w"
    "files (emit e w) = files w"
    "device_images (emit e w) = device_images w"
    "console (emit e w) = console w"
  by (simp_all add: emit_def)

lemma emit_effects [simp]: "effects (emit e w) = effects w @ [e]"
  by (simp add: emit_def)

lemma logInfo_frame [simp]:
  shows "config (logInfo m w) = config w"
    "isRunning (logInfo m w) = isRunning w"
    "intervalId (logInfo m w) = intervalId w"
    "abortController (logInfo m w) = abortController w"
    "downloadQueue (logInfo m w) = downloadQueue w"
    "activeDownloads (logInfo m w) = activeDownloads w"
    "retryMap (logInfo m w) = retryMap w"
    "arrays (logInfo m w) = arrays w"
    "nextHandle (logInfo m w) = nextHandle w"
    "intervalTimers (logInfo m w) = intervalTimers w"
    "abortedSignals (logInfo m w) = abortedSignals w"
    "inFlight (logInfo m w) = inFlight w"
    "retryTimers (logInfo m w) = retryTimers w"
    "stopPolls (logInfo m w) = stopPolls w"
    "stopsCompleted (logInfo m w) = stopsCompleted w"
    "pendingSyncs (logInfo m w) = pendingSyncs w"
    "storageCheck (logInfo m w) = storageCheck w"
    "lastSyncItem (logInfo m w) = lastSyncItem w"
    "files (logInfo m w) = files w"
    "device_images (logInfo m w) = device_images w"
    "effects (logInfo m w) = effects w"
  by (simp_all add: logInfo_def)

lemma logWarn_frame [simp]:
  shows "config (logWarn m w) = config w"
    "isRunning (logWarn m w) = isRunning w"
    "intervalId (logWarn m w) = intervalId w"
    "abortController (logWarn m w) = abortController w"
    "downloadQueue (logWarn m w) = downloadQueue w"
    "activeDownloads (logWarn m w) = activeDownloads w"
    "retryMap (logWarn m w) = retryMap w"
    "arrays (logWarn m w) = arrays w"
    "nextHandle (logWarn m w) = nextHandle w"
    "intervalTimers (logWarn m w) = intervalTimers w"
    "abortedSignals (logWarn m w) = abortedSignals w"
    "inFlight (logWarn m w) = inFlight w"
    "retryTimers (logWarn m w) = retryTimers w"
    "stopPolls (logWarn m w) = stopPolls w"
    "stopsCompleted (logWarn m w) = stopsCompleted w"
    "pendingSyncs (logWarn m w) = pendingSyncs w"
    "storageCheck (logWarn m w) = storageCheck w"
    "lastSyncItem (logWarn m w) = lastSyncItem w"
    "files (logWarn m w) = files w"
    "device_images (logWarn m w) = device_images w"
    "effects (logWarn m w) = effects w"
  by (simp_all add: logWarn_def)

lemma logError_frame [simp]:
  shows "config (logError m w) = config w"
    "isRunning (logError m w) = isRunning w"
    "intervalId (logError m w) = intervalId w"
    "abortController (logError m w) = abortController w"
    "downloadQueue (logError m w) = downloadQueue w"
    "activeDownloads (logError m w) = activeDownloads w"
    "retryMap (logError m w) = retryMap w"
    "arrays (logError m w) = arrays w"
    "nextHandle (logError m w) = nextHandle w"
    "intervalTimers (logError m w) = intervalTimers w"
    "abortedSignals (logError m w) = abortedSignals w"
    "inFlight (logError m w) = inFlight w"
    "retryTimers (logError m w) = retryTimers w"
    "stopPolls (logError m w) = stopPolls w"
    "stopsCompleted (logError m w) = stopsCompleted w"
    "pendingSyncs (logError m w) = pendingSyncs w"
    "storageCheck (logError m w) = storageCheck w"
    "lastSyncItem (logError m w) = lastSyncItem w"
    "files (logError m w) = files w"
    "device_images (logError m w) = device_images w"
    "effects (logError m w) = effects w"
  by (simp_all add: logError_def)

lemma warnings_logInfo [simp]: "warnings (logInfo m w) = warnings w"
  by (simp add: warnings_def logInfo_def)

lemma warnings_logError [simp]: "warnings (logError m w) = warnings w"
  by (simp add: warnings_def logError_def)

lemma warnings_emit [simp]: "warnings (emit e w) = warnings w"
  by (simp add: warnings_def emit_def)

lemma warnings_console: "console w' = console w \<Longrightarrow> warnings w' = warnings w"
  by (simp add: warnings_def)

lemma filePathOf_config: "config w' = config w \<Longrightarrow> filePathOf w' img = filePathOf w img"
  by (simp add: filePathOf_def)

lemma directoryOf_config: "config w' = config w \<Longrightarrow> directoryOf w' img = directoryOf w img"
  by (simp add: directoryOf_def)

lemma bearer_config: "config w' = config w \<Longrightarrow> bearer w' = bearer w"
  by (simp add: bearer_def)

lemma filePathOf_frame [simp]:
  shows "filePathOf (emit e w) img = filePathOf w img"
    "filePathOf (w\<lparr>downloadQueue := q\<rparr>) img = filePathOf w img"
    "filePathOf (w\<lparr>activeDownloads := a\<rparr>) img = filePathOf w img"
    "filePathOf (w\<lparr>inFlight := f\<rparr>) img = filePathOf w img"
    "filePathOf (w\<lparr>files := fs\<rparr>) img = filePathOf w img"
    "filePathOf (w\<lparr>retryTimers := ts\<rparr>) img = filePathOf w img"
  by (simp_all add: filePathOf_def)

lemma directoryOf_frame [simp]:
  shows "directoryOf (emit e w) img = directoryOf w img"
    "directoryOf (w\<lparr>downloadQueue := q\<rparr>) img = directoryOf w img"
    "directoryOf (w\<lparr>activeDownloads := a\<rparr>) img = directoryOf w img"
    "directoryOf (w\<lparr>inFlight := f\<rparr>) img = directoryOf w img"
    "directoryOf (w\<lparr>retryTimers := ts\<rparr>) img = directoryOf w img"
  by (simp_all add: directoryOf_def)

lemma bearer_frame [simp]:
  shows "bearer (emit e w) = bearer w"
    "bearer (w\<lparr>inFlight := f\<rparr>) = bearer w"
  by (simp_all add: bearer_def)

subsection \<open>What one call of the queue loop does\<close>

text \<open>
  While the counter is below the limit one more download fits; the number that fit is
  the distance to the limit, rounded up.
\<close>

lemma room_step:
  fixes c :: rat
  assumes "of_int a < c"
  shows "nat \<lceil>c - of_int a\<rceil> = Suc (nat \<lceil>c - of_int (a + 1)\<rceil>)"
proof -
  have "0 < c - of_int a" using assms by simp
  then have p: "0 < \<lceil>c - of_int a\<rceil>" by (simp add: ceiling_less_iff less_ceiling_iff)
  have "c - of_int (a + 1) = (c - of_int a) - 1" by simp
  then have "\<lceil>c - of_int (a + 1)\<rceil> = \<lceil>c - of_int a\<rceil> - 1"
    by (simp only: ceiling_diff_one)
  then show ?thesis using p by simp
qed

lemma room_none:
  fixes c :: rat
  assumes "\<not> of_int a < c"
  shows "nat \<lceil>c - of_int a\<rceil> = 0"
proof -
  have "c - of_int a \<le> 0" using assms by simp
  then have "\<lceil>c - of_int a\<rceil> \<le> 0" by (simp add: ceiling_le_iff)
  then show ?thesis by simp
qed

text \<open>
  The loop in closed form: the first \<open>dispatchable w\<close> images leave the queue and are
  in flight, each with the path computed for it, and for each the directory has been
  asked for, in the order of the queue.
\<close>

lemma processDownloadQueue_closed:
  "processDownloadQueue w =
     w\<lparr>downloadQueue := drop (dispatchable w) (downloadQueue w),
       activeDownloads := activeDownloads w + int (dispatchable w),
       inFlight := inFlight w
          @ map (\<lambda>i. (i, filePathOf w i)) (take (dispatchable w) (downloadQueue w)),
       effects := effects w
          @ map (\<lambda>i. MakeDirectoryAsync (directoryOf w i))
              (take (dispatchable w) (downloadQueue w))\<rparr>"
proof (induction w rule: processDownloadQueue.induct)
  case (1 w)
  show ?case
  proof (cases "length (downloadQueue w) > 0
                \<and> of_int (activeDownloads w) < maxConcurrentDownloads (config w)")
    case True
    obtain x xs where q: "downloadQueue w = x # xs" using True by (cases "downloadQueue w") auto
    let ?w' = "w\<lparr>downloadQueue := xs,
                activeDownloads := activeDownloads w + 1,
                inFlight := inFlight w @ [(x, filePathOf w x)],
                effects := effects w @ [MakeDirectoryAsync (directoryOf w x)]\<rparr>"
    have n: "(snd (downloadImage_begin (hd (downloadQueue w))
                 (w\<lparr>downloadQueue := tl (downloadQueue w),
                    activeDownloads := activeDownloads w + 1\<rparr>)))
               \<lparr>inFlight := inFlight (snd (downloadImage_begin (hd (downloadQueue w))
                    (w\<lparr>downloadQueue := tl (downloadQueue w),
                       activeDownloads := activeDownloads w + 1\<rparr>)))
                  @ [(hd (downloadQueue w),
                      fst (downloadImage_begin (hd (downloadQueue w))
                        (w\<lparr>downloadQueue := tl (downloadQueue w),
                           activeDownloads := activeDownloads w + 1\<rparr>)))]\<rparr> = ?w'"
      using q by (simp add: downloadImage_begin_def emit_def)
    have c: "filePathOf ?w' = filePathOf w" "directoryOf ?w' = directoryOf w"
      by (simp_all add: fun_eq_iff filePathOf_def directoryOf_def)
    have k: "dispatchable w = Suc (dispatchable ?w')"
      using True q room_step [of "activeDownloads w" "maxConcurrentDownloads (config w)"]
      by (simp add: dispatchable_def)
    have "processDownloadQueue w = processDownloadQueue ?w'"
      using True n by (subst processDownloadQueue.simps) (simp add: Let_def)
    also have "\<dots> = ?w'\<lparr>downloadQueue := drop (dispatchable ?w') (downloadQueue ?w'),
       activeDownloads := activeDownloads ?w' + int (dispatchable ?w'),
       inFlight := inFlight ?w'
          @ map (\<lambda>i. (i, filePathOf ?w' i)) (take (dispatchable ?w') (downloadQueue ?w')),
       effects := effects ?w'
          @ map (\<lambda>i. MakeDirectoryAsync (directoryOf ?w' i))
              (take (dispatchable ?w') (downloadQueue ?w'))\<rparr>"
      using "1.IH" [OF True refl refl] unfolding n .
    finally show ?thesis
      unfolding k c using q by simp
  next
    case False
    have k: "dispatchable w = 0"
      using False room_none [of "activeDownloads w" "maxConcurrentDownloads (config w)"]
      by (auto simp: dispatchable_def)
    have "processDownloadQueue w = w"
      using False by (subst processDownloadQueue.simps) auto
    then show ?thesis unfolding k by simp
  qed
qed

lemma processDownloadQueue_frame [simp]:
  shows "config (processDownloadQueue w) = config w"
    "isRunning (processDownloadQueue w) = isRunning w"
    "intervalId (processDownloadQueue w) = intervalId w"
    "abortController (processDownloadQueue w) = abortController w"
    "retryMap (processDownloadQueue w) = retryMap w"
    "arrays (processDownloadQueue w) = arrays w"
    "nextHandle (processDownloadQueue w) = nextHandle w"
    "intervalTimers (processDownloadQueue w) = intervalTimers w"
    "abortedSignals (processDownloadQueue w) = abortedSignals w"
    "retryTimers (processDownloadQueue w) = retryTimers w"
    "stopPolls (processDownloadQueue w) = stopPolls w"
    "stopsCompleted (processDownloadQueue w) = stopsCompleted w"
    "pendingSyncs (processDownloadQueue w) = pendingSyncs w"
    "storageCheck (processDownloadQueue w) = storageCheck w"
    "lastSyncItem (processDownloadQueue w) = lastSyncItem w"
    "files (processDownloadQueue w) = files w"
    "device_images (processDownloadQueue w) = device_images w"
    "console (processDownloadQueue w) = console w"
  by (subst processDownloadQueue_closed, simp)+

lemma processDownloadQueue_fields:
  shows "downloadQueue (processDownloadQueue w) = drop (dispatchable w) (downloadQueue w)"
    and "activeDownloads (processDownloadQueue w) = activeDownloads w + int (dispatchable w)"
    and "inFlight (processDownloadQueue w)
           = inFlight w @ map (\<lambda>i. (i, filePathOf w i)) (take (dispatchable w) (downloadQueue w))"
    and "effects (processDownloadQueue w)
           = effects w @ map (\<lambda>i. MakeDirectoryAsync (directoryOf w i))
                            (take (dispatchable w) (downloadQueue w))"
  by (subst processDownloadQueue_closed, simp)+

lemma processDownloadQueue_pending [simp]:
  "map fst (inFlight (processDownloadQueue w)) @ downloadQueue (processDownloadQueue w)
     = map fst (inFlight w) @ downloadQueue w"
  by (simp add: processDownloadQueue_fields comp_def flip: take_map)

lemma warnings_processDownloadQueue [simp]: "warnings (processDownloadQueue w) = warnings w"
  by (simp add: warnings_def)

lemma dispatchable_cong:
  "downloadQueue w' = downloadQueue w \<Longrightarrow> activeDownloads w' = activeDownloads w
     \<Longrightarrow> config w' = config w \<Longrightarrow> dispatchable w' = dispatchable w"
  by (simp add: dispatchable_def)

subsection \<open>What a sync cycle changes\<close>

lemma warnings_update [simp]:
  shows "warnings (w\<lparr>lastSyncItem := v1\<rparr>) = warnings w"
    "warnings (w\<lparr>downloadQueue := v2\<rparr>) = warnings w"
    "warnings (w\<lparr>files := v3\<rparr>) = warnings w"
    "warnings (w\<lparr>device_images := v4\<rparr>) = warnings w"
    "warnings (w\<lparr>retryMap := v5\<rparr>) = warnings w"
    "warnings (w\<lparr>inFlight := v6\<rparr>) = warnings w"
    "warnings (w\<lparr>retryTimers := v7\<rparr>) = warnings w"
    "warnings (w\<lparr>activeDownloads := v8\<rparr>) = warnings w"
    "warnings (w\<lparr>pendingSyncs := v9\<rparr>) = warnings w"
  by (simp_all add: warnings_def)

lemma getLastSyncTimestamp_begin_frame [simp]:
  shows "config (getLastSyncTimestamp_begin w) = config w"
    "isRunning (getLastSyncTimestamp_begin w) = isRunning w"
    "intervalId (getLastSyncTimestamp_begin w) = intervalId w"
    "abortController (getLastSyncTimestamp_begin w) = abortController w"
    "downloadQueue (getLastSyncTimestamp_begin w) = downloadQueue w"
    "activeDownloads (getLastSyncTimestamp_begin w) = activeDownloads w"
    "retryMap (getLastSyncTimestamp_begin w) = retryMap w"
    "arrays (getLastSyncTimestamp_begin w) = arrays w"
    "nextHandle (getLastSyncTimestamp_begin w) = nextHandle w"
    "intervalTimers (getLastSyncTimestamp_begin w) = intervalTimers w"
    "abortedSignals (getLastSyncTimestamp_begin w) = abortedSignals w"
    "inFlight (getLastSyncTimestamp_begin w) = inFlight w"
    "retryTimers (getLastSyncTimestamp_begin w) = retryTimers w"
    "stopPolls (getLastSyncTimestamp_begin w) = stopPolls w"
    "stopsCompleted (getLastSyncTimestamp_begin w) = stopsCompleted w"
    "pendingSyncs (getLastSyncTimestamp_begin w) = pendingSyncs w"
    "storageCheck (getLastSyncTimestamp_begin w) = storageCheck w"
    "lastSyncItem (getLastSyncTimestamp_begin w) = lastSyncItem w"
    "files (getLastSyncTimestamp_begin w) = files w"
    "device_images (getLastSyncTimestamp_begin w) = device_images w"
    "console (getLastSyncTimestamp_begin w) = console w"
  by (simp_all add: getLastSyncTimestamp_begin_def)

lemma getLastSyncTimestamp_resume_frame [simp]:
  shows "config (snd (getLastSyncTimestamp_resume env w)) = config w"
    "isRunning (snd (getLastSyncTimestamp_resume env w)) = isRunning w"
    "intervalId (snd (getLastSyncTimestamp_resume env w)) = intervalId w"
    "abortController (snd (getLastSyncTimestamp_resume env w)) = abortController w"
    "downloadQueue (snd (getLastSyncTimestamp_resume env w)) = downloadQueue w"
    "activeDownloads (snd (getLastSyncTimestamp_resume env w)) = activeDownloads w"
    "retryMap (snd (getLastSyncTimestamp_resume env w)) = retryMap w"
    "arrays (snd (getLastSyncTimestamp_resume env w)) = arrays w"
    "nextHandle (snd (getLastSyncTimestamp_resume env w)) = nextHandle w"
    "intervalTimers (snd (getLastSyncTimestamp_resume env w)) = intervalTimers w"
    "abortedSignals (snd (getLastSyncTimestamp_resume env w)) = abortedSignals w"
    "inFlight (snd (getLastSyncTimestamp_resume env w)) = inFlight w"
    "retryTimers (snd (getLastSyncTimestamp_resume env w)) = retryTimers w"
    "stopPolls (snd (getLastSyncTimestamp_resume env w)) = stopPolls w"
    "stopsCompleted (snd (getLastSyncTimestamp_resume env w)) = stopsCompleted w"
    "pendingSyncs (snd (getLastSyncTimestamp_resume env w)) = pendingSyncs w"
    "storageCheck (snd (getLastSyncTimestamp_resume env w)) = storageCheck w"
    "lastSyncItem (snd (getLastSyncTimestamp_resume env w)) = lastSyncItem w"
    "files (snd (getLastSyncTimestamp_resume env w)) = files w"
    "device_images (snd (getLastSyncTimestamp_resume env w)) = device_images w"
    "effects (snd (getLastSyncTimestamp_resume env w)) = effects w"
  by (simp_all add: getLastSyncTimestamp_resume_def)

lemma getLastSyncTimestamp_frame [simp]:
  shows "config (snd (getLastSyncTimestamp env w)) = config w"
    "isRunning (snd (getLastSyncTimestamp env w)) = isRunning w"
    "intervalId (snd (getLastSyncTimestamp env w)) = intervalId w"
    "abortController (snd (getLastSyncTimestamp env w)) = abortController w"
    "downloadQueue (snd (getLastSyncTimestamp env w)) = downloadQueue w"
    "activeDownloads (snd (getLastSyncTimestamp env w)) = activeDownloads w"
    "retryMap (snd (getLastSyncTimestamp env w)) = retryMap w"
    "arrays (snd (getLastSyncTimestamp env w)) = arrays w"
    "nextHandle (snd (getLastSyncTimestamp env w)) = nextHandle w"
    "intervalTimers (snd (getLastSyncTimestamp env w)) = intervalTimers w"
    "abortedSignals (snd (getLastSyncTimestamp env w)) = abortedSignals w"
    "inFlight (snd (getLastSyncTimestamp env w)) = inFlight w"
    "retryTimers (snd (getLastSyncTimestamp env w)) = retryTimers w"
    "stopPolls (snd (getLastSyncTimestamp env w)) = stopPolls w"
    "stopsCompleted (snd (getLastSyncTimestamp env w)) = stopsCompleted w"
    "pendingSyncs (snd (getLastSyncTimestamp env w)) = pendingSyncs w"
    "storageCheck (snd (getLastSyncTimestamp env w)) = storageCheck w"
    "lastSyncItem (snd (getLastSyncTimestamp env w)) = lastSyncItem w"
    "files (snd (getLastSyncTimestamp env w)) = files w"
    "device_images (snd (getLastSyncTimestamp env w)) = device_images w"
  by (simp_all add: getLastSyncTimestamp_def)

lemma warnings_getLastSyncTimestamp [simp]:
  shows "warnings (getLastSyncTimestamp_begin w) = warnings w"
    "warnings (snd (getLastSyncTimestamp_resume env w)) = warnings w"
    "warnings (snd (getLastSyncTimestamp env w)) = warnings w"
  by (simp_all add: getLastSyncTimestamp_def getLastSyncTimestamp_begin_def
        getLastSyncTimestamp_resume_def)

lemma fetchNewImages_begin_frame [simp]:
  shows "config (fetchNewImages_begin l w) = config w"
    "isRunning (fetchNewImages_begin l w) = isRunning w"
    "intervalId (fetchNewImages_begin l w) = intervalId w"
    "abortController (fetchNewImages_begin l w) = abortController w"
    "downloadQueue (fetchNewImages_begin l w) = downloadQueue w"
    "activeDownloads (fetchNewImages_begin l w) = activeDownloads w"
    "retryMap (fetchNewImages_begin l w) = retryMap w"
    "arrays (fetchNewImages_begin l w) = arrays w"
    "nextHandle (fetchNewImages_begin l w) = nextHandle w"
    "intervalTimers (fetchNewImages_begin l w) = intervalTimers w"
    "abortedSignals (fetchNewImages_begin l w) = abortedSignals w"
    "inFlight (fetchNewImages_begin l w) = inFlight w"
    "retryTimers (fetchNewImages_begin l w) = retryTimers w"
    "stopPolls (fetchNewImages_begin l w) = stopPolls w"
    "stopsCompleted (fetchNewImages_begin l w) = stopsCompleted w"
    "pendingSyncs (fetchNewImages_begin l w) = pendingSyncs w"
    "storageCheck (fetchNewImages_begin l w) = storageCheck w"
    "lastSyncItem (fetchNewImages_begin l w) = lastSyncItem w"
    "files (fetchNewImages_begin l w) = files w"
    "device_images (fetchNewImages_begin l w) = device_images w"
    "console (fetchNewImages_begin l w) = console w"
  by (simp_all add: fetchNewImages_begin_def Let_def)

lemma fetchNewImages_resume_frame [simp]:
  shows "config (snd (fetchNewImages_resume env w)) = config w"
    "isRunning (snd (fetchNewImages_resume env w)) = isRunning w"
    "intervalId (snd (fetchNewImages_resume env w)) = intervalId w"
    "abortController (snd (fetchNewImages_resume env w)) = abortController w"
    "downloadQueue (snd (fetchNewImages_resume env w)) = downloadQueue w"
    "activeDownloads (snd (fetchNewImages_resume env w)) = activeDownloads w"
    "retryMap (snd (fetchNewImages_resume env w)) = retryMap w"
    "arrays (snd (fetchNewImages_resume env w)) = arrays w"
    "nextHandle (snd (fetchNewImages_resume env w)) = nextHandle w"
    "intervalTimers (snd (fetchNewImages_resume env w)) = intervalTimers w"
    "abortedSignals (snd (fetchNewImages_resume env w)) = abortedSignals w"
    "inFlight (snd (fetchNewImages_resume env w)) = inFlight w"
    "retryTimers (snd (fetchNewImages_resume env w)) = retryTimers w"
    "stopPolls (snd (fetchNewImages_resume env w)) = stopPolls w"
    "stopsCompleted (snd (fetchNewImages_resume env w)) = stopsCompleted w"
    "pendingSyncs (snd (fetchNewImages_resume env w)) = pendingSyncs w"
    "storageCheck (snd (fetchNewImages_resume env w)) = storageCheck w"
    "lastSyncItem (snd (fetchNewImages_resume env w)) = lastSyncItem w"
    "files (snd (fetchNewImages_resume env w)) = files w"
    "device_images (snd (fetchNewImages_resume env w)) = device_images w"
    "effects (snd (fetchNewImages_resume env w)) = effects w"
  by (simp_all add: fetchNewImages_resume_def split: FetchOutcome.splits JsonBody.splits sum.splits)

lemma fetchNewImages_frame [simp]:
  shows "config (snd (fetchNewImages env l w)) = config w"
    "isRunning (snd (fetchNewImages env l w)) = isRunning w"
    "intervalId (snd (fetchNewImages env l w)) = intervalId w"
    "abortController (snd (fetchNewImages env l w)) = abortController w"
    "downloadQueue (snd (fetchNewImages env l w)) = downloadQueue w"
    "activeDownloads (snd (fetchNewImages env l w)) = activeDownloads w"
    "retryMap (snd (fetchNewImages env l w)) = retryMap w"
    "arrays (snd (fetchNewImages env l w)) = arrays w"
    "nextHandle (snd (fetchNewImages env l w)) = nextHandle w"
    "intervalTimers (snd (fetchNewImages env l w)) = intervalTimers w"
    "abortedSignals (snd (fetchNewImages env l w)) = abortedSignals w"
    "inFlight (snd (fetchNewImages env l w)) = inFlight w"
    "retryTimers (snd (fetchNewImages env l w)) = retryTimers w"
    "stopPolls (snd (fetchNewImages env l w)) = stopPolls w"
    "stopsCompleted (snd (fetchNewImages env l w)) = stopsCompleted w"
    "pendingSyncs (snd (fetchNewImages env l w)) = pendingSyncs w"
    "storageCheck (snd (fetchNewImages env l w)) = storageCheck w"
    "lastSyncItem (snd (fetchNewImages env l w)) = lastSyncItem w"
    "files (snd (fetchNewImages env l w)) = files w"
    "device_images (snd (fetchNewImages env l w)) = device_images w"
  by (simp_all add: fetchNewImages_def)

lemma warnings_fetchNewImages [simp]:
  shows "warnings (fetchNewImages_begin l w) = warnings w"
    "warnings (snd (fetchNewImages_resume env w)) = warnings w"
    "warnings (snd (fetchNewImages env l w)) = warnings w"
  by (simp_all add: fetchNewImages_def fetchNewImages_begin_def fetchNewImages_resume_def Let_def
        split: FetchOutcome.splits JsonBody.splits sum.splits)

lemma updateLastSyncTimestamp_begin_frame [simp]:
  shows "config (snd (updateLastSyncTimestamp_begin env w)) = config w"
    "isRunning (snd (updateLastSyncTimestamp_begin env w)) = isRunning w"
    "intervalId (snd (updateLastSyncTimestamp_begin env w)) = intervalId w"
    "abortController (snd (updateLastSyncTimestamp_begin env w)) = abortController w"
    "downloadQueue (snd (updateLastSyncTimestamp_begin env w)) = downloadQueue w"
    "activeDownloads (snd (updateLastSyncTimestamp_begin env w)) = activeDownloads w"
    "retryMap (snd (updateLastSyncTimestamp_begin env w)) = retryMap w"
    "arrays (snd (updateLastSyncTimestamp_begin env w)) = arrays w"
    "nextHandle (snd (updateLastSyncTimestamp_begin env w)) = nextHandle w"
    "intervalTimers (snd (updateLastSyncTimestamp_begin env w)) = intervalTimers w"
    "abortedSignals (snd (updateLastSyncTimestamp_begin env w)) = abortedSignals w"
    "inFlight (snd (updateLastSyncTimestamp_begin env w)) = inFlight w"
    "retryTimers (snd (updateLastSyncTimestamp_begin env w)) = retryTimers w"
    "stopPolls (snd (updateLastSyncTimestamp_begin env w)) = stopPolls w"
    "stopsCompleted (snd (updateLastSyncTimestamp_begin env w)) = stopsCompleted w"
    "pendingSyncs (snd (updateLastSyncTimestamp_begin env w)) = pendingSyncs w"
    "storageCheck (snd (updateLastSyncTimestamp_begin env w)) = storageCheck w"
    "lastSyncItem (snd (updateLastSyncTimestamp_begin env w)) = lastSyncItem w"
    "files (snd (updateLastSyncTimestamp_begin env w)) = files w"
    "device_images (snd (updateLastSyncTimestamp_begin env w)) = device_images w"
    "console (snd (updateLastSyncTimestamp_begin env w)) = console w"
  by (simp_all add: updateLastSyncTimestamp_begin_def Let_def)

lemma updateLastSyncTimestamp_begin_fst [simp]:
  "fst (updateLastSyncTimestamp_begin env w) = sync_now env"
  by (simp add: updateLastSyncTimestamp_begin_def Let_def)

lemma updateLastSyncTimestamp_begin_effects [simp]:
  "effects (snd (updateLastSyncTimestamp_begin env w)) = effects w @ [StorageSetItem (sync_now env)]"
  by (simp add: updateLastSyncTimestamp_begin_def Let_def)

lemma updateLastSyncTimestamp_resume_frame [simp]:
  shows "config (updateLastSyncTimestamp_resume env now w) = config w"
    "isRunning (updateLastSyncTimestamp_resume env now w) = isRunning w"
    "intervalId (updateLastSyncTimestamp_resume env now w) = intervalId w"
    "abortController (updateLastSyncTimestamp_resume env now w) = abortController w"
    "downloadQueue (updateLastSyncTimestamp_resume env now w) = downloadQueue w"
    "activeDownloads (updateLastSyncTimestamp_resume env now w) = activeDownloads w"
    "retryMap (updateLastSyncTimestamp_resume env now w) = retryMap w"
    "arrays (updateLastSyncTimestamp_resume env now w) = arrays w"
    "nextHandle (updateLastSyncTimestamp_resume env now w) = nextHandle w"
    "intervalTimers (updateLastSyncTimestamp_resume env now w) = intervalTimers w"
    "abortedSignals (updateLastSyncTimestamp_resume env now w) = abortedSignals w"
    "inFlight (updateLastSyncTimestamp_resume env now w) = inFlight w"
    "retryTimers (updateLastSyncTimestamp_resume env now w) = retryTimers w"
    "stopPolls (updateLastSyncTimestamp_resume env now w) = stopPolls w"
    "stopsCompleted (updateLastSyncTimestamp_resume env now w) = stopsCompleted w"
    "pendingSyncs (updateLastSyncTimestamp_resume env now w) = pendingSyncs w"
    "storageCheck (updateLastSyncTimestamp_resume env now w) = storageCheck w"
    "files (updateLastSyncTimestamp_resume env now w) = files w"
    "device_images (updateLastSyncTimestamp_resume env now w) = device_images w"
    "effects (updateLastSyncTimestamp_resume env now w) = effects w"
  by (simp_all add: updateLastSyncTimestamp_resume_def)

lemma updateLastSyncTimestamp_frame [simp]:
  shows "config (updateLastSyncTimestamp env w) = config w"
    "isRunning (updateLastSyncTimestamp env w) = isRunning w"
    "intervalId (updateLastSyncTimestamp env w) = intervalId w"
    "abortController (updateLastSyncTimestamp env w) = abortController w"
    "downloadQueue (updateLastSyncTimestamp env w) = downloadQueue w"
    "activeDownloads (updateLastSyncTimestamp env w) = activeDownloads w"
    "retryMap (updateLastSyncTimestamp env w) = retryMap w"
    "arrays (updateLastSyncTimestamp env w) = arrays w"
    "nextHandle (updateLastSyncTimestamp env w) = nextHandle w"
    "intervalTimers (updateLastSyncTimestamp env w) = intervalTimers w"
    "abortedSignals (updateLastSyncTimestamp env w) = abortedSignals w"
    "inFlight (updateLastSyncTimestamp env w) = inFlight w"
    "retryTimers (updateLastSyncTimestamp env w) = retryTimers w"
    "stopPolls (updateLastSyncTimestamp env w) = stopPolls w"
    "stopsCompleted (updateLastSyncTimestamp env w) = stopsCompleted w"
    "pendingSyncs (updateLastSyncTimestamp env w) = pendingSyncs w"
    "storageCheck (updateLastSyncTimestamp env w) = storageCheck w"
    "files (updateLastSyncTimestamp env w) = files w"
    "device_images (updateLastSyncTimestamp env w) = device_images w"
  by (simp_all add: updateLastSyncTimestamp_def split_def)

lemma warnings_updateLastSyncTimestamp [simp]:
  shows "warnings (snd (updateLastSyncTimestamp_begin env w)) = warnings w"
    "warnings (updateLastSyncTimestamp_resume env now w) = warnings w"
    "warnings (updateLastSyncTimestamp env w) = warnings w"
  by (simp_all add: updateLastSyncTimestamp_def updateLastSyncTimestamp_begin_def
        updateLastSyncTimestamp_resume_def Let_def)

lemma syncImages_begin_frame [simp]:
  shows "config (syncImages_begin w) = config w"
    "isRunning (syncImages_begin w) = isRunning w"
    "intervalId (syncImages_begin w) = intervalId w"
    "abortController (syncImages_begin w) = abortController w"
    "downloadQueue (syncImages_begin w) = downloadQueue w"
    "activeDownloads (syncImages_begin w) = activeDownloads w"
    "retryMap (syncImages_begin w) = retryMap w"
    "arrays (syncImages_begin w) = arrays w"
    "nextHandle (syncImages_begin w) = nextHandle w"
    "intervalTimers (syncImages_begin w) = intervalTimers w"
    "abortedSignals (syncImages_begin w) = abortedSignals w"
    "inFlight (syncImages_begin w) = inFlight w"
    "retryTimers (syncImages_begin w) = retryTimers w"
    "stopPolls (syncImages_begin w) = stopPolls w"
    "stopsCompleted (syncImages_begin w) = stopsCompleted w"
    "pendingSyncs (syncImages_begin w) = pendingSyncs w"
    "storageCheck (syncImages_begin w) = storageCheck w"
    "lastSyncItem (syncImages_begin w) = lastSyncItem w"
    "files (syncImages_begin w) = files w"
    "device_images (syncImages_begin w) = device_images w"
    "console (syncImages_begin w) = console w"
  by (simp_all add: syncImages_begin_def)

lemma syncImages_afterUser_frame [simp]:
  shows "config (snd (syncImages_afterUser env w)) = config w"
    "isRunning (snd (syncImages_afterUser env w)) = isRunning w"
    "intervalId (snd (syncImages_afterUser env w)) = intervalId w"
    "abortController (snd (syncImages_afterUser env w)) = abortController w"
    "downloadQueue (snd (syncImages_afterUser env w)) = downloadQueue w"
    "activeDownloads (snd (syncImages_afterUser env w)) = activeDownloads w"
    "retryMap (snd (syncImages_afterUser env w)) = retryMap w"
    "arrays (snd (syncImages_afterUser env w)) = arrays w"
    "nextHandle (snd (syncImages_afterUser env w)) = nextHandle w"
    "intervalTimers (snd (syncImages_afterUser env w)) = intervalTimers w"
    "abortedSignals (snd (syncImages_afterUser env w)) = abortedSignals w"
    "inFlight (snd (syncImages_afterUser env w)) = inFlight w"
    "retryTimers (snd (syncImages_afterUser env w)) = retryTimers w"
    "stopPolls (snd (syncImages_afterUser env w)) = stopPolls w"
    "stopsCompleted (snd (syncImages_afterUser env w)) = stopsCompleted w"
    "pendingSyncs (snd (syncImages_afterUser env w)) = pendingSyncs w"
    "storageCheck (snd (syncImages_afterUser env w)) = storageCheck w"
    "lastSyncItem (snd (syncImages_afterUser env w)) = lastSyncItem w"
    "files (snd (syncImages_afterUser env w)) = files w"
    "device_images (snd (syncImages_afterUser env w)) = device_images w"
  by (simp_all add: syncImages_afterUser_def)

lemma syncImages_afterLastSync_frame [simp]:
  shows "config (syncImages_afterLastSync env w) = config w"
    "isRunning (syncImages_afterLastSync env w) = isRunning w"
    "intervalId (syncImages_afterLastSync env w) = intervalId w"
    "abortController (syncImages_afterLastSync env w) = abortController w"
    "downloadQueue (syncImages_afterLastSync env w) = downloadQueue w"
    "activeDownloads (syncImages_afterLastSync env w) = activeDownloads w"
    "retryMap (syncImages_afterLastSync env w) = retryMap w"
    "arrays (syncImages_afterLastSync env w) = arrays w"
    "nextHandle (syncImages_afterLastSync env w) = nextHandle w"
    "intervalTimers (syncImages_afterLastSync env w) = intervalTimers w"
    "abortedSignals (syncImages_afterLastSync env w) = abortedSignals w"
    "inFlight (syncImages_afterLastSync env w) = inFlight w"
    "retryTimers (syncImages_afterLastSync env w) = retryTimers w"
    "stopPolls (syncImages_afterLastSync env w) = stopPolls w"
    "stopsCompleted (syncImages_afterLastSync env w) = stopsCompleted w"
    "pendingSyncs (syncImages_afterLastSync env w) = pendingSyncs w"
    "storageCheck (syncImages_afterLastSync env w) = storageCheck w"
    "lastSyncItem (syncImages_afterLastSync env w) = lastSyncItem w"
    "files (syncImages_afterLastSync env w) = files w"
    "device_images (syncImages_afterLastSync env w) = device_images w"
  by (simp_all add: syncImages_afterLastSync_def split_def)

lemma syncImages_afterManifest_frame [simp]:
  shows "config (snd (syncImages_afterManifest env w)) = config w"
    "isRunning (snd (syncImages_afterManifest env w)) = isRunning w"
    "intervalId (snd (syncImages_afterManifest env w)) = intervalId w"
    "abortController (snd (syncImages_afterManifest env w)) = abortController w"
    "retryMap (snd (syncImages_afterManifest env w)) = retryMap w"
    "arrays (snd (syncImages_afterManifest env w)) = arrays w"
    "nextHandle (snd (syncImages_afterManifest env w)) = nextHandle w"
    "intervalTimers (snd (syncImages_afterManifest env w)) = intervalTimers w"
    "abortedSignals (snd (syncImages_afterManifest env w)) = abortedSignals w"
    "retryTimers (snd (syncImages_afterManifest env w)) = retryTimers w"
    "stopPolls (snd (syncImages_afterManifest env w)) = stopPolls w"
    "stopsCompleted (snd (syncImages_afterManifest env w)) = stopsCompleted w"
    "pendingSyncs (snd (syncImages_afterManifest env w)) = pendingSyncs w"
    "storageCheck (snd (syncImages_afterManifest env w)) = storageCheck w"
    "lastSyncItem (snd (syncImages_afterManifest env w)) = lastSyncItem w"
    "files (snd (syncImages_afterManifest env w)) = files w"
    "device_images (snd (syncImages_afterManifest env w)) = device_images w"
  by (simp_all add: syncImages_afterManifest_def Let_def split_def split: sum.splits)

lemma syncImages_afterWrite_frame [simp]:
  shows "config (snd (syncImages_afterWrite env now w)) = config w"
    "isRunning (snd (syncImages_afterWrite env now w)) = isRunning w"
    "intervalId (snd (syncImages_afterWrite env now w)) = intervalId w"
    "abortController (snd (syncImages_afterWrite env now w)) = abortController w"
    "downloadQueue (snd (syncImages_afterWrite env now w)) = downloadQueue w"
    "activeDownloads (snd (syncImages_afterWrite env now w)) = activeDownloads w"
    "retryMap (snd (syncImages_afterWrite env now w)) = retryMap w"
    "arrays (snd (syncImages_afterWrite env now w)) = arrays w"
    "nextHandle (snd (syncImages_afterWrite env now w)) = nextHandle w"
    "intervalTimers (snd (syncImages_afterWrite env now w)) = intervalTimers w"
    "abortedSignals (snd (syncImages_afterWrite env now w)) = abortedSignals w"
    "inFlight (snd (syncImages_afterWrite env now w)) = inFlight w"
    "retryTimers (snd (syncImages_afterWrite env now w)) = retryTimers w"
    "stopPolls (snd (syncImages_afterWrite env now w)) = stopPolls w"
    "stopsCompleted (snd (syncImages_afterWrite env now w)) = stopsCompleted w"
    "pendingSyncs (snd (syncImages_afterWrite env now w)) = pendingSyncs w"
    "storageCheck (snd (syncImages_afterWrite env now w)) = storageCheck w"
    "files (snd (syncImages_afterWrite env now w)) = files w"
    "device_images (snd (syncImages_afterWrite env now w)) = device_images w"
    "effects (snd (syncImages_afterWrite env now w)) = effects w"
  by (simp_all add: syncImages_afterWrite_def)

lemma syncImages_frame [simp]:
  shows "config (snd (syncImages env w)) = config w"
    "isRunning (snd (syncImages env w)) = isRunning w"
    "intervalId (snd (syncImages env w)) = intervalId w"
    "abortController (snd (syncImages env w)) = abortController w"
    "retryMap (snd (syncImages env w)) = retryMap w"
    "arrays (snd (syncImages env w)) = arrays w"
    "nextHandle (snd (syncImages env w)) = nextHandle w"
    "intervalTimers (snd (syncImages env w)) = intervalTimers w"
    "abortedSignals (snd (syncImages env w)) = abortedSignals w"
    "retryTimers (snd (syncImages env w)) = retryTimers w"
    "stopPolls (snd (syncImages env w)) = stopPolls w"
    "stopsCompleted (snd (syncImages env w)) = stopsCompleted w"
    "pendingSyncs (snd (syncImages env w)) = pendingSyncs w"
    "storageCheck (snd (syncImages env w)) = storageCheck w"
    "files (snd (syncImages env w)) = files w"
    "device_images (snd (syncImages env w)) = device_images w"
  by (simp_all add: syncImages_def split_def split: option.splits Progress.splits)

lemma fetchNewImages_resume_result:
  assumes "sync_fetch env = FetchResponse status (JsonArray data)"
    and "200 \<le> status" and "status \<le> 299"
  shows "fst (fetchNewImages_resume env w) = mapItems data"
  using assms by (simp add: fetchNewImages_resume_def split: sum.splits)

lemma fetchNewImages_result:
  assumes "sync_fetch env = FetchResponse status (JsonArray data)"
    and "200 \<le> status" and "status \<le> 299"
  shows "fst (fetchNewImages env lastSync w) = mapItems data"
  using fetchNewImages_resume_result [OF assms] by (simp add: fetchNewImages_def)

lemma fetchNewImages_resume_found:
  assumes "sync_fetch env = FetchResponse status (JsonArray data)"
    and "200 \<le> status" and "status \<le> 299" and "mapItems data = Inr images"
  shows "fetchNewImages_resume env w = (Inr images, w)"
  using assms by (simp add: fetchNewImages_resume_def)

text \<open>
  The part of a cycle that runs when a manifest with images arrives: they join the
  queue, the loop runs, the write of the clock is issued.
\<close>

lemma syncImages_afterManifest_found:
  assumes "sync_fetch env = FetchResponse status (JsonArray data)"
    and "200 \<le> status" and "status \<le> 299" and "mapItems data = Inr images"
    and "images \<noteq> []"
  shows "syncImages_afterManifest env w =
           (Writes (sync_now env),
            emit (StorageSetItem (sync_now env))
              (processDownloadQueue
                 ((logInfo (FoundNewImages (length images)) w)
                    \<lparr>downloadQueue := downloadQueue w @ images\<rparr>)))"
  using assms(5) fetchNewImages_resume_found [OF assms(1-4)]
  by (simp add: syncImages_afterManifest_def updateLastSyncTimestamp_begin_def Let_def)

lemma syncImages_afterManifest_none:
  assumes "sync_fetch env = FetchResponse status (JsonArray data)"
    and "200 \<le> status" and "status \<le> 299" and "mapItems data = Inr []"
  shows "syncImages_afterManifest env w = (Returns (Inr ()), logInfo NoNewImages w)"
  using fetchNewImages_resume_found [OF assms(1-4)]
  by (simp add: syncImages_afterManifest_def)

lemma syncImages_signed_in:
  assumes "sync_user env"
  shows "syncImages env w =
           (case syncImages_afterManifest env
                   (syncImages_afterLastSync env
                      (getLastSyncTimestamp_begin (syncImages_begin w))) of
              (Returns r, w3) \<Rightarrow> (r, w3)
            | (Writes now, w3) \<Rightarrow> syncImages_afterWrite env now w3)"
  using assms by (simp add: syncImages_def syncImages_afterUser_def)

lemma syncImages_afterManifest_pending:
  assumes "sync_fetch env = FetchResponse status (JsonArray data)"
    and "200 \<le> status" and "status \<le> 299" and "mapItems data = Inr images"
  shows "map fst (inFlight (snd (syncImages_afterManifest env w)))
           @ downloadQueue (snd (syncImages_afterManifest env w))
           = map fst (inFlight w) @ downloadQueue w @ images"
    and "warnings (snd (syncImages_afterManifest env w)) = warnings w"
    and "fst (syncImages_afterManifest env w)
           = (if images = [] then Returns (Inr ()) else Writes (sync_now env))"
proof -
  show "map fst (inFlight (snd (syncImages_afterManifest env w)))
           @ downloadQueue (snd (syncImages_afterManifest env w))
           = map fst (inFlight w) @ downloadQueue w @ images"
    by (cases "images = []")
       (simp_all add: syncImages_afterManifest_found [OF assms]
          syncImages_afterManifest_none [OF assms(1-3)] assms(4))
  show "warnings (snd (syncImages_afterManifest env w)) = warnings w"
    by (cases "images = []")
       (simp_all add: syncImages_afterManifest_found [OF assms]
          syncImages_afterManifest_none [OF assms(1-3)] assms(4))
  show "fst (syncImages_afterManifest env w)
           = (if images = [] then Returns (Inr ()) else Writes (sync_now env))"
    by (cases "images = []")
       (simp_all add: syncImages_afterManifest_found [OF assms]
          syncImages_afterManifest_none [OF assms(1-3)] assms(4))
qed

lemma syncImages_found:
  assumes "sync_user env"
    and "sync_fetch env = FetchResponse status (JsonArray data)"
    and "200 \<le> status" and "status \<le> 299" and "mapItems data = Inr images"
  shows "map fst (inFlight (snd (syncImages env w))) @ downloadQueue (snd (syncImages env w))
           = map fst (inFlight w) @ downloadQueue w @ images"
    and "warnings (snd (syncImages env w)) = warnings w"
    and "fst (syncImages env w) = Inr ()"
proof -
  let ?w2 = "syncImages_afterLastSync env (getLastSyncTimestamp_begin (syncImages_begin w))"
  note p = syncImages_afterManifest_pending [OF assms(2-5), of ?w2]
  have s: "syncImages env w =
             (if images = [] then (Inr (), snd (syncImages_afterManifest env ?w2))
              else syncImages_afterWrite env (sync_now env)
                     (snd (syncImages_afterManifest env ?w2)))"
    unfolding syncImages_signed_in [OF assms(1)] using p(3)
    by (cases "syncImages_afterManifest env ?w2") auto
  have b: "map fst (inFlight ?w2) @ downloadQueue ?w2 = map fst (inFlight w) @ downloadQueue w"
    "warnings ?w2 = warnings w"
    by (simp_all add: syncImages_afterLastSync_def split_def syncImages_begin_def)
  show "map fst (inFlight (snd (syncImages env w))) @ downloadQueue (snd (syncImages env w))
           = map fst (inFlight w) @ downloadQueue w @ images"
    unfolding s using p(1) b(1) by simp
  show "warnings (snd (syncImages env w)) = warnings w"
    unfolding s using p(2) b(2) by (simp add: syncImages_afterWrite_def)
  show "fst (syncImages env w) = Inr ()"
    unfolding s by (simp add: syncImages_afterWrite_def)
qed

text \<open>The requests a cycle issues before the manifest is there.\<close>

lemma syncImages_reads:
  "effects (syncImages_afterLastSync env (getLastSyncTimestamp_begin (syncImages_begin w)))
     = effects w
       @ [GetCurrentUser, StorageGetItem,
          HttpGet (sourceEndpoint (config w))
            (if sync_getItemOk env \<and> truthy (lastSyncItem w) then lastSyncItem w else None)
            (if length (arrays w (fileTypes (config w))) > 0
             then Some (arrays w (fileTypes (config w))) else None)
            (bearer w)]"
  by (simp add: syncImages_afterLastSync_def getLastSyncTimestamp_resume_def
        getLastSyncTimestamp_begin_def syncImages_begin_def fetchNewImages_begin_def Let_def
        bearer_def truthy_def)

subsection \<open>Mapping the manifest\<close>

lemma fileNameOf_nameable: "nameable i \<Longrightarrow> \<exists>name. fileNameOf i = Inr name"
  by (cases "item_fileName i"; cases "item_url i")
     (simp_all add: nameable_def fileNameOf_def Let_def)

lemma mapItem_nameable:
  assumes "nameable i"
  shows "\<exists>m. mapItem i = Inr m \<and> img_id m = item_id i \<and> img_url m = item_url i
              \<and> img_timestamp m = item_timestamp i"
proof -
  obtain name where "fileNameOf i = Inr name"
    using fileNameOf_nameable [OF assms] by blast
  then show ?thesis by (simp add: mapItem_def)
qed

lemma mapItems_nameable:
  "list_all nameable data \<Longrightarrow>
     \<exists>images. mapItems data = Inr images \<and> length images = length data
        \<and> map img_id images = map item_id data \<and> map img_url images = map item_url data
        \<and> map img_timestamp images = map item_timestamp data"
proof (induction data)
  case Nil
  then show ?case by simp
next
  case (Cons i data)
  then obtain images where ih: "mapItems data = Inr images" "length images = length data"
      "map img_id images = map item_id data" "map img_url images = map item_url data"
      "map img_timestamp images = map item_timestamp data"
    by auto
  from Cons.prems have "nameable i" by simp
  then obtain m where m: "mapItem i = Inr m" "img_id m = item_id i" "img_url m = item_url i"
      "img_timestamp m = item_timestamp i"
    using mapItem_nameable by blast
  show ?case using ih m by simp
qed

lemma mapItems_threeItems: "mapItems threeItems = Inr threeImages"
  by code_simp

subsection \<open>What a download changes\<close>

lemma storeImageMetadata_frame [simp]:
  shows "config (snd (storeImageMetadata env img p h w)) = config w"
    "isRunning (snd (storeImageMetadata env img p h w)) = isRunning w"
    "intervalId (snd (storeImageMetadata env img p h w)) = intervalId w"
    "abortController (snd (storeImageMetadata env img p h w)) = abortController w"
    "downloadQueue (snd (storeImageMetadata env img p h w)) = downloadQueue w"
    "activeDownloads (snd (storeImageMetadata env img p h w)) = activeDownloads w"
    "retryMap (snd (storeImageMetadata env img p h w)) = retryMap w"
    "arrays (snd (storeImageMetadata env img p h w)) = arrays w"
    "nextHandle (snd (storeImageMetadata env img p h w)) = nextHandle w"
    "intervalTimers (snd (storeImageMetadata env img p h w)) = intervalTimers w"
    "abortedSignals (snd (storeImageMetadata env img p h w)) = abortedSignals w"
    "inFlight (snd (storeImageMetadata env img p h w)) = inFlight w"
    "retryTimers (snd (storeImageMetadata env img p h w)) = retryTimers w"
    "stopPolls (snd (storeImageMetadata env img p h w)) = stopPolls w"
    "stopsCompleted (snd (storeImageMetadata env img p h w)) = stopsCompleted w"
    "pendingSyncs (snd (storeImageMetadata env img p h w)) = pendingSyncs w"
    "storageCheck (snd (storeImageMetadata env img p h w)) = storageCheck w"
    "lastSyncItem (snd (storeImageMetadata env img p h w)) = lastSyncItem w"
    "files (snd (storeImageMetadata env img p h w)) = files w"
  by (simp_all add: storeImageMetadata_def Let_def)

lemma downloadImage_begin_frame [simp]:
  shows "config (snd (downloadImage_begin img w)) = config w"
    "isRunning (snd (downloadImage_begin img w)) = isRunning w"
    "intervalId (snd (downloadImage_begin img w)) = intervalId w"
    "abortController (snd (downloadImage_begin img w)) = abortController w"
    "downloadQueue (snd (downloadImage_begin img w)) = downloadQueue w"
    "activeDownloads (snd (downloadImage_begin img w)) = activeDownloads w"
    "retryMap (snd (downloadImage_begin img w)) = retryMap w"
    "arrays (snd (downloadImage_begin img w)) = arrays w"
    "nextHandle (snd (downloadImage_begin img w)) = nextHandle w"
    "intervalTimers (snd (downloadImage_begin img w)) = intervalTimers w"
    "abortedSignals (snd (downloadImage_begin img w)) = abortedSignals w"
    "inFlight (snd (downloadImage_begin img w)) = inFlight w"
    "retryTimers (snd (downloadImage_begin img w)) = retryTimers w"
    "stopPolls (snd (downloadImage_begin img w)) = stopPolls w"
    "stopsCompleted (snd (downloadImage_begin img w)) = stopsCompleted w"
    "pendingSyncs (snd (downloadImage_begin img w)) = pendingSyncs w"
    "storageCheck (snd (downloadImage_begin img w)) = storageCheck w"
    "lastSyncItem (snd (downloadImage_begin img w)) = lastSyncItem w"
    "files (snd (downloadImage_begin img w)) = files w"
    "device_images (snd (downloadImage_begin img w)) = device_images w"
    "console (snd (downloadImage_begin img w)) = console w"
  by (simp_all add: downloadImage_begin_def)

lemma downloadImage_begin_fst [simp]: "fst (downloadImage_begin img w) = filePathOf w img"
  by (simp add: downloadImage_begin_def)

lemma downloadImage_resume_frame [simp]:
  shows "config (snd (downloadImage_resume env img p w)) = config w"
    "isRunning (snd (downloadImage_resume env img p w)) = isRunning w"
    "intervalId (snd (downloadImage_resume env img p w)) = intervalId w"
    "abortController (snd (downloadImage_resume env img p w)) = abortController w"
    "downloadQueue (snd (downloadImage_resume env img p w)) = downloadQueue w"
    "activeDownloads (snd (downloadImage_resume env img p w)) = activeDownloads w"
    "arrays (snd (downloadImage_resume env img p w)) = arrays w"
    "nextHandle (snd (downloadImage_resume env img p w)) = nextHandle w"
    "intervalTimers (snd (downloadImage_resume env img p w)) = intervalTimers w"
    "abortedSignals (snd (downloadImage_resume env img p w)) = abortedSignals w"
    "inFlight (snd (downloadImage_resume env img p w)) = inFlight w"
    "retryTimers (snd (downloadImage_resume env img p w)) = retryTimers w"
    "stopPolls (snd (downloadImage_resume env img p w)) = stopPolls w"
    "stopsCompleted (snd (downloadImage_resume env img p w)) = stopsCompleted w"
    "pendingSyncs (snd (downloadImage_resume env img p w)) = pendingSyncs w"
    "storageCheck (snd (downloadImage_resume env img p w)) = storageCheck w"
    "lastSyncItem (snd (downloadImage_resume env img p w)) = lastSyncItem w"
  by (simp_all add: downloadImage_resume_def Let_def split_def split: option.splits sum.splits)

lemma downloadImage_frame [simp]:
  shows "config (snd (downloadImage env img w)) = config w"
    "isRunning (snd (downloadImage env img w)) = isRunning w"
    "intervalId (snd (downloadImage env img w)) = intervalId w"
    "abortController (snd (downloadImage env img w)) = abortController w"
    "downloadQueue (snd (downloadImage env img w)) = downloadQueue w"
    "activeDownloads (snd (downloadImage env img w)) = activeDownloads w"
    "arrays (snd (downloadImage env img w)) = arrays w"
    "nextHandle (snd (downloadImage env img w)) = nextHandle w"
    "intervalTimers (snd (downloadImage env img w)) = intervalTimers w"
    "abortedSignals (snd (downloadImage env img w)) = abortedSignals w"
    "inFlight (snd (downloadImage env img w)) = inFlight w"
    "retryTimers (snd (downloadImage env img w)) = retryTimers w"
    "stopPolls (snd (downloadImage env img w)) = stopPolls w"
    "stopsCompleted (snd (downloadImage env img w)) = stopsCompleted w"
    "pendingSyncs (snd (downloadImage env img w)) = pendingSyncs w"
    "storageCheck (snd (downloadImage env img w)) = storageCheck w"
    "lastSyncItem (snd (downloadImage env img w)) = lastSyncItem w"
  by (simp_all add: downloadImage_def split_def)

lemma onDownloadRejected_frame [simp]:
  shows "config (onDownloadRejected img w) = config w"
    "isRunning (onDownloadRejected img w) = isRunning w"
    "intervalId (onDownloadRejected img w) = intervalId w"
    "abortController (onDownloadRejected img w) = abortController w"
    "downloadQueue (onDownloadRejected img w) = downloadQueue w"
    "activeDownloads (onDownloadRejected img w) = activeDownloads w"
    "arrays (onDownloadRejected img w) = arrays w"
    "nextHandle (onDownloadRejected img w) = nextHandle w"
    "intervalTimers (onDownloadRejected img w) = intervalTimers w"
    "abortedSignals (onDownloadRejected img w) = abortedSignals w"
    "inFlight (onDownloadRejected img w) = inFlight w"
    "stopPolls (onDownloadRejected img w) = stopPolls w"
    "stopsCompleted (onDownloadRejected img w) = stopsCompleted w"
    "pendingSyncs (onDownloadRejected img w) = pendingSyncs w"
    "storageCheck (onDownloadRejected img w) = storageCheck w"
    "lastSyncItem (onDownloadRejected img w) = lastSyncItem w"
    "files (onDownloadRejected img w) = files w"
    "device_images (onDownloadRejected img w) = device_images w"
    "effects (onDownloadRejected img w) = effects w"
  by (simp_all add: onDownloadRejected_def Let_def)

lemma onDownloadSettled_frame [simp]:
  shows "config (onDownloadSettled w) = config w"
    "isRunning (onDownloadSettled w) = isRunning w"
    "intervalId (onDownloadSettled w) = intervalId w"
    "abortController (onDownloadSettled w) = abortController w"
    "retryMap (onDownloadSettled w) = retryMap w"
    "arrays (onDownloadSettled w) = arrays w"
    "nextHandle (onDownloadSettled w) = nextHandle w"
    "intervalTimers (onDownloadSettled w) = intervalTimers w"
    "abortedSignals (onDownloadSettled w) = abortedSignals w"
    "retryTimers (onDownloadSettled w) = retryTimers w"
    "stopPolls (onDownloadSettled w) = stopPolls w"
    "stopsCompleted (onDownloadSettled w) = stopsCompleted w"
    "pendingSyncs (onDownloadSettled w) = pendingSyncs w"
    "storageCheck (onDownloadSettled w) = storageCheck w"
    "lastSyncItem (onDownloadSettled w) = lastSyncItem w"
    "files (onDownloadSettled w) = files w"
    "device_images (onDownloadSettled w) = device_images w"
    "console (onDownloadSettled w) = console w"
  by (simp_all add: onDownloadSettled_def Let_def)

lemma retryCallback_frame [simp]:
  shows "config (retryCallback img w) = config w"
    "isRunning (retryCallback img w) = isRunning w"
    "intervalId (retryCallback img w) = intervalId w"
    "abortController (retryCallback img w) = abortController w"
    "retryMap (retryCallback img w) = retryMap w"
    "arrays (retryCallback img w) = arrays w"
    "nextHandle (retryCallback img w) = nextHandle w"
    "intervalTimers (retryCallback img w) = intervalTimers w"
    "abortedSignals (retryCallback img w) = abortedSignals w"
    "retryTimers (retryCallback img w) = retryTimers w"
    "stopPolls (retryCallback img w) = stopPolls w"
    "stopsCompleted (retryCallback img w) = stopsCompleted w"
    "pendingSyncs (retryCallback img w) = pendingSyncs w"
    "storageCheck (retryCallback img w) = storageCheck w"
    "lastSyncItem (retryCallback img w) = lastSyncItem w"
    "files (retryCallback img w) = files w"
    "device_images (retryCallback img w) = device_images w"
    "console (retryCallback img w) = console w"
  by (simp_all add: retryCallback_def)

lemma storeImageMetadata_fst:
  "fst (storeImageMetadata env img p h w) =
     (if \<not> dl_user env then Inl NoAuthenticatedUserError
      else if \<not> dl_insertOk env then Inl InsertError else Inr ())"
  by (simp add: storeImageMetadata_def Let_def)

lemma storeImageMetadata_rows:
  "device_images (snd (storeImageMetadata env img p h w))
     = (if dl_user env \<and> dl_insertOk env
        then device_images w @ [\<lparr> row_id = img_id img, row_device_id = img_deviceId img,
                                   row_url = img_url img, row_local_path = p,
                                   row_md5_hash = h, row_created_at = img_timestamp img \<rparr>]
        else device_images w)"
  by (simp add: storeImageMetadata_def Let_def)

lemma downloadImage_resume_fst:
  "fst (downloadImage_resume env img p w) =
     (if \<not> dl_mkdirOk env then Inl MakeDirectoryError
      else case dl_transfer env of
             None \<Rightarrow> Inl DownloadTransportError
           | Some (status, md5) \<Rightarrow>
               if status \<noteq> 200 then Inl (DownloadFailedWithStatus status)
               else if \<not> dl_user env then Inl NoAuthenticatedUserError
               else if \<not> dl_insertOk env then Inl InsertError else Inr ())"
  by (simp add: downloadImage_resume_def Let_def split_def storeImageMetadata_fst
        split: option.splits)

lemma downloadImage_resume_result:
  "fst (downloadImage_resume env img p w) = Inr () \<longleftrightarrow> \<not> failing env"
  by (simp add: downloadImage_resume_fst failing_def split: option.splits prod.splits)

lemma downloadImage_resume_failing_result:
  "failing env \<Longrightarrow> \<exists>e. fst (downloadImage_resume env img p w) = Inl e"
  using downloadImage_resume_result [of env img p w]
  by (cases "fst (downloadImage_resume env img p w)") auto

lemma downloadImage_resume_retryMap:
  "retryMap (snd (downloadImage_resume env img p w)) =
     (if failing env then retryMap w else (retryMap w)(img_id img := None))"
  by (simp add: downloadImage_resume_def failing_def Let_def split_def storeImageMetadata_fst
        split: option.splits)

lemma downloadImage_resume_rows:
  "failing env \<Longrightarrow> device_images (snd (downloadImage_resume env img p w)) = device_images w"
  by (auto simp add: downloadImage_resume_def failing_def Let_def split_def storeImageMetadata_fst
        storeImageMetadata_rows split: option.splits)

lemma downloadImage_resume_transfers:
  assumes "dl_mkdirOk env"
  shows "DownloadAsync (img_url img) p (bearer w)
           \<in> set (effects (snd (downloadImage_resume env img p w)))"
  using assms
  by (simp add: downloadImage_resume_def Let_def split_def storeImageMetadata_def
        storeImageMetadata_fst split: option.splits)

lemma downloadImage_resume_replaces:
  assumes "dl_mkdirOk env" and "dl_transfer env = Some (status, md5)"
  shows "files (snd (downloadImage_resume env img p w)) p = Some md5"
  using assms
  by (simp add: downloadImage_resume_def Let_def split_def storeImageMetadata_fst)

lemma downloadImage_parts:
  "downloadImage env img w =
     downloadImage_resume env img (filePathOf w img)
       (emit (MakeDirectoryAsync (directoryOf w img)) w)"
  by (simp add: downloadImage_def downloadImage_begin_def)

lemma downloadImage_result:
  "fst (downloadImage env img w) = Inr () \<longleftrightarrow> \<not> failing env"
  by (simp add: downloadImage_parts downloadImage_resume_result)

lemma downloadImage_transfers:
  assumes "dl_mkdirOk env"
  shows "DownloadAsync (img_url img) (filePathOf w img) (bearer w)
           \<in> set (effects (snd (downloadImage env img w)))"
  using downloadImage_resume_transfers [OF assms, of img "filePathOf w img"
      "emit (MakeDirectoryAsync (directoryOf w img)) w"]
  by (simp add: downloadImage_parts)

lemma downloadImage_replaces:
  assumes "dl_mkdirOk env" and "dl_transfer env = Some (status, md5)"
  shows "files (snd (downloadImage env img w)) (filePathOf w img) = Some md5"
  by (simp add: downloadImage_parts downloadImage_resume_replaces [OF assms])

subsection \<open>Failures and retries\<close>

lemma onDownloadRejected_retry:
  assumes "of_int (orDefault (retryMap w (img_id img)) 0) < retryAttempts (config w)"
  shows "retryTimers (onDownloadRejected img w) = retryTimers w @ [img]"
    and "retryMap (onDownloadRejected img w)
           = (retryMap w)(img_id img \<mapsto> orDefault (retryMap w (img_id img)) 0 + 1)"
  using assms by (simp_all add: onDownloadRejected_def Let_def)

lemma onDownloadRejected_abandon:
  assumes "retryAttempts (config w) \<le> of_int (orDefault (retryMap w (img_id img)) 0)"
  shows "retryTimers (onDownloadRejected img w) = retryTimers w"
    and "retryMap (onDownloadRejected img w) = retryMap w"
  using assms by (simp_all add: onDownloadRejected_def Let_def)

lemma onDownloadSettled_pending:
  "map fst (inFlight (onDownloadSettled w)) @ downloadQueue (onDownloadSettled w)
     = map fst (inFlight w) @ downloadQueue w"
  by (simp add: onDownloadSettled_def Let_def)

lemma onDownloadSettled_idle:
  assumes "downloadQueue w = []"
  shows "inFlight (onDownloadSettled w) = inFlight w"
    and "downloadQueue (onDownloadSettled w) = []"
    and "activeDownloads (onDownloadSettled w) = activeDownloads w - 1"
  using assms by (simp_all add: onDownloadSettled_def Let_def)

lemma downloadSettles_failing:
  assumes "d \<in> set (inFlight w)" and "failing env"
  shows "downloadSettles env d w =
           onDownloadSettled (onDownloadRejected (fst d)
             (snd (downloadImage_resume env (fst d) (snd d)
                (w\<lparr>inFlight := remove1 d (inFlight w)\<rparr>))))"
proof -
  obtain e where "fst (downloadImage_resume env (fst d) (snd d)
                (w\<lparr>inFlight := remove1 d (inFlight w)\<rparr>)) = Inl e"
    using downloadImage_resume_failing_result [OF assms(2)] by blast
  then show ?thesis using assms(1) by (simp add: downloadSettles_def split_def)
qed

text \<open>A failure inside the budget: the image waits for its retry.\<close>

lemma failed_attempt_retried:
  assumes "onlyAttempt d w" and "failing env"
    and "of_int (orDefault (retryMap w (img_id (fst d))) 0) < retryAttempts (config w)"
  shows "inFlight (downloadSettles env d w) = []"
    and "downloadQueue (downloadSettles env d w) = []"
    and "retryTimers (downloadSettles env d w) = [fst d]"
    and "activeDownloads (downloadSettles env d w) = 0"
    and "retryMap (downloadSettles env d w)
           = (retryMap w)(img_id (fst d) \<mapsto> orDefault (retryMap w (img_id (fst d))) 0 + 1)"
    and "config (downloadSettles env d w) = config w"
    and "device_images (downloadSettles env d w) = device_images w"
proof -
  let ?w0 = "w\<lparr>inFlight := remove1 d (inFlight w)\<rparr>"
  let ?w1 = "snd (downloadImage_resume env (fst d) (snd d) ?w0)"
  have i: "d \<in> set (inFlight w)" using assms(1) by (simp add: onlyAttempt_def)
  note s = downloadSettles_failing [OF i assms(2)]
  have r: "retryMap ?w1 = retryMap w" "device_images ?w1 = device_images w"
    using assms(2) by (simp_all add: downloadImage_resume_retryMap downloadImage_resume_rows)
  have b: "of_int (orDefault (retryMap ?w1 (img_id (fst d))) 0) < retryAttempts (config ?w1)"
    using assms(3) r by simp
  have q: "downloadQueue (onDownloadRejected (fst d) ?w1) = []"
    using assms(1) by (simp add: onlyAttempt_def)
  show "inFlight (downloadSettles env d w) = []"
    unfolding s onDownloadSettled_idle(1) [OF q] using assms(1) by (simp add: onlyAttempt_def)
  show "downloadQueue (downloadSettles env d w) = []"
    by (simp add: s onDownloadSettled_idle [OF q])
  show "retryTimers (downloadSettles env d w) = [fst d]"
    unfolding s onDownloadSettled_frame onDownloadRejected_retry(1) [OF b]
    using assms(1) by (simp add: onlyAttempt_def)
  show "activeDownloads (downloadSettles env d w) = 0"
    unfolding s onDownloadSettled_idle(3) [OF q] using assms(1) by (simp add: onlyAttempt_def)
  show "retryMap (downloadSettles env d w)
           = (retryMap w)(img_id (fst d) \<mapsto> orDefault (retryMap w (img_id (fst d))) 0 + 1)"
    by (simp add: s onDownloadRejected_retry [OF b] r)
  show "config (downloadSettles env d w) = config w"
    by (simp add: s)
  show "device_images (downloadSettles env d w) = device_images w"
    by (simp add: s r)
qed

text \<open>A failure outside the budget: the image is dropped, its entry stays.\<close>

lemma failed_attempt_abandoned:
  assumes "onlyAttempt d w" and "failing env"
    and "retryAttempts (config w) \<le> of_int (orDefault (retryMap w (img_id (fst d))) 0)"
  shows "inFlight (downloadSettles env d w) = []"
    and "downloadQueue (downloadSettles env d w) = []"
    and "retryTimers (downloadSettles env d w) = []"
    and "activeDownloads (downloadSettles env d w) = 0"
    and "retryMap (downloadSettles env d w) = retryMap w"
    and "device_images (downloadSettles env d w) = device_images w"
proof -
  let ?w0 = "w\<lparr>inFlight := remove1 d (inFlight w)\<rparr>"
  let ?w1 = "snd (downloadImage_resume env (fst d) (snd d) ?w0)"
  have i: "d \<in> set (inFlight w)" using assms(1) by (simp add: onlyAttempt_def)
  note s = downloadSettles_failing [OF i assms(2)]
  have r: "retryMap ?w1 = retryMap w" "device_images ?w1 = device_images w"
    using assms(2) by (simp_all add: downloadImage_resume_retryMap downloadImage_resume_rows)
  have b: "retryAttempts (config ?w1) \<le> of_int (orDefault (retryMap ?w1 (img_id (fst d))) 0)"
    using assms(3) r by simp
  have q: "downloadQueue (onDownloadRejected (fst d) ?w1) = []"
    using assms(1) by (simp add: onlyAttempt_def)
  show "inFlight (downloadSettles env d w) = []"
    unfolding s onDownloadSettled_idle(1) [OF q] using assms(1) by (simp add: onlyAttempt_def)
  show "downloadQueue (downloadSettles env d w) = []"
    by (simp add: s onDownloadSettled_idle [OF q])
  show "retryTimers (downloadSettles env d w) = []"
    unfolding s onDownloadSettled_frame onDownloadRejected_abandon(1) [OF b]
    using assms(1) by (simp add: onlyAttempt_def)
  show "activeDownloads (downloadSettles env d w) = 0"
    unfolding s onDownloadSettled_idle(3) [OF q] using assms(1) by (simp add: onlyAttempt_def)
  show "retryMap (downloadSettles env d w) = retryMap w"
    by (simp add: s onDownloadRejected_abandon [OF b] r)
  show "device_images (downloadSettles env d w) = device_images w"
    by (simp add: s r)
qed

text \<open>
  The retry timer of a waiting image fires: it is downloaded again, to the path
  computed from the configuration then in force.
\<close>

lemma retry_dispatched:
  assumes "inFlight w = []" and "downloadQueue w = []" and "retryTimers w = [img]"
    and "activeDownloads w = 0" and "1 \<le> maxConcurrentDownloads (config w)"
  shows "onlyAttempt (img, filePathOf w img) (retryTimerFires img w)"
    and "retryMap (retryTimerFires img w) = retryMap w"
    and "config (retryTimerFires img w) = config w"
    and "device_images (retryTimerFires img w) = device_images w"
proof -
  have "0 < maxConcurrentDownloads (config w)" using assms(5) by simp
  then have "0 < \<lceil>maxConcurrentDownloads (config w)\<rceil>" by (simp only: zero_less_ceiling)
  then have "Suc 0 \<le> nat \<lceil>maxConcurrentDownloads (config w)\<rceil>" by linarith
  then have k: "dispatchable (w\<lparr>retryTimers := [], downloadQueue := [img]\<rparr>) = 1"
    using assms(4) by (simp add: dispatchable_def min_def)
  show "onlyAttempt (img, filePathOf w img) (retryTimerFires img w)"
    using assms(1-4) k
    by (simp add: retryTimerFires_def retryCallback_def onlyAttempt_def
          processDownloadQueue_fields)
  show "retryMap (retryTimerFires img w) = retryMap w"
    "config (retryTimerFires img w) = config w"
    "device_images (retryTimerFires img w) = device_images w"
    using assms(3) by (simp_all add: retryTimerFires_def)
qed

subsection \<open>What starting, stopping and reconfiguring change\<close>

lemma beginSync_frame [simp]:
  shows "config (beginSync caller w) = config w"
    "isRunning (beginSync caller w) = isRunning w"
    "intervalId (beginSync caller w) = intervalId w"
    "abortController (beginSync caller w) = abortController w"
    "downloadQueue (beginSync caller w) = downloadQueue w"
    "activeDownloads (beginSync caller w) = activeDownloads w"
    "retryMap (beginSync caller w) = retryMap w"
    "arrays (beginSync caller w) = arrays w"
    "nextHandle (beginSync caller w) = nextHandle w"
    "intervalTimers (beginSync caller w) = intervalTimers w"
    "abortedSignals (beginSync caller w) = abortedSignals w"
    "inFlight (beginSync caller w) = inFlight w"
    "retryTimers (beginSync caller w) = retryTimers w"
    "stopPolls (beginSync caller w) = stopPolls w"
    "stopsCompleted (beginSync caller w) = stopsCompleted w"
    "storageCheck (beginSync caller w) = storageCheck w"
    "lastSyncItem (beginSync caller w) = lastSyncItem w"
    "files (beginSync caller w) = files w"
    "device_images (beginSync caller w) = device_images w"
    "console (beginSync caller w) = console w"
  by (simp_all add: beginSync_def Let_def)

lemma start_frame [simp]:
  shows "config (start w) = config w"
    "intervalId (start w) = intervalId w"
    "downloadQueue (start w) = downloadQueue w"
    "activeDownloads (start w) = activeDownloads w"
    "retryMap (start w) = retryMap w"
    "arrays (start w) = arrays w"
    "intervalTimers (start w) = intervalTimers w"
    "abortedSignals (start w) = abortedSignals w"
    "inFlight (start w) = inFlight w"
    "retryTimers (start w) = retryTimers w"
    "stopPolls (start w) = stopPolls w"
    "stopsCompleted (start w) = stopsCompleted w"
    "storageCheck (start w) = storageCheck w"
    "lastSyncItem (start w) = lastSyncItem w"
    "files (start w) = files w"
    "device_images (start w) = device_images w"
  by (simp_all add: start_def)

lemma start_afterSync_frame [simp]:
  shows "config (start_afterSync r w) = config w"
    "isRunning (start_afterSync r w) = isRunning w"
    "abortController (start_afterSync r w) = abortController w"
    "downloadQueue (start_afterSync r w) = downloadQueue w"
    "activeDownloads (start_afterSync r w) = activeDownloads w"
    "retryMap (start_afterSync r w) = retryMap w"
    "arrays (start_afterSync r w) = arrays w"
    "abortedSignals (start_afterSync r w) = abortedSignals w"
    "inFlight (start_afterSync r w) = inFlight w"
    "retryTimers (start_afterSync r w) = retryTimers w"
    "stopPolls (start_afterSync r w) = stopPolls w"
    "stopsCompleted (start_afterSync r w) = stopsCompleted w"
    "pendingSyncs (start_afterSync r w) = pendingSyncs w"
    "storageCheck (start_afterSync r w) = storageCheck w"
    "lastSyncItem (start_afterSync r w) = lastSyncItem w"
    "files (start_afterSync r w) = files w"
    "device_images (start_afterSync r w) = device_images w"
    "effects (start_afterSync r w) = effects w"
  by (simp_all add: start_afterSync_def Let_def split: sum.splits)

lemma intervalCallback_frame [simp]:
  shows "config (intervalCallback w) = config w"
    "isRunning (intervalCallback w) = isRunning w"
    "intervalId (intervalCallback w) = intervalId w"
    "abortController (intervalCallback w) = abortController w"
    "downloadQueue (intervalCallback w) = downloadQueue w"
    "activeDownloads (intervalCallback w) = activeDownloads w"
    "retryMap (intervalCallback w) = retryMap w"
    "arrays (intervalCallback w) = arrays w"
    "nextHandle (intervalCallback w) = nextHandle w"
    "intervalTimers (intervalCallback w) = intervalTimers w"
    "abortedSignals (intervalCallback w) = abortedSignals w"
    "inFlight (intervalCallback w) = inFlight w"
    "retryTimers (intervalCallback w) = retryTimers w"
    "stopPolls (intervalCallback w) = stopPolls w"
    "stopsCompleted (intervalCallback w) = stopsCompleted w"
    "storageCheck (intervalCallback w) = storageCheck w"
    "lastSyncItem (intervalCallback w) = lastSyncItem w"
    "files (intervalCallback w) = files w"
    "device_images (intervalCallback w) = device_images w"
    "console (intervalCallback w) = console w"
  by (simp_all add: intervalCallback_def)

lemma checkDownloads_frame [simp]:
  shows "config (snd (checkDownloads w)) = config w"
    "isRunning (snd (checkDownloads w)) = isRunning w"
    "intervalId (snd (checkDownloads w)) = intervalId w"
    "abortController (snd (checkDownloads w)) = abortController w"
    "downloadQueue (snd (checkDownloads w)) = downloadQueue w"
    "activeDownloads (snd (checkDownloads w)) = activeDownloads w"
    "retryMap (snd (checkDownloads w)) = retryMap w"
    "arrays (snd (checkDownloads w)) = arrays w"
    "nextHandle (snd (checkDownloads w)) = nextHandle w"
    "intervalTimers (snd (checkDownloads w)) = intervalTimers w"
    "abortedSignals (snd (checkDownloads w)) = abortedSignals w"
    "inFlight (snd (checkDownloads w)) = inFlight w"
    "retryTimers (snd (checkDownloads w)) = retryTimers w"
    "stopPolls (snd (checkDownloads w)) = stopPolls w"
    "stopsCompleted (snd (checkDownloads w)) = stopsCompleted w"
    "pendingSyncs (snd (checkDownloads w)) = pendingSyncs w"
    "storageCheck (snd (checkDownloads w)) = storageCheck w"
    "lastSyncItem (snd (checkDownloads w)) = lastSyncItem w"
    "files (snd (checkDownloads w)) = files w"
    "device_images (snd (checkDownloads w)) = device_images w"
    "effects (snd (checkDownloads w)) = effects w"
  by (simp_all add: checkDownloads_def)

lemma stop_frame [simp]:
  shows "config (snd (stop w)) = config w"
    "isRunning (snd (stop w)) = isRunning w"
    "downloadQueue (snd (stop w)) = downloadQueue w"
    "activeDownloads (snd (stop w)) = activeDownloads w"
    "retryMap (snd (stop w)) = retryMap w"
    "arrays (snd (stop w)) = arrays w"
    "nextHandle (snd (stop w)) = nextHandle w"
    "inFlight (snd (stop w)) = inFlight w"
    "retryTimers (snd (stop w)) = retryTimers w"
    "stopsCompleted (snd (stop w)) = stopsCompleted w"
    "pendingSyncs (snd (stop w)) = pendingSyncs w"
    "storageCheck (snd (stop w)) = storageCheck w"
    "lastSyncItem (snd (stop w)) = lastSyncItem w"
    "files (snd (stop w)) = files w"
    "device_images (snd (stop w)) = device_images w"
    "effects (snd (stop w)) = effects w"
  by (simp_all add: stop_def Let_def split_def checkDownloads_def split: option.splits)

lemma stop_afterWait_frame [simp]:
  shows "config (stop_afterWait w) = config w"
    "intervalId (stop_afterWait w) = intervalId w"
    "abortController (stop_afterWait w) = abortController w"
    "downloadQueue (stop_afterWait w) = downloadQueue w"
    "activeDownloads (stop_afterWait w) = activeDownloads w"
    "retryMap (stop_afterWait w) = retryMap w"
    "arrays (stop_afterWait w) = arrays w"
    "nextHandle (stop_afterWait w) = nextHandle w"
    "intervalTimers (stop_afterWait w) = intervalTimers w"
    "abortedSignals (stop_afterWait w) = abortedSignals w"
    "inFlight (stop_afterWait w) = inFlight w"
    "retryTimers (stop_afterWait w) = retryTimers w"
    "stopPolls (stop_afterWait w) = stopPolls w"
    "pendingSyncs (stop_afterWait w) = pendingSyncs w"
    "storageCheck (stop_afterWait w) = storageCheck w"
    "lastSyncItem (stop_afterWait w) = lastSyncItem w"
    "files (stop_afterWait w) = files w"
    "device_images (stop_afterWait w) = device_images w"
    "effects (stop_afterWait w) = effects w"
  by (simp_all add: stop_afterWait_def)

lemma assignConfig_frame [simp]:
  shows "isRunning (assignConfig c w) = isRunning w"
    "intervalId (assignConfig c w) = intervalId w"
    "abortController (assignConfig c w) = abortController w"
    "downloadQueue (assignConfig c w) = downloadQueue w"
    "activeDownloads (assignConfig c w) = activeDownloads w"
    "retryMap (assignConfig c w) = retryMap w"
    "intervalTimers (assignConfig c w) = intervalTimers w"
    "abortedSignals (assignConfig c w) = abortedSignals w"
    "inFlight (assignConfig c w) = inFlight w"
    "retryTimers (assignConfig c w) = retryTimers w"
    "stopPolls (assignConfig c w) = stopPolls w"
    "stopsCompleted (assignConfig c w) = stopsCompleted w"
    "pendingSyncs (assignConfig c w) = pendingSyncs w"
    "storageCheck (assignConfig c w) = storageCheck w"
    "lastSyncItem (assignConfig c w) = lastSyncItem w"
    "files (assignConfig c w) = files w"
    "device_images (assignConfig c w) = device_images w"
    "effects (assignConfig c w) = effects w"
    "console (assignConfig c w) = console w"
  by (simp_all add: assignConfig_def)

lemma retryTimerFires_frame [simp]:
  shows "config (retryTimerFires img w) = config w"
    "isRunning (retryTimerFires img w) = isRunning w"
    "intervalId (retryTimerFires img w) = intervalId w"
    "abortController (retryTimerFires img w) = abortController w"
    "retryMap (retryTimerFires img w) = retryMap w"
    "arrays (retryTimerFires img w) = arrays w"
    "nextHandle (retryTimerFires img w) = nextHandle w"
    "intervalTimers (retryTimerFires img w) = intervalTimers w"
    "abortedSignals (retryTimerFires img w) = abortedSignals w"
    "stopPolls (retryTimerFires img w) = stopPolls w"
    "stopsCompleted (retryTimerFires img w) = stopsCompleted w"
    "pendingSyncs (retryTimerFires img w) = pendingSyncs w"
    "storageCheck (retryTimerFires img w) = storageCheck w"
    "lastSyncItem (retryTimerFires img w) = lastSyncItem w"
    "files (retryTimerFires img w) = files w"
    "device_images (retryTimerFires img w) = device_images w"
    "console (retryTimerFires img w) = console w"
  by (simp_all add: retryTimerFires_def)

lemma downloadSettles_frame [simp]:
  shows "config (downloadSettles env d w) = config w"
    "isRunning (downloadSettles env d w) = isRunning w"
    "intervalId (downloadSettles env d w) = intervalId w"
    "abortController (downloadSettles env d w) = abortController w"
    "arrays (downloadSettles env d w) = arrays w"
    "nextHandle (downloadSettles env d w) = nextHandle w"
    "intervalTimers (downloadSettles env d w) = intervalTimers w"
    "abortedSignals (downloadSettles env d w) = abortedSignals w"
    "stopPolls (downloadSettles env d w) = stopPolls w"
    "stopsCompleted (downloadSettles env d w) = stopsCompleted w"
    "pendingSyncs (downloadSettles env d w) = pendingSyncs w"
    "storageCheck (downloadSettles env d w) = storageCheck w"
    "lastSyncItem (downloadSettles env d w) = lastSyncItem w"
  by (simp_all add: downloadSettles_def split_def split: sum.splits)

lemma syncReturns_frame [simp]:
  shows "config (syncReturns caller r w) = config w"
    "isRunning (syncReturns caller r w) = isRunning w"
    "abortController (syncReturns caller r w) = abortController w"
    "downloadQueue (syncReturns caller r w) = downloadQueue w"
    "activeDownloads (syncReturns caller r w) = activeDownloads w"
    "retryMap (syncReturns caller r w) = retryMap w"
    "arrays (syncReturns caller r w) = arrays w"
    "abortedSignals (syncReturns caller r w) = abortedSignals w"
    "inFlight (syncReturns caller r w) = inFlight w"
    "retryTimers (syncReturns caller r w) = retryTimers w"
    "stopPolls (syncReturns caller r w) = stopPolls w"
    "stopsCompleted (syncReturns caller r w) = stopsCompleted w"
    "pendingSyncs (syncReturns caller r w) = pendingSyncs w"
    "storageCheck (syncReturns caller r w) = storageCheck w"
    "lastSyncItem (syncReturns caller r w) = lastSyncItem w"
    "files (syncReturns caller r w) = files w"
    "device_images (syncReturns caller r w) = device_images w"
    "effects (syncReturns caller r w) = effects w"
  by (simp_all add: syncReturns_def split: Caller.splits sum.splits)

lemma syncProceeds_frame [simp]:
  shows "config (syncProceeds caller stage env w) = config w"
    "isRunning (syncProceeds caller stage env w) = isRunning w"
    "abortController (syncProceeds caller stage env w) = abortController w"
    "retryMap (syncProceeds caller stage env w) = retryMap w"
    "arrays (syncProceeds caller stage env w) = arrays w"
    "abortedSignals (syncProceeds caller stage env w) = abortedSignals w"
    "retryTimers (syncProceeds caller stage env w) = retryTimers w"
    "stopPolls (syncProceeds caller stage env w) = stopPolls w"
    "stopsCompleted (syncProceeds caller stage env w) = stopsCompleted w"
    "storageCheck (syncProceeds caller stage env w) = storageCheck w"
    "files (syncProceeds caller stage env w) = files w"
    "device_images (syncProceeds caller stage env w) = device_images w"
  by (simp_all add: syncProceeds_def Let_def split_def split: SyncStage.splits option.splits Progress.splits)

lemma ensureStorageDirectory_begin_frame [simp]:
  shows "config (ensureStorageDirectory_begin w) = config w"
    "isRunning (ensureStorageDirectory_begin w) = isRunning w"
    "intervalId (ensureStorageDirectory_begin w) = intervalId w"
    "abortController (ensureStorageDirectory_begin w) = abortController w"
    "downloadQueue (ensureStorageDirectory_begin w) = downloadQueue w"
    "activeDownloads (ensureStorageDirectory_begin w) = activeDownloads w"
    "retryMap (ensureStorageDirectory_begin w) = retryMap w"
    "arrays (ensureStorageDirectory_begin w) = arrays w"
    "nextHandle (ensureStorageDirectory_begin w) = nextHandle w"
    "intervalTimers (ensureStorageDirectory_begin w) = intervalTimers w"
    "abortedSignals (ensureStorageDirectory_begin w) = abortedSignals w"
    "inFlight (ensureStorageDirectory_begin w) = inFlight w"
    "retryTimers (ensureStorageDirectory_begin w) = retryTimers w"
    "stopPolls (ensureStorageDirectory_begin w) = stopPolls w"
    "stopsCompleted (ensureStorageDirectory_begin w) = stopsCompleted w"
    "pendingSyncs (ensureStorageDirectory_begin w) = pendingSyncs w"
    "storageCheck (ensureStorageDirectory_begin w) = storageCheck w"
    "lastSyncItem (ensureStorageDirectory_begin w) = lastSyncItem w"
    "files (ensureStorageDirectory_begin w) = files w"
    "device_images (ensureStorageDirectory_begin w) = device_images w"
    "console (ensureStorageDirectory_begin w) = console w"
  by (simp_all add: ensureStorageDirectory_begin_def)

lemma ensureStorageDirectory_resume_frame [simp]:
  shows "config (ensureStorageDirectory_resume dir w) = config w"
    "isRunning (ensureStorageDirectory_resume dir w) = isRunning w"
    "intervalId (ensureStorageDirectory_resume dir w) = intervalId w"
    "abortController (ensureStorageDirectory_resume dir w) = abortController w"
    "downloadQueue (ensureStorageDirectory_resume dir w) = downloadQueue w"
    "activeDownloads (ensureStorageDirectory_resume dir w) = activeDownloads w"
    "retryMap (ensureStorageDirectory_resume dir w) = retryMap w"
    "arrays (ensureStorageDirectory_resume dir w) = arrays w"
    "nextHandle (ensureStorageDirectory_resume dir w) = nextHandle w"
    "intervalTimers (ensureStorageDirectory_resume dir w) = intervalTimers w"
    "abortedSignals (ensureStorageDirectory_resume dir w) = abortedSignals w"
    "inFlight (ensureStorageDirectory_resume dir w) = inFlight w"
    "retryTimers (ensureStorageDirectory_resume dir w) = retryTimers w"
    "stopPolls (ensureStorageDirectory_resume dir w) = stopPolls w"
    "stopsCompleted (ensureStorageDirectory_resume dir w) = stopsCompleted w"
    "pendingSyncs (ensureStorageDirectory_resume dir w) = pendingSyncs w"
    "storageCheck (ensureStorageDirectory_resume dir w) = storageCheck w"
    "lastSyncItem (ensureStorageDirectory_resume dir w) = lastSyncItem w"
    "files (ensureStorageDirectory_resume dir w) = files w"
    "device_images (ensureStorageDirectory_resume dir w) = device_images w"
  by (simp_all add: ensureStorageDirectory_resume_def Let_def split: DirEnv.splits)

lemma stopPollFires_frame [simp]:
  shows "config (stopPollFires w) = config w"
    "intervalId (stopPollFires w) = intervalId w"
    "abortController (stopPollFires w) = abortController w"
    "downloadQueue (stopPollFires w) = downloadQueue w"
    "activeDownloads (stopPollFires w) = activeDownloads w"
    "retryMap (stopPollFires w) = retryMap w"
    "arrays (stopPollFires w) = arrays w"
    "nextHandle (stopPollFires w) = nextHandle w"
    "intervalTimers (stopPollFires w) = intervalTimers w"
    "abortedSignals (stopPollFires w) = abortedSignals w"
    "inFlight (stopPollFires w) = inFlight w"
    "retryTimers (stopPollFires w) = retryTimers w"
    "pendingSyncs (stopPollFires w) = pendingSyncs w"
    "storageCheck (stopPollFires w) = storageCheck w"
    "lastSyncItem (stopPollFires w) = lastSyncItem w"
    "files (stopPollFires w) = files w"
    "device_images (stopPollFires w) = device_images w"
    "effects (stopPollFires w) = effects w"
  by (simp_all add: stopPollFires_def checkDownloads_def)

lemma stop_resolved:
  "fst (stop w) = StopResolved \<longleftrightarrow> isRunning w \<and> activeDownloads w = 0"
  by (simp add: stop_def Let_def split_def checkDownloads_def split: option.splits)

lemma stop_polling:
  "fst (stop w) = StopPolling \<longleftrightarrow> isRunning w \<and> activeDownloads w \<noteq> 0"
  by (simp add: stop_def Let_def split_def checkDownloads_def split: option.splits)

text \<open>
  What \<open>stop\<close> does to a running service before it waits: the interval timer is
  cleared, the abort signalled, and a poll armed when downloads are active.
\<close>

lemma stop_handles:
  assumes "isRunning w"
  shows "intervalId (snd (stop w)) = None"
    and "abortController (snd (stop w)) = None"
    and "intervalTimers (snd (stop w))
           = (case intervalId w of None \<Rightarrow> intervalTimers w
                                 | Some t \<Rightarrow> removeAll t (intervalTimers w))"
    and "abortedSignals (snd (stop w))
           = (case abortController w of None \<Rightarrow> abortedSignals w
                                      | Some c \<Rightarrow> abortedSignals w @ [c])"
    and "stopPolls (snd (stop w)) = (if activeDownloads w = 0 then stopPolls w else stopPolls w + 1)"
  using assms
  by (simp_all add: stop_def Let_def split_def checkDownloads_def split: option.splits)

lemma byValue_cong:
  "config w' = config w \<Longrightarrow> arrays w' = arrays w \<Longrightarrow> byValue w' = byValue w"
  by (simp add: byValue_def)

lemma updateConfig_invalid:
  assumes "ConfigSchema_parse isUrl dd (spreadConfig (byValue w) partial) = None"
  shows "updateConfig isUrl dd partial w =
           (Inl InvalidConfiguration,
            (if isRunning w then fst (stop w) else StopDone),
            logError ConfigurationValidationFailed (if isRunning w then snd (stop w) else w))"
proof (cases "isRunning w")
  case True
  have "byValue (snd (stop w)) = byValue w" by (rule byValue_cong) simp_all
  then show ?thesis using assms True by (simp add: updateConfig_def Let_def split_def)
next
  case False
  then show ?thesis using assms by (simp add: updateConfig_def Let_def)
qed

text \<open>A property set to \<open>undefined\<close> overrides the current value before validation.\<close>

lemma undefined_endpoint_rejected:
  "ConfigSchema_parse isUrl dd (spreadConfig cur undefinedEndpoint) = None"
  by (simp add: ConfigSchema_parse_def spreadConfig_def spreadProp_def undefinedEndpoint_def
        noChange_def Let_def)

lemma updateConfig_frame [simp]:
  shows "downloadQueue (snd (snd (updateConfig isUrl dd partial w))) = downloadQueue w"
    "activeDownloads (snd (snd (updateConfig isUrl dd partial w))) = activeDownloads w"
    "retryMap (snd (snd (updateConfig isUrl dd partial w))) = retryMap w"
    "inFlight (snd (snd (updateConfig isUrl dd partial w))) = inFlight w"
    "retryTimers (snd (snd (updateConfig isUrl dd partial w))) = retryTimers w"
    "stopsCompleted (snd (snd (updateConfig isUrl dd partial w))) = stopsCompleted w"
    "storageCheck (snd (snd (updateConfig isUrl dd partial w))) = storageCheck w"
    "lastSyncItem (snd (snd (updateConfig isUrl dd partial w))) = lastSyncItem w"
    "files (snd (snd (updateConfig isUrl dd partial w))) = files w"
    "device_images (snd (snd (updateConfig isUrl dd partial w))) = device_images w"
  by (simp_all add: updateConfig_def Let_def split_def split: option.splits)

lemma updateConfig_await:
  "fst (snd (updateConfig isUrl dd partial w)) = (if isRunning w then fst (stop w) else StopDone)"
  by (simp add: updateConfig_def Let_def split_def split: option.splits)

subsection \<open>The limit on active downloads\<close>

lemma withinLimit_frames [simp]:
  shows "withinLimit h (emit e w) = withinLimit h w"
    "withinLimit h (logInfo m w) = withinLimit h w"
    "withinLimit h (logWarn m w) = withinLimit h w"
    "withinLimit h (logError m w) = withinLimit h w"
    "withinLimit h (getLastSyncTimestamp_begin w) = withinLimit h w"
    "withinLimit h (snd (getLastSyncTimestamp_resume senv w)) = withinLimit h w"
    "withinLimit h (fetchNewImages_begin l w) = withinLimit h w"
    "withinLimit h (snd (fetchNewImages_resume senv w)) = withinLimit h w"
    "withinLimit h (snd (updateLastSyncTimestamp_begin senv w)) = withinLimit h w"
    "withinLimit h (updateLastSyncTimestamp_resume senv now w) = withinLimit h w"
    "withinLimit h (updateLastSyncTimestamp senv w) = withinLimit h w"
    "withinLimit h (snd (syncImages_afterWrite senv now w)) = withinLimit h w"
    "withinLimit h (syncImages_begin w) = withinLimit h w"
    "withinLimit h (snd (syncImages_afterUser senv w)) = withinLimit h w"
    "withinLimit h (syncImages_afterLastSync senv w) = withinLimit h w"
    "withinLimit h (snd (downloadImage_resume denv img p w)) = withinLimit h w"
    "withinLimit h (onDownloadRejected img w) = withinLimit h w"
    "withinLimit h (beginSync caller w) = withinLimit h w"
    "withinLimit h (start w) = withinLimit h w"
    "withinLimit h (start_afterSync r w) = withinLimit h w"
    "withinLimit h (syncReturns caller r w) = withinLimit h w"
    "withinLimit h (intervalCallback w) = withinLimit h w"
    "withinLimit h (snd (stop w)) = withinLimit h w"
    "withinLimit h (stop_afterWait w) = withinLimit h w"
    "withinLimit h (stopPollFires w) = withinLimit h w"
    "withinLimit h (ensureStorageDirectory_begin w) = withinLimit h w"
    "withinLimit h (ensureStorageDirectory_resume dir w) = withinLimit h w"
    "withinLimit h (w\<lparr>storageCheck := b\<rparr>) = withinLimit h w"
    "withinLimit h (w\<lparr>downloadQueue := q\<rparr>) = withinLimit h w"
    "withinLimit h (w\<lparr>pendingSyncs := ps\<rparr>) = withinLimit h w"
    "withinLimit h (w\<lparr>retryTimers := ts\<rparr>) = withinLimit h w"
  by (simp_all add: withinLimit_def)

lemma withinLimit_mono: "withinLimit h w \<Longrightarrow> h \<le> h' \<Longrightarrow> withinLimit h' w"
  by (simp add: withinLimit_def)

lemma withinLimit_processDownloadQueue [simp]:
  assumes "withinLimit h w"
  shows "withinLimit h (processDownloadQueue w)"
proof -
  have k: "dispatchable w \<le> length (downloadQueue w)"
    by (simp add: dispatchable_def)
  have "\<lceil>maxConcurrentDownloads (config w) - of_int (activeDownloads w)\<rceil>
          = \<lceil>maxConcurrentDownloads (config w)\<rceil> - activeDownloads w"
    by simp
  then have c: "activeDownloads w + int (dispatchable w) \<le> h"
    using assms unfolding dispatchable_def withinLimit_def by linarith
  show ?thesis
    using assms k c by (simp add: withinLimit_def processDownloadQueue_fields)
qed














subsection \<open>Assignments to a copy of the configuration\<close>

lemma mutate_assignment:
  assumes "isAssignment m" and "fileTypes (config w) < nextHandle w"
  shows "config (snd (mutate m (c, w))) = config w"
    and "byValue (snd (mutate m (c, w))) = byValue w"
    and "fileTypes (config w) < nextHandle (snd (mutate m (c, w)))"
  using assms by (cases m; simp add: isAssignment_def byValue_def)+

lemma getConfig_assignments_isolated:
  assumes "list_all isAssignment ms" and "fileTypes (config w) < nextHandle w"
  shows "config (snd (fold mutate ms (c, w))) = config w
         \<and> byValue (snd (fold mutate ms (c, w))) = byValue w"
  using assms
proof (induction ms arbitrary: c w)
  case Nil
  then show ?case by simp
next
  case (Cons m ms)
  obtain c' w' where s: "mutate m (c, w) = (c', w')" by fastforce
  have m: "config w' = config w" "byValue w' = byValue w" "fileTypes (config w) < nextHandle w'"
    using mutate_assignment [of m w c] Cons.prems s by simp_all
  have "fileTypes (config w') < nextHandle w'" using m by simp
  then show ?case
    using Cons.IH [of w' c'] Cons.prems(1) s m by simp
qed

subsection \<open>A polling stop returns once the downloads are over\<close>

lemma stop_returns_once_idle:
  assumes "0 < stopPolls w" and "activeDownloads w = 0"
  shows "stopsCompleted (stopPollFires w) = stopsCompleted w + 1"
    and "\<not> isRunning (stopPollFires w)"
  using assms
  by (simp_all add: stopPollFires_def checkDownloads_def stop_afterWait_def logInfo_def)

lemma stop_keeps_polling:
  assumes "activeDownloads w \<noteq> 0"
  shows "stopsCompleted (stopPollFires w) = stopsCompleted w"
    and "stopPolls (stopPollFires w) = stopPolls w"
    and "isRunning (stopPollFires w) = isRunning w"
  using assms
  by (simp_all add: stopPollFires_def checkDownloads_def logInfo_def)

subsection \<open>A cycle, step by step\<close>

text \<open>
  The three steps of a run of \<open>syncImages\<close>, taken one after the other with nothing in
  between, are the function run to its end.
\<close>

lemma pendingSyncs_same: "pendingSyncs w = ps \<Longrightarrow> w\<lparr>pendingSyncs := ps\<rparr> = w"
  by (cases w) simp

lemma log_pendingSyncs:
  shows "logInfo m (w\<lparr>pendingSyncs := ps\<rparr>) = (logInfo m w)\<lparr>pendingSyncs := ps\<rparr>"
    "logWarn m (w\<lparr>pendingSyncs := ps\<rparr>) = (logWarn m w)\<lparr>pendingSyncs := ps\<rparr>"
    "logError m (w\<lparr>pendingSyncs := ps\<rparr>) = (logError m w)\<lparr>pendingSyncs := ps\<rparr>"
    "emit e (w\<lparr>pendingSyncs := ps\<rparr>) = (emit e w)\<lparr>pendingSyncs := ps\<rparr>"
  by (simp_all add: logInfo_def logWarn_def logError_def emit_def)

lemma processDownloadQueue_pendingSyncs:
  shows "processDownloadQueue (w\<lparr>pendingSyncs := ps\<rparr>)
           = (processDownloadQueue w)\<lparr>pendingSyncs := ps\<rparr>"
    and "processDownloadQueue (w\<lparr>pendingSyncs := ps, downloadQueue := q\<rparr>)
           = (processDownloadQueue (w\<lparr>downloadQueue := q\<rparr>))\<lparr>pendingSyncs := ps\<rparr>"
  by (simp_all add: processDownloadQueue_closed dispatchable_def filePathOf_def directoryOf_def)

lemma syncImages_afterLastSync_pendingSyncs:
  "syncImages_afterLastSync env (w\<lparr>pendingSyncs := ps\<rparr>)
     = (syncImages_afterLastSync env w)\<lparr>pendingSyncs := ps\<rparr>"
  by (simp add: syncImages_afterLastSync_def getLastSyncTimestamp_resume_def
        fetchNewImages_begin_def Let_def bearer_def log_pendingSyncs)

lemma fetchNewImages_resume_pendingSyncs:
  "fetchNewImages_resume env (w\<lparr>pendingSyncs := ps\<rparr>)
     = (fst (fetchNewImages_resume env w), (snd (fetchNewImages_resume env w))\<lparr>pendingSyncs := ps\<rparr>)"
  by (simp add: fetchNewImages_resume_def log_pendingSyncs
        split: FetchOutcome.splits JsonBody.splits sum.splits)

lemma updateLastSyncTimestamp_pendingSyncs:
  shows "updateLastSyncTimestamp_begin env (w\<lparr>pendingSyncs := ps\<rparr>)
           = (fst (updateLastSyncTimestamp_begin env w),
              (snd (updateLastSyncTimestamp_begin env w))\<lparr>pendingSyncs := ps\<rparr>)"
    and "updateLastSyncTimestamp_resume env now (w\<lparr>pendingSyncs := ps\<rparr>)
           = (updateLastSyncTimestamp_resume env now w)\<lparr>pendingSyncs := ps\<rparr>"
  by (simp_all add: updateLastSyncTimestamp_begin_def updateLastSyncTimestamp_resume_def Let_def
        log_pendingSyncs)

lemma syncImages_afterManifest_pendingSyncs:
  "syncImages_afterManifest env (w\<lparr>pendingSyncs := ps\<rparr>)
     = (fst (syncImages_afterManifest env w),
        (snd (syncImages_afterManifest env w))\<lparr>pendingSyncs := ps\<rparr>)"
  unfolding syncImages_afterManifest_def fetchNewImages_resume_pendingSyncs
  by (cases "fst (fetchNewImages_resume env w)")
     (simp_all add: split_def Let_def log_pendingSyncs processDownloadQueue_pendingSyncs
        updateLastSyncTimestamp_pendingSyncs)

lemma syncImages_afterManifest_writes:
  "fst (syncImages_afterManifest env w) = Writes now \<Longrightarrow> now = sync_now env"
  by (auto simp add: syncImages_afterManifest_def Let_def split_def split: sum.splits if_splits)

lemma cycle_runs_syncImages:
  assumes "pendingSyncs w = []"
  shows "run isUrl dd (cycle caller env) (beginSync caller w)
           = syncReturns caller (fst (syncImages env w)) (snd (syncImages env w))"
proof (cases "sync_user env")
  case True
  let ?w1 = "getLastSyncTimestamp_begin (syncImages_begin w)"
  let ?w2 = "syncImages_afterLastSync env ?w1"
  let ?m = "syncImages_afterManifest env ?w2"
  have a: "syncProceeds caller AwaitUser env (beginSync caller w)
             = ?w1\<lparr>pendingSyncs := [(caller, AwaitLastSync)]\<rparr>"
    using True assms
    by (simp add: syncProceeds_def beginSync_def Let_def syncImages_afterUser_def
          getLastSyncTimestamp_begin_def log_pendingSyncs)
  have b: "syncProceeds caller AwaitLastSync env (?w1\<lparr>pendingSyncs := [(caller, AwaitLastSync)]\<rparr>)
             = ?w2\<lparr>pendingSyncs := [(caller, AwaitManifest)]\<rparr>"
    by (simp add: syncProceeds_def Let_def syncImages_afterLastSync_pendingSyncs)
  have e: "pendingSyncs (snd ?m) = []"
    using assms by simp
  show ?thesis
  proof (cases "fst ?m")
    case (Returns r)
    have c: "syncProceeds caller AwaitManifest env (?w2\<lparr>pendingSyncs := [(caller, AwaitManifest)]\<rparr>)
               = syncReturns caller r (snd ?m)"
      using Returns
      by (simp add: syncProceeds_def Let_def split_def syncImages_afterManifest_pendingSyncs
            pendingSyncs_same [OF e])
    have n: "pendingSyncs (syncReturns caller r (snd ?m)) = []" using e by simp
    have d: "syncProceeds caller stage env (syncReturns caller r (snd ?m))
               = syncReturns caller r (snd ?m)" for stage
      using n by (simp add: syncProceeds_def)
    have s: "syncImages env w = (r, snd ?m)"
      unfolding syncImages_signed_in [OF True] using Returns by (simp add: split_def)
    show ?thesis
      by (simp add: cycle_def a b c d s)
  next
    case (Writes now)
    have now: "now = sync_now env"
      using Writes by (rule syncImages_afterManifest_writes)
    have c: "syncProceeds caller AwaitManifest env (?w2\<lparr>pendingSyncs := [(caller, AwaitManifest)]\<rparr>)
               = (snd ?m)\<lparr>pendingSyncs := [(caller, AwaitWrite now)]\<rparr>"
      using Writes e
      by (simp add: syncProceeds_def Let_def split_def syncImages_afterManifest_pendingSyncs)
    have f: "pendingSyncs (updateLastSyncTimestamp_resume env now (snd ?m)) = []"
      using e by simp
    have d: "syncProceeds caller (AwaitWrite now) env
               ((snd ?m)\<lparr>pendingSyncs := [(caller, AwaitWrite now)]\<rparr>)
               = syncReturns caller (Inr ()) (updateLastSyncTimestamp_resume env now (snd ?m))"
      by (simp add: syncProceeds_def Let_def syncImages_afterWrite_def
            updateLastSyncTimestamp_pendingSyncs pendingSyncs_same [OF f])
    have s: "syncImages env w = (Inr (), updateLastSyncTimestamp_resume env now (snd ?m))"
      unfolding syncImages_signed_in [OF True] using Writes
      by (simp add: split_def syncImages_afterWrite_def)
    show ?thesis
      using d by (simp add: cycle_def a b c s now)
  qed
next
  case False
  let ?w1 = "logWarn NoAuthenticatedUser (syncImages_begin w)"
  have e: "pendingSyncs ?w1 = []" using assms by simp
  have a: "syncProceeds caller AwaitUser env (beginSync caller w)
             = syncReturns caller (Inr ()) ?w1"
    using False assms
    by (simp add: syncProceeds_def beginSync_def Let_def syncImages_afterUser_def
          log_pendingSyncs pendingSyncs_same [OF e])
  have n: "pendingSyncs (syncReturns caller (Inr ()) ?w1) = []"
    using assms by simp
  have b: "syncProceeds caller stage env (syncReturns caller (Inr ()) ?w1)
             = syncReturns caller (Inr ()) ?w1" for stage
    using n by (simp add: syncProceeds_def)
  have s: "syncImages env w = (Inr (), ?w1)"
    using False by (simp add: syncImages_def syncImages_afterUser_def)
  show ?thesis
    by (simp add: cycle_def a b s)
qed

section \<open>The claims\<close>

subsection \<open>The watermark\<close>

text \<open>
  C1, as stated, fails. In the end-to-end scenario (three items, two downloads at a
  time) the value stored at the end of \<open>syncImages\<close> is the clock of the cycle, not
  the latest item timestamp \<open>2025-01-03T10:00:00.000Z\<close>, and it is stored while one item
  is still queued, two downloads are in flight and no row has been inserted.
\<close>

theorem watermark_counterexample:
  "lastSyncItem (firstCycle 2 2 threeItems) = Some ''2026-11-02T09:00:00.000Z''
   \<and> lastSyncItem (firstCycle 2 2 threeItems) \<noteq> Some ''2025-01-03T10:00:00.000Z''
   \<and> downloadQueue (firstCycle 2 2 threeItems) = [sampleImage ''c'' ''2025-01-02T10:00:00.000Z'']
   \<and> activeDownloads (firstCycle 2 2 threeItems) = 2
   \<and> device_images (firstCycle 2 2 threeItems) = []"
  by code_simp

text \<open>
  C1, amended: for every sync cycle that enqueues at least one item, the watermark is
  set to the clock time of the cycle (\<open>new Date().toISOString()\<close>), provided the
  storage takes the write, and the write does not wait for the downloads.
  \<^item> When the manifest of the cycle arrives, the items join the queue, the queue loop
    dispatches as many downloads as the limit leaves room for (\<open>k\<close> below: each
    leaves the queue, is counted as active and in flight with the path computed for it,
    and its directory is asked for), and then the write of the clock time is issued, as
    the last call of that step: every other item is still queued, no metadata row has
    been added, and the cycle awaits the answer to the write.
  \<^item> When the storage answers that it has taken the write, the watermark is that clock
    time, whatever the downloads have come to by then; the answer changes nothing else
    about them.
\<close>

theorem watermark_written_at_dispatch:
  assumes "(caller, AwaitManifest) \<in> set (pendingSyncs w)"
    and "sync_fetch env = FetchResponse status (JsonArray data)"
    and "200 \<le> status" and "status \<le> 299"
    and "mapItems data = Inr images" and "images \<noteq> []"
    and "(caller', AwaitWrite now) \<in> set (pendingSyncs v)"
    and "sync_setItemOk env'"
  shows "(let k = dispatchable (w\<lparr>downloadQueue := downloadQueue w @ images\<rparr>);
              w' = step isUrl dd (SyncProceeds caller AwaitManifest env) w
          in downloadQueue w' = drop k (downloadQueue w @ images)
             \<and> activeDownloads w' = activeDownloads w + int k
             \<and> inFlight w'
                 = inFlight w @ map (\<lambda>i. (i, filePathOf w i)) (take k (downloadQueue w @ images))
             \<and> effects w'
                 = effects w
                   @ map (\<lambda>i. MakeDirectoryAsync (directoryOf w i))
                       (take k (downloadQueue w @ images))
                   @ [StorageSetItem (sync_now env)]
             \<and> device_images w' = device_images w
             \<and> lastSyncItem w' = lastSyncItem w
             \<and> pendingSyncs w'
                 = remove1 (caller, AwaitManifest) (pendingSyncs w)
                   @ [(caller, AwaitWrite (sync_now env))])
         \<and> (let v' = step isUrl dd (SyncProceeds caller' (AwaitWrite now) env') v
             in lastSyncItem v' = Some now
                \<and> downloadQueue v' = downloadQueue v
                \<and> activeDownloads v' = activeDownloads v
                \<and> inFlight v' = inFlight v
                \<and> device_images v' = device_images v
                \<and> effects v' = effects v)"
proof -
  let ?w0 = "w\<lparr>pendingSyncs := remove1 (caller, AwaitManifest) (pendingSyncs w)\<rparr>"
  let ?w5 = "(logInfo (FoundNewImages (length images)) ?w0)
               \<lparr>downloadQueue := downloadQueue ?w0 @ images\<rparr>"
  let ?w6 = "emit (StorageSetItem (sync_now env)) (processDownloadQueue ?w5)"
  have s: "step isUrl dd (SyncProceeds caller AwaitManifest env) w
             = ?w6\<lparr>pendingSyncs := pendingSyncs ?w6 @ [(caller, AwaitWrite (sync_now env))]\<rparr>"
    using assms(1) syncImages_afterManifest_found [OF assms(2-6), of ?w0]
    by (simp add: syncProceeds_def Let_def)
  have d: "dispatchable ?w5 = dispatchable (w\<lparr>downloadQueue := downloadQueue w @ images\<rparr>)"
    by (rule dispatchable_cong) simp_all
  have p: "filePathOf ?w5 = filePathOf w" "directoryOf ?w5 = directoryOf w"
    by (simp_all add: fun_eq_iff filePathOf_def directoryOf_def)
  have 2: "downloadQueue ?w6
             = drop (dispatchable (w\<lparr>downloadQueue := downloadQueue w @ images\<rparr>))
                 (downloadQueue w @ images)"
    unfolding emit_frame processDownloadQueue_fields d by simp
  have 3: "activeDownloads ?w6
             = activeDownloads w
               + int (dispatchable (w\<lparr>downloadQueue := downloadQueue w @ images\<rparr>))"
    unfolding emit_frame processDownloadQueue_fields d by simp
  have 4: "inFlight ?w6
             = inFlight w
               @ map (\<lambda>i. (i, filePathOf w i))
                   (take (dispatchable (w\<lparr>downloadQueue := downloadQueue w @ images\<rparr>))
                      (downloadQueue w @ images))"
    unfolding emit_frame processDownloadQueue_fields d p by simp
  have 5: "effects ?w6
             = effects w
               @ map (\<lambda>i. MakeDirectoryAsync (directoryOf w i))
                   (take (dispatchable (w\<lparr>downloadQueue := downloadQueue w @ images\<rparr>))
                      (downloadQueue w @ images))
               @ [StorageSetItem (sync_now env)]"
    unfolding emit_effects processDownloadQueue_fields d p by simp
  have 6: "device_images ?w6 = device_images w" "lastSyncItem ?w6 = lastSyncItem w"
    "pendingSyncs ?w6 = remove1 (caller, AwaitManifest) (pendingSyncs w)"
    by simp_all
  have a: "(let k = dispatchable (w\<lparr>downloadQueue := downloadQueue w @ images\<rparr>);
              w' = step isUrl dd (SyncProceeds caller AwaitManifest env) w
          in downloadQueue w' = drop k (downloadQueue w @ images)
             \<and> activeDownloads w' = activeDownloads w + int k
             \<and> inFlight w'
                 = inFlight w @ map (\<lambda>i. (i, filePathOf w i)) (take k (downloadQueue w @ images))
             \<and> effects w'
                 = effects w
                   @ map (\<lambda>i. MakeDirectoryAsync (directoryOf w i))
                       (take k (downloadQueue w @ images))
                   @ [StorageSetItem (sync_now env)]
             \<and> device_images w' = device_images w
             \<and> lastSyncItem w' = lastSyncItem w
             \<and> pendingSyncs w'
                 = remove1 (caller, AwaitManifest) (pendingSyncs w)
                   @ [(caller, AwaitWrite (sync_now env))])"
    unfolding Let_def s using 2 3 4 5 6 by simp
  let ?v0 = "v\<lparr>pendingSyncs := remove1 (caller', AwaitWrite now) (pendingSyncs v)\<rparr>"
  have t: "step isUrl dd (SyncProceeds caller' (AwaitWrite now) env') v
             = syncReturns caller' (Inr ()) (?v0\<lparr>lastSyncItem := Some now\<rparr>)"
    using assms(7,8)
    by (simp add: syncProceeds_def Let_def syncImages_afterWrite_def
          updateLastSyncTimestamp_resume_def)
  have b: "(let v' = step isUrl dd (SyncProceeds caller' (AwaitWrite now) env') v
             in lastSyncItem v' = Some now
                \<and> downloadQueue v' = downloadQueue v
                \<and> activeDownloads v' = activeDownloads v
                \<and> inFlight v' = inFlight v
                \<and> device_images v' = device_images v
                \<and> effects v' = effects v)"
    unfolding Let_def t by simp
  show ?thesis using a b by blast
qed

text \<open>
  C1, amended, in the end-to-end scenario: when the manifest arrives two downloads are
  dispatched, their directory asked for, and the write of the clock issued; when the
  write is answered the clock is the watermark, with both downloads still in flight.
\<close>

theorem watermark_written_at_dispatch_witness:
  "(FromStart, AwaitManifest)
      \<in> set (pendingSyncs (run sampleIsUrl ''/documents/''
                 [SyncProceeds FromStart AwaitUser (sampleSync threeItems),
                  SyncProceeds FromStart AwaitLastSync (sampleSync threeItems)]
                 (sampleStarted 2 2)))
   \<and> mapItems threeItems = Inr threeImages
   \<and> sync_setItemOk (sampleSync threeItems)
   \<and> pendingSyncs (run sampleIsUrl ''/documents/''
                 [SyncProceeds FromStart AwaitUser (sampleSync threeItems),
                  SyncProceeds FromStart AwaitLastSync (sampleSync threeItems),
                  SyncProceeds FromStart AwaitManifest (sampleSync threeItems)]
                 (sampleStarted 2 2))
       = [(FromStart, AwaitWrite ''2026-11-02T09:00:00.000Z'')]
   \<and> lastSyncItem (run sampleIsUrl ''/documents/''
                 [SyncProceeds FromStart AwaitUser (sampleSync threeItems),
                  SyncProceeds FromStart AwaitLastSync (sampleSync threeItems),
                  SyncProceeds FromStart AwaitManifest (sampleSync threeItems)]
                 (sampleStarted 2 2))
       = None
   \<and> lastSyncItem (firstCycle 2 2 threeItems) = Some ''2026-11-02T09:00:00.000Z''
   \<and> downloadQueue (firstCycle 2 2 threeItems) = [sampleImage ''c'' ''2025-01-02T10:00:00.000Z'']
   \<and> activeDownloads (firstCycle 2 2 threeItems) = 2
   \<and> inFlight (firstCycle 2 2 threeItems) = [dlA, dlB]
   \<and> effects (firstCycle 2 2 threeItems)
       = [GetInfoAsync ''/documents/images/'', GetCurrentUser, StorageGetItem,
          HttpGet ''https://api.fieldshield.com/images'' None
            (Some [''jpg'', ''jpeg'', ''png'']) None,
          MakeDirectoryAsync ''/documents/images/dev1'',
          MakeDirectoryAsync ''/documents/images/dev1'',
          StorageSetItem ''2026-11-02T09:00:00.000Z'']
   \<and> device_images (firstCycle 2 2 threeItems) = []"
proof -
  let ?env = "sampleSync threeItems"
  let ?w = "run sampleIsUrl ''/documents/''
              [SyncProceeds FromStart AwaitUser ?env, SyncProceeds FromStart AwaitLastSync ?env]
              (sampleStarted 2 2)"
  let ?v = "run sampleIsUrl ''/documents/''
              [SyncProceeds FromStart AwaitUser ?env, SyncProceeds FromStart AwaitLastSync ?env,
               SyncProceeds FromStart AwaitManifest ?env]
              (sampleStarted 2 2)"
  let ?b = "sampleImage ''b'' ''2025-01-03T10:00:00.000Z''"
  have h: "sync_fetch ?env = FetchResponse 200 (JsonArray threeItems)"
    "sync_setItemOk ?env"
    "sync_now ?env = ''2026-11-02T09:00:00.000Z''"
    by (simp_all add: sampleSync_def)
  have s: "(200::nat) \<le> 200" "(200::nat) \<le> 299" by simp_all
  have ne: "threeImages \<noteq> []" by (simp add: threeImages_def)
  have p: "(FromStart, AwaitManifest) \<in> set (pendingSyncs ?w)"
    "(FromStart, AwaitWrite ''2026-11-02T09:00:00.000Z'') \<in> set (pendingSyncs ?v)"
    by code_simp+
  have f: "step sampleIsUrl ''/documents/'' (SyncProceeds FromStart AwaitManifest ?env) ?w = ?v"
    "step sampleIsUrl ''/documents/''
       (SyncProceeds FromStart (AwaitWrite ''2026-11-02T09:00:00.000Z'') ?env) ?v
     = firstCycle 2 2 threeItems"
    by (simp_all add: firstCycle_def cycle_def h(3))
  have k: "dispatchable (?w\<lparr>downloadQueue := downloadQueue ?w @ threeImages\<rparr>) = 2"
    by code_simp
  have w: "downloadQueue ?w = []" "activeDownloads ?w = 0" "inFlight ?w = []"
    "device_images ?w = []" "lastSyncItem ?w = None"
    "remove1 (FromStart, AwaitManifest) (pendingSyncs ?w) = []"
    "effects ?w = [GetInfoAsync ''/documents/images/'', GetCurrentUser, StorageGetItem,
          HttpGet ''https://api.fieldshield.com/images'' None
            (Some [''jpg'', ''jpeg'', ''png'']) None]"
    by code_simp+
  have t: "take 2 threeImages = [imgA, ?b]"
    "drop 2 threeImages = [sampleImage ''c'' ''2025-01-02T10:00:00.000Z'']"
    by (simp_all add: threeImages_def imgA_def)
  have q: "(imgA, filePathOf ?w imgA) = dlA" "(?b, filePathOf ?w ?b) = dlB"
    "directoryOf ?w imgA = ''/documents/images/dev1''"
    "directoryOf ?w ?b = ''/documents/images/dev1''"
    by code_simp+
  note c = watermark_written_at_dispatch [OF p(1) h(1) s mapItems_threeItems ne p(2) h(2),
      of sampleIsUrl "''/documents/''", unfolded Let_def k]
  note d = c [unfolded f w h(3) append_Nil t list.map q]
  show ?thesis
    using d p(1) h(2) mapItems_threeItems by simp
qed

subsection \<open>Malformed items of the manifest\<close>

text \<open>
  C2, as stated, fails. \<open>fetchNewImages\<close> checks no item and prints no warning. With
  three well-formed items and a fourth that lacks \<open>url\<close>, four items are enqueued when
  the fourth has a file name; when it has none, building its file name throws a
  \<open>TypeError\<close>, the whole fetch fails and nothing is enqueued.
\<close>

theorem manifest_counterexample:
  "fst (fetchNewImages (sampleSync (threeItems @ [noUrlNamed])) None (sampleStarted 2 2))
     = Inr (threeImages @
            [\<lparr> img_id = Str ''d'', img_url = Undefined,
                img_timestamp = Str ''2025-01-04T10:00:00.000Z'',
                img_deviceId = Str ''dev1'', img_fileName = ''d.png'' \<rparr>])
   \<and> length (map fst (inFlight (firstCycle 2 2 (threeItems @ [noUrlNamed])))
             @ downloadQueue (firstCycle 2 2 (threeItems @ [noUrlNamed]))) = 4
   \<and> warnings (firstCycle 2 2 (threeItems @ [noUrlNamed])) = []
   \<and> fst (fetchNewImages (sampleSync (threeItems @ [noUrlUnnamed])) None (sampleStarted 2 2))
       = Inl TypeError
   \<and> inFlight (firstCycle 2 2 (threeItems @ [noUrlUnnamed])) = []
   \<and> downloadQueue (firstCycle 2 2 (threeItems @ [noUrlUnnamed])) = []
   \<and> warnings (firstCycle 2 2 (threeItems @ [noUrlUnnamed])) = []"
  by code_simp

text \<open>
  C2, amended: for every manifest response that is an array of item records, each with
  a non-empty \<open>fileName\<close> or a \<open>url\<close>, no item is dropped and no warning is printed:
  every item, also one that lacks \<open>id\<close>, \<open>url\<close> or \<open>timestamp\<close>, is mapped with these
  properties copied as they are and is enqueued.
\<close>

theorem manifest_items_all_enqueued:
  assumes "sync_user env"
    and "sync_fetch env = FetchResponse status (JsonArray data)"
    and "200 \<le> status" and "status \<le> 299"
    and "list_all nameable data"
  shows "\<exists>images. length images = length data
           \<and> map img_id images = map item_id data
           \<and> map img_url images = map item_url data
           \<and> map img_timestamp images = map item_timestamp data
           \<and> fst (fetchNewImages env lastSync w) = Inr images
           \<and> map fst (inFlight (snd (syncImages env w))) @ downloadQueue (snd (syncImages env w))
               = map fst (inFlight w) @ downloadQueue w @ images
           \<and> warnings (snd (syncImages env w)) = warnings w"
proof -
  obtain images where i: "mapItems data = Inr images" "length images = length data"
      "map img_id images = map item_id data" "map img_url images = map item_url data"
      "map img_timestamp images = map item_timestamp data"
    using mapItems_nameable [OF assms(5)] by blast
  show ?thesis
    using i fetchNewImages_result [OF assms(2-4), of lastSync w]
      syncImages_found(1,2) [OF assms(1-4) i(1), of w]
    by auto
qed

text \<open>
  C2, amended, on three well-formed items and one that lacks \<open>url\<close>: four items are
  enqueued and there is no warning.
\<close>

theorem manifest_items_all_enqueued_witness:
  "sync_user (sampleSync (threeItems @ [noUrlNamed]))
   \<and> list_all nameable (threeItems @ [noUrlNamed])
   \<and> (\<exists>images. length images = 4
         \<and> map img_url images = map item_url (threeItems @ [noUrlNamed])
         \<and> map fst (inFlight (snd (syncImages (sampleSync (threeItems @ [noUrlNamed]))
                                    (sampleStarted 2 2))))
             @ downloadQueue (snd (syncImages (sampleSync (threeItems @ [noUrlNamed]))
                                    (sampleStarted 2 2)))
             = images
         \<and> warnings (snd (syncImages (sampleSync (threeItems @ [noUrlNamed]))
                            (sampleStarted 2 2))) = [])"
proof -
  let ?d = "threeItems @ [noUrlNamed]"
  have h: "sync_user (sampleSync ?d)"
    "sync_fetch (sampleSync ?d) = FetchResponse 200 (JsonArray ?d)"
    by (simp_all add: sampleSync_def)
  have s: "(200::nat) \<le> 200" "(200::nat) \<le> 299" by simp_all
  have n: "list_all nameable ?d" by code_simp
  have l: "length ?d = 4" by (simp add: threeItems_def)
  have w: "inFlight (sampleStarted 2 2) = []" "downloadQueue (sampleStarted 2 2) = []"
    "warnings (sampleStarted 2 2) = []"
    by code_simp+
  show ?thesis
    using manifest_items_all_enqueued [OF h(1) h(2) s n, of None "sampleStarted 2 2"] h n l w
    by auto
qed

subsection \<open>The retry budget\<close>

text \<open>
  C3, as stated, fails. With \<open>retryAttempts = 2\<close> the second consecutive failure of an
  item arms another retry, and the item is downloaded a third time; it is the third
  failure that drops it (the warning is printed then), and the retry ledger still holds
  its id, with the count 2.
\<close>

theorem second_failure_counterexample:
  "retryAttempts (config (twoFailures 2 2 [itemA])) = 2
   \<and> retryTimers (twoFailures 2 2 [itemA]) = [imgA]
   \<and> inFlight (retryTimerFires imgA (twoFailures 2 2 [itemA])) = [dlA]
   \<and> retryTimers (threeFailures 2 2 [itemA]) = []
   \<and> inFlight (threeFailures 2 2 [itemA]) = []
   \<and> downloadQueue (threeFailures 2 2 [itemA]) = []
   \<and> retryMap (threeFailures 2 2 [itemA]) (Str ''a'') = Some 2
   \<and> last (console (threeFailures 2 2 [itemA]))
       = (ConsoleWarn, MaxRetryAttemptsReached (Str ''a''))"
  by code_simp

text \<open>
  C3, amended: with \<open>retryAttempts = 2\<close>, an item (the only one queued or in
  flight) whose download fails three times in a row, the first attempt and two retries,
  is abandoned after the third failure: after the second failure a retry is still armed
  and the item is downloaded again, after the third nothing is armed, queued or in
  flight, no metadata row has been added, and the retry ledger still holds its id with
  the count 2.
\<close>

theorem abandoned_after_third_failure:
  assumes "retryAttempts (config w) = 2" and "1 \<le> maxConcurrentDownloads (config w)"
    and "onlyAttempt (img, p) w" and "retryMap w (img_id img) = None"
    and "failing e1" and "failing e2" and "failing e3"
  shows "(let again = (img, filePathOf w img);
              w2 = downloadSettles e2 again
                     (retryTimerFires img (downloadSettles e1 (img, p) w));
              w3 = downloadSettles e3 again (retryTimerFires img w2)
          in retryTimers w2 = [img] \<and> retryMap w2 (img_id img) = Some 2
             \<and> onlyAttempt again (retryTimerFires img w2)
             \<and> retryTimers w3 = [] \<and> inFlight w3 = [] \<and> downloadQueue w3 = []
             \<and> activeDownloads w3 = 0
             \<and> retryMap w3 (img_id img) = Some 2
             \<and> device_images w3 = device_images w)"
proof -
  let ?a = "(img, filePathOf w img)"
  let ?f1 = "downloadSettles e1 (img, p) w"
  let ?r1 = "retryTimerFires img ?f1"
  let ?f2 = "downloadSettles e2 ?a ?r1"
  let ?r2 = "retryTimerFires img ?f2"
  let ?f3 = "downloadSettles e3 ?a ?r2"
  have b1: "of_int (orDefault (retryMap w (img_id (fst (img, p)))) 0) < retryAttempts (config w)"
    using assms(1,4) by (simp add: orDefault_def)
  note f1 = failed_attempt_retried [OF assms(3) assms(5) b1, simplified]
  have c1: "1 \<le> maxConcurrentDownloads (config ?f1)"
    using assms(2) f1(6) by simp
  note r1 = retry_dispatched [OF f1(1) f1(2) f1(3) f1(4) c1]
  have p1: "filePathOf ?f1 img = filePathOf w img"
    by (rule filePathOf_config) simp
  have o1: "onlyAttempt ?a ?r1" using r1(1) p1 by simp
  have m1: "retryMap ?r1 (img_id img) = Some 1"
    using r1(2) f1(5) assms(4) by (simp add: orDefault_def)
  have b2: "of_int (orDefault (retryMap ?r1 (img_id (fst ?a))) 0) < retryAttempts (config ?r1)"
    using m1 r1(3) f1(6) assms(1) by (simp add: orDefault_def)
  note f2 = failed_attempt_retried [OF o1 assms(6) b2, simplified]
  have m2: "retryMap ?f2 (img_id img) = Some 2"
    using f2(5) m1 by (simp add: orDefault_def)
  have c2: "1 \<le> maxConcurrentDownloads (config ?f2)"
    using c1 f2(6) r1(3) by simp
  note r2 = retry_dispatched [OF f2(1) f2(2) f2(3) f2(4) c2]
  have p2: "filePathOf ?f2 img = filePathOf w img"
    by (rule filePathOf_config) simp
  have o2: "onlyAttempt ?a ?r2" using r2(1) p2 by simp
  have b3: "retryAttempts (config ?r2) \<le> of_int (orDefault (retryMap ?r2 (img_id (fst ?a))) 0)"
    using m2 r2(2) r2(3) f2(6) r1(3) f1(6) assms(1) by (simp add: orDefault_def)
  note f3 = failed_attempt_abandoned [OF o2 assms(7) b3, simplified]
  have m3: "retryMap ?f3 (img_id img) = Some 2"
    using f3(5) r2(2) m2 by simp
  have d3: "device_images ?f3 = device_images w"
    using f3(6) r2(4) f2(7) r1(4) f1(7) by simp
  show ?thesis
    using f2(3) m2 o2 f3(1-4) m3 d3 by (simp add: Let_def)
qed

text \<open>C3, amended, on the only item of a first cycle.\<close>

theorem abandoned_after_third_failure_witness:
  "retryAttempts (config (firstCycle 2 2 [itemA])) = 2
   \<and> onlyAttempt dlA (firstCycle 2 2 [itemA])
   \<and> retryMap (firstCycle 2 2 [itemA]) (img_id imgA) = None
   \<and> failing refused
   \<and> retryTimers (twoFailures 2 2 [itemA]) = [imgA]
   \<and> retryTimers (threeFailures 2 2 [itemA]) = []
   \<and> retryMap (threeFailures 2 2 [itemA]) (img_id imgA) = Some 2
   \<and> device_images (threeFailures 2 2 [itemA]) = []"
proof -
  have h: "retryAttempts (config (firstCycle 2 2 [itemA])) = 2"
    "1 \<le> maxConcurrentDownloads (config (firstCycle 2 2 [itemA]))"
    "onlyAttempt (imgA, snd dlA) (firstCycle 2 2 [itemA])"
    "retryMap (firstCycle 2 2 [itemA]) (img_id imgA) = None"
    "failing refused"
    "device_images (firstCycle 2 2 [itemA]) = []"
    by code_simp+
  have d: "(imgA, snd dlA) = dlA" "(imgA, filePathOf (firstCycle 2 2 [itemA]) imgA) = dlA"
    by code_simp+
  show ?thesis
    using abandoned_after_third_failure [OF h(1) h(2) h(3) h(4) h(5) h(5) h(5)] h
    unfolding d
    by (simp add: Let_def twoFailures_def threeFailures_def oneFailure_def)
qed

text \<open>
  C4, as stated, fails. With \<open>retryAttempts = 1\<close> and one download at a time, the
  first failure of item \<open>a\<close> sets its count to 1, which is \<open>retryAttempts\<close>, and arms
  the retry; when the timer fires the item is pushed onto the download queue, the ledger
  still at 1.
\<close>

theorem full_ledger_counterexample:
  "retryAttempts (config (oneFailure 1 1 [itemA, itemB])) = 1
   \<and> retryMap (oneFailure 1 1 [itemA, itemB]) (Str ''a'') = Some 1
   \<and> retryTimers (oneFailure 1 1 [itemA, itemB]) = [imgA]
   \<and> downloadQueue (oneFailure 1 1 [itemA, itemB]) = []
   \<and> retryMap (retryTimerFires imgA (oneFailure 1 1 [itemA, itemB])) (Str ''a'') = Some 1
   \<and> downloadQueue (retryTimerFires imgA (oneFailure 1 1 [itemA, itemB])) = [imgA]"
  by code_simp

text \<open>
  C4, amended: for every item id, when a download of the item fails while the retry
  ledger records an attempt count greater than or equal to \<open>retryAttempts\<close> for that
  id, the failure arms no retry and the item is not put back into the download queue;
  the ledger is left as it is.
\<close>

theorem no_retry_when_budget_is_used:
  assumes "d \<in> set (inFlight w)" and "failing env"
    and "retryAttempts (config w) \<le> of_int (orDefault (retryMap w (img_id (fst d))) 0)"
  shows "retryTimers (downloadSettles env d w) = retryTimers w
         \<and> retryMap (downloadSettles env d w) = retryMap w
         \<and> map fst (inFlight (downloadSettles env d w)) @ downloadQueue (downloadSettles env d w)
             = map fst (remove1 d (inFlight w)) @ downloadQueue w"
proof -
  let ?w0 = "w\<lparr>inFlight := remove1 d (inFlight w)\<rparr>"
  let ?w1 = "snd (downloadImage_resume env (fst d) (snd d) ?w0)"
  note s = downloadSettles_failing [OF assms(1,2)]
  have r: "retryMap ?w1 = retryMap w"
    using assms(2) by (simp add: downloadImage_resume_retryMap)
  have b: "retryAttempts (config ?w1) \<le> of_int (orDefault (retryMap ?w1 (img_id (fst d))) 0)"
    using assms(3) r by simp
  show ?thesis
    unfolding s onDownloadSettled_pending onDownloadSettled_frame
      onDownloadRejected_abandon [OF b] r
    by simp
qed

text \<open>C4, amended, at the third failure of an item with \<open>retryAttempts = 2\<close>.\<close>

theorem no_retry_when_budget_is_used_witness:
  "dlA \<in> set (inFlight (retryTimerFires imgA (twoFailures 2 2 [itemA])))
   \<and> failing refused
   \<and> retryAttempts (config (retryTimerFires imgA (twoFailures 2 2 [itemA]))) = 2
   \<and> retryMap (retryTimerFires imgA (twoFailures 2 2 [itemA])) (img_id imgA) = Some 2
   \<and> retryTimers (threeFailures 2 2 [itemA]) = []
   \<and> map fst (inFlight (threeFailures 2 2 [itemA])) @ downloadQueue (threeFailures 2 2 [itemA])
       = []"
proof -
  let ?w = "retryTimerFires imgA (twoFailures 2 2 [itemA])"
  have h: "dlA \<in> set (inFlight ?w)" "failing refused"
    "retryAttempts (config ?w) = 2" "retryMap ?w (img_id imgA) = Some 2"
    "retryTimers ?w = []" "inFlight ?w = [dlA]" "downloadQueue ?w = []"
    "fst dlA = imgA"
    by code_simp+
  have b: "retryAttempts (config ?w) \<le> of_int (orDefault (retryMap ?w (img_id (fst dlA))) 0)"
    using h(3,4,8) by (simp add: orDefault_def)
  show ?thesis
    using no_retry_when_budget_is_used [OF h(1) h(2) b] h
    by (simp add: threeFailures_def)
qed

subsection \<open>A file that is already there\<close>

text \<open>
  C5, as stated, fails. \<open>downloadImage\<close> never looks at the final path. With the file
  of image \<open>a\<close> already there under the hash \<open>h1\<close>, a download whose content has the
  same hash still makes the directory, transfers the url and inserts the row; a
  download whose content has the hash \<open>h2\<close> replaces the file, and the only line
  printed is the usual one.
\<close>

theorem download_existing_file_counterexample:
  "files (withFile ''/documents/images/dev1/image_a.png'' ''h1'' (sampleStarted 2 2))
         (filePathOf (sampleStarted 2 2) (sampleImage ''a'' ''2025-01-01T10:00:00.000Z''))
     = Some ''h1''
   \<and> effects (snd (downloadImage (transferred 200 ''h1'')
                    (sampleImage ''a'' ''2025-01-01T10:00:00.000Z'')
                    (withFile ''/documents/images/dev1/image_a.png'' ''h1'' (sampleStarted 2 2))))
       = [GetInfoAsync ''/documents/images/'',
          GetCurrentUser,
          MakeDirectoryAsync ''/documents/images/dev1'',
          DownloadAsync (Str ''https://cdn.fieldshield.com/a.PNG?v=2'')
            ''/documents/images/dev1/image_a.png'' None,
          GetCurrentUser,
          InsertDeviceImage
            \<lparr> row_id = Str ''a'', row_device_id = Str ''dev1'',
              row_url = Str ''https://cdn.fieldshield.com/a.PNG?v=2'',
              row_local_path = ''/documents/images/dev1/image_a.png'',
              row_md5_hash = ''h1'', row_created_at = Str ''2025-01-01T10:00:00.000Z'' \<rparr>]
   \<and> files (snd (downloadImage (transferred 200 ''h2'')
                    (sampleImage ''a'' ''2025-01-01T10:00:00.000Z'')
                    (withFile ''/documents/images/dev1/image_a.png'' ''h1'' (sampleStarted 2 2))))
           ''/documents/images/dev1/image_a.png''
       = Some ''h2''
   \<and> console (snd (downloadImage (transferred 200 ''h2'')
                    (sampleImage ''a'' ''2025-01-01T10:00:00.000Z'')
                    (withFile ''/documents/images/dev1/image_a.png'' ''h1'' (sampleStarted 2 2))))
       = [(ConsoleInfo, DownloadedImage (Str ''a'') ''/documents/images/dev1/image_a.png'')]"
  by code_simp

text \<open>
  C5, amended: for every item, also one whose final local file already exists with a
  matching content hash, \<open>downloadImage\<close> makes no check of that file: once the device
  directory is made it transfers the url to the final path
  \<open><storageLocation><deviceId>/<fileName>\<close>, the content transferred is then the file
  at that path, and the download succeeds exactly when the transfer answers with
  status 200, a user is signed in and the metadata insert goes through.
\<close>

theorem downloadImage_always_transfers:
  assumes "dl_mkdirOk env"
  shows "DownloadAsync (img_url img) (filePathOf w img) (bearer w)
           \<in> set (effects (snd (downloadImage env img w)))
         \<and> (case dl_transfer env of
               None \<Rightarrow> True
             | Some (status, md5) \<Rightarrow>
                 files (snd (downloadImage env img w)) (filePathOf w img) = Some md5)
         \<and> (fst (downloadImage env img w) = Inr () \<longleftrightarrow> \<not> failing env)"
  using downloadImage_transfers [OF assms, of img w] downloadImage_replaces [OF assms, of _ _ img w]
    downloadImage_result [of env img w]
  by (auto split: option.splits)

text \<open>C5, amended, where the file is already there under the same hash.\<close>

theorem downloadImage_always_transfers_witness:
  "dl_mkdirOk (transferred 200 ''h1'')
   \<and> files (withFile ''/documents/images/dev1/image_a.png'' ''h1'' (sampleStarted 2 2))
        ''/documents/images/dev1/image_a.png'' = Some ''h1''
   \<and> DownloadAsync (Str ''https://cdn.fieldshield.com/a.PNG?v=2'')
        ''/documents/images/dev1/image_a.png'' None
       \<in> set (effects (snd (downloadImage (transferred 200 ''h1'')
                    (sampleImage ''a'' ''2025-01-01T10:00:00.000Z'')
                    (withFile ''/documents/images/dev1/image_a.png'' ''h1'' (sampleStarted 2 2)))))
   \<and> fst (downloadImage (transferred 200 ''h1'')
                    (sampleImage ''a'' ''2025-01-01T10:00:00.000Z'')
                    (withFile ''/documents/images/dev1/image_a.png'' ''h1'' (sampleStarted 2 2)))
       = Inr ()"
proof -
  let ?w = "withFile ''/documents/images/dev1/image_a.png'' ''h1'' (sampleStarted 2 2)"
  let ?img = "sampleImage ''a'' ''2025-01-01T10:00:00.000Z''"
  have m: "dl_mkdirOk (transferred 200 ''h1'')" "\<not> failing (transferred 200 ''h1'')"
    by (simp_all add: transferred_def failing_def)
  have f: "files ?w ''/documents/images/dev1/image_a.png'' = Some ''h1''"
    by (simp add: withFile_def)
  have p: "filePathOf ?w ?img = ''/documents/images/dev1/image_a.png''"
    "img_url ?img = Str ''https://cdn.fieldshield.com/a.PNG?v=2''" "bearer ?w = None"
    by code_simp+
  show ?thesis
    using downloadImage_always_transfers [OF m(1), of ?img ?w] m f p by simp
qed

subsection \<open>A configuration that fails validation\<close>

text \<open>
  C6, as stated, fails. \<open>updateConfig\<close> calls \<open>stop\<close> before it validates. On a
  running service with its interval timer armed, a partial configuration with
  \<open>maxConcurrentDownloads = 0\<close> is rejected, but by then the timer is cleared and the
  abort signalled, and when the rest of \<open>stop\<close> has run the service is stopped: the
  restart is never reached.
\<close>

theorem updateConfig_invalid_counterexample:
  "isRunning (sampleRunning 2 2)
   \<and> intervalId (sampleRunning 2 2) = Some 2
   \<and> intervalTimers (sampleRunning 2 2) = [2]
   \<and> fst (updateConfig sampleIsUrl ''/documents/'' zeroCap (sampleRunning 2 2))
       = Inl InvalidConfiguration
   \<and> intervalId (step sampleIsUrl ''/documents/'' (CallUpdateConfig zeroCap) (sampleRunning 2 2))
       = None
   \<and> intervalTimers (step sampleIsUrl ''/documents/'' (CallUpdateConfig zeroCap) (sampleRunning 2 2))
       = []
   \<and> abortedSignals (step sampleIsUrl ''/documents/'' (CallUpdateConfig zeroCap) (sampleRunning 2 2))
       = [1]
   \<and> \<not> isRunning (step sampleIsUrl ''/documents/'' (CallUpdateConfig zeroCap) (sampleRunning 2 2))"
  by code_simp

text \<open>
  C6, amended: for every partial configuration that fails validation (the object spread
  over the current configuration, so also one that sets a required property to
  \<open>undefined\<close>), \<open>updateConfig\<close> throws the error \<open>Invalid configuration\<close> and the prior
  configuration remains in effect. The validation comes after the call of \<open>stop\<close>: on
  a service that was running, the interval timer is cleared and the abort signalled
  before the call is rejected, no restart follows (no run of \<open>syncImages\<close> is begun,
  no request issued), and the service is stopped at once when no download is active and
  is left polling for the active downloads otherwise; on a service that was not running
  nothing changes but the error line printed.
\<close>

theorem updateConfig_invalid_keeps_config:
  assumes "ConfigSchema_parse isUrl dd (spreadConfig (byValue w) partial) = None"
  shows "(let w' = step isUrl dd (CallUpdateConfig partial) w
          in fst (updateConfig isUrl dd partial w) = Inl InvalidConfiguration
             \<and> config w' = config w
             \<and> byValue w' = byValue w
             \<and> (if isRunning w
                 then intervalId w' = None
                      \<and> abortController w' = None
                      \<and> intervalTimers w'
                          = (case intervalId w of
                               None \<Rightarrow> intervalTimers w
                             | Some t \<Rightarrow> removeAll t (intervalTimers w))
                      \<and> abortedSignals w'
                          = (case abortController w of
                               None \<Rightarrow> abortedSignals w
                             | Some c \<Rightarrow> abortedSignals w @ [c])
                      \<and> pendingSyncs w' = pendingSyncs w
                      \<and> effects w' = effects w
                      \<and> isRunning w' = (activeDownloads w \<noteq> 0)
                      \<and> stopPolls w'
                          = (if activeDownloads w = 0 then stopPolls w else stopPolls w + 1)
                 else w' = logError ConfigurationValidationFailed w))"
proof -
  note u = updateConfig_invalid [OF assms]
  let ?w' = "step isUrl dd (CallUpdateConfig partial) w"
  have s: "?w' = afterCaller (if isRunning w then fst (stop w) else StopDone)
                 (logError ConfigurationValidationFailed (if isRunning w then snd (stop w) else w))"
    by (simp add: u)
  have c: "config ?w' = config w" "arrays ?w' = arrays w"
    unfolding s by (simp_all add: afterCaller_def)
  have h: "intervalId ?w' = None \<and> abortController ?w' = None
           \<and> intervalTimers ?w'
               = (case intervalId w of None \<Rightarrow> intervalTimers w
                                     | Some t \<Rightarrow> removeAll t (intervalTimers w))
           \<and> abortedSignals ?w'
               = (case abortController w of None \<Rightarrow> abortedSignals w
                                          | Some c \<Rightarrow> abortedSignals w @ [c])
           \<and> pendingSyncs ?w' = pendingSyncs w
           \<and> effects ?w' = effects w
           \<and> stopPolls ?w' = (if activeDownloads w = 0 then stopPolls w else stopPolls w + 1)"
    if "isRunning w"
    unfolding s using that stop_handles [OF that] by (simp add: afterCaller_def)
  have r: "isRunning ?w' = (activeDownloads w \<noteq> 0)" if "isRunning w"
    unfolding s using that stop_resolved [of w]
    by (simp add: afterCaller_def stop_afterWait_def logInfo_def)
  have n: "\<not> isRunning w \<Longrightarrow> ?w' = logError ConfigurationValidationFailed w"
    unfolding s by (simp add: afterCaller_def)
  show ?thesis
    unfolding Let_def using u c h r n byValue_cong [OF c] by simp
qed

text \<open>
  C6, amended, on the running service of the counterexample, for a limit of zero and
  for an endpoint set to \<open>undefined\<close>.
\<close>

theorem updateConfig_invalid_keeps_config_witness:
  "ConfigSchema_parse sampleIsUrl ''/documents/''
      (spreadConfig (byValue (sampleRunning 2 2)) zeroCap) = None
   \<and> isRunning (sampleRunning 2 2)
   \<and> intervalTimers (sampleRunning 2 2) = [2]
   \<and> fst (updateConfig sampleIsUrl ''/documents/'' zeroCap (sampleRunning 2 2))
       = Inl InvalidConfiguration
   \<and> maxConcurrentDownloads
        (config (step sampleIsUrl ''/documents/'' (CallUpdateConfig zeroCap) (sampleRunning 2 2)))
       = 2
   \<and> byValue (step sampleIsUrl ''/documents/'' (CallUpdateConfig zeroCap) (sampleRunning 2 2))
       = sampleConfig 2 2
   \<and> intervalTimers
        (step sampleIsUrl ''/documents/'' (CallUpdateConfig zeroCap) (sampleRunning 2 2)) = []
   \<and> abortedSignals
        (step sampleIsUrl ''/documents/'' (CallUpdateConfig zeroCap) (sampleRunning 2 2)) = [1]
   \<and> \<not> isRunning
        (step sampleIsUrl ''/documents/'' (CallUpdateConfig zeroCap) (sampleRunning 2 2))
   \<and> ConfigSchema_parse sampleIsUrl ''/documents/''
        (spreadConfig (byValue (sampleRunning 2 2)) undefinedEndpoint) = None
   \<and> fst (updateConfig sampleIsUrl ''/documents/'' undefinedEndpoint (sampleRunning 2 2))
       = Inl InvalidConfiguration
   \<and> sourceEndpoint
        (config (step sampleIsUrl ''/documents/'' (CallUpdateConfig undefinedEndpoint)
                   (sampleRunning 2 2)))
       = ''https://api.fieldshield.com/images''"
proof -
  have p: "ConfigSchema_parse sampleIsUrl ''/documents/''
      (spreadConfig (byValue (sampleRunning 2 2)) zeroCap) = None"
    "ConfigSchema_parse sampleIsUrl ''/documents/''
      (spreadConfig (byValue (sampleRunning 2 2)) undefinedEndpoint) = None"
    by code_simp+
  have b: "byValue (sampleRunning 2 2) = sampleConfig 2 2"
    "maxConcurrentDownloads (config (sampleRunning 2 2)) = 2"
    "sourceEndpoint (config (sampleRunning 2 2)) = ''https://api.fieldshield.com/images''"
    "isRunning (sampleRunning 2 2)"
    "intervalId (sampleRunning 2 2) = Some 2"
    "intervalTimers (sampleRunning 2 2) = [2]"
    "abortController (sampleRunning 2 2) = Some 1"
    "abortedSignals (sampleRunning 2 2) = []"
    "activeDownloads (sampleRunning 2 2) = 0"
    by code_simp+
  show ?thesis
    using updateConfig_invalid_keeps_config [OF p(1)] updateConfig_invalid_keeps_config [OF p(2)]
      p b
    by (simp add: Let_def)
qed

subsection \<open>stop waits for the downloads\<close>

text \<open>
  C7: whenever a call of \<open>stop\<close> that found the service running returns (the only
  way \<open>stopsCompleted\<close> changes), it returns in a world where the count of active
  downloads is zero and the service is stopped. This holds for every event of the loop
  and every configuration, so for every concurrency level from 1 to 10, and whether or
  not downloads were in flight when \<open>stop\<close> was called.
\<close>

theorem stop_returns_when_idle:
  assumes "stopsCompleted (step isUrl dd e w) \<noteq> stopsCompleted w"
  shows "activeDownloads (step isUrl dd e w) = 0 \<and> \<not> isRunning (step isUrl dd e w)"
proof (cases e)
  case CallStop
  have s: "step isUrl dd e w = afterCaller (fst (stop w)) (snd (stop w))"
    using CallStop by (simp add: split_def)
  have r: "fst (stop w) = StopResolved"
    using assms unfolding s by (simp add: afterCaller_def split: if_splits)
  then have "activeDownloads w = 0" using stop_resolved by blast
  then show ?thesis unfolding s using r by (simp add: afterCaller_def stop_afterWait_def logInfo_def)
next
  case (CallUpdateConfig partial)
  let ?u = "updateConfig isUrl dd partial w"
  have s: "step isUrl dd e w = afterCaller (fst (snd ?u)) (snd (snd ?u))"
    using CallUpdateConfig by (simp add: split_def)
  have r: "fst (snd ?u) = StopResolved"
    using assms unfolding s by (simp add: afterCaller_def split: if_splits)
  then have "activeDownloads w = 0"
    using stop_resolved [of w] by (simp add: updateConfig_await split: if_splits)
  then show ?thesis unfolding s using r by (simp add: afterCaller_def stop_afterWait_def logInfo_def)
next
  case StopPollFires
  have a: "activeDownloads w = 0"
    using assms StopPollFires
    by (simp add: stopPollFires_def checkDownloads_def split: if_splits)
  then show ?thesis
    using assms StopPollFires
    by (simp add: stopPollFires_def checkDownloads_def stop_afterWait_def logInfo_def split: if_splits)
qed (use assms in \<open>auto simp add: forceSyncNow_def split: if_splits\<close>)

text \<open>
  C7 where \<open>stop\<close> is called with a download in flight: the call has not returned
  after the first poll, and returns at the poll that follows the end of the download.
\<close>

theorem stop_returns_when_idle_witness:
  "isRunning (run sampleIsUrl ''/documents/'' [CallStop, StopPollFires] (firstCycle 2 2 [itemA]))
   \<and> activeDownloads (run sampleIsUrl ''/documents/'' [CallStop, StopPollFires] (firstCycle 2 2 [itemA])) = 1
   \<and> stopsCompleted (run sampleIsUrl ''/documents/'' [CallStop, StopPollFires] (firstCycle 2 2 [itemA])) = 0
   \<and> stopsCompleted (run sampleIsUrl ''/documents/'' stopTrace (firstCycle 2 2 [itemA])) = 0
   \<and> stopsCompleted (step sampleIsUrl ''/documents/'' StopPollFires
         (run sampleIsUrl ''/documents/'' stopTrace (firstCycle 2 2 [itemA]))) = 1
   \<and> activeDownloads (step sampleIsUrl ''/documents/'' StopPollFires
         (run sampleIsUrl ''/documents/'' stopTrace (firstCycle 2 2 [itemA]))) = 0
   \<and> \<not> isRunning (step sampleIsUrl ''/documents/'' StopPollFires
         (run sampleIsUrl ''/documents/'' stopTrace (firstCycle 2 2 [itemA])))"
proof -
  let ?w = "run sampleIsUrl ''/documents/'' stopTrace (firstCycle 2 2 [itemA])"
  have h: "stopsCompleted ?w = 0"
    "stopsCompleted (step sampleIsUrl ''/documents/'' StopPollFires ?w) = 1"
    "isRunning (run sampleIsUrl ''/documents/'' [CallStop, StopPollFires] (firstCycle 2 2 [itemA]))"
    "activeDownloads (run sampleIsUrl ''/documents/'' [CallStop, StopPollFires] (firstCycle 2 2 [itemA])) = 1"
    "stopsCompleted (run sampleIsUrl ''/documents/'' [CallStop, StopPollFires] (firstCycle 2 2 [itemA])) = 0"
    by code_simp+
  have n: "stopsCompleted (step sampleIsUrl ''/documents/'' StopPollFires ?w) \<noteq> stopsCompleted ?w"
    using h by simp
  show ?thesis
    using stop_returns_when_idle [OF n] h by simp
qed

subsection \<open>The limit on concurrent downloads\<close>




subsection \<open>forceSyncNow on a stopped service\<close>

text \<open>
  C9: whenever \<open>forceSyncNow\<close> is called while the service is stopped, it fails with
  the error \<open>Service is not running\<close> and the world is as before: no request has been
  issued and no file written.
\<close>

theorem forceSyncNow_stopped:
  "\<not> isRunning w \<Longrightarrow>
     fst (forceSyncNow w) = Inl ServiceIsNotRunning \<and> snd (forceSyncNow w) = w"
  by (simp add: forceSyncNow_def)

text \<open>C9 on a service that has just been constructed.\<close>

theorem forceSyncNow_stopped_witness:
  "\<not> isRunning (freshService (sampleConfig 2 2))
   \<and> fst (forceSyncNow (freshService (sampleConfig 2 2))) = Inl ServiceIsNotRunning
   \<and> effects (snd (forceSyncNow (freshService (sampleConfig 2 2)))) = []
   \<and> files (snd (forceSyncNow (freshService (sampleConfig 2 2))))
        ''/documents/images/dev1/image_a.png'' = None"
  using forceSyncNow_stopped [of "freshService (sampleConfig 2 2)"]
  by (simp add: freshService_def)

subsection \<open>The object returned by getConfig\<close>

text \<open>
  C10 at the input \<open>getConfig().fileTypes.push('gif')\<close>: the object returned is a
  copy, but its \<open>fileTypes\<close> is the array the service holds. After the push the
  configuration of the service lists \<open>gif\<close>, and the next request to the source asks
  for it.
\<close>

theorem getConfig_shares_fileTypes:
  "fileTypes (byValue (sampleStarted 2 2)) = [''jpg'', ''jpeg'', ''png'']
   \<and> fileTypes (byValue (snd (mutate (PushFileType ''gif'')
                                   (getConfig (sampleStarted 2 2), sampleStarted 2 2))))
       = [''jpg'', ''jpeg'', ''png'', ''gif'']
   \<and> last (effects (snd (fetchNewImages (sampleSync []) None
               (snd (mutate (PushFileType ''gif'')
                       (getConfig (sampleStarted 2 2), sampleStarted 2 2))))))
       = HttpGet ''https://api.fieldshield.com/images'' None
           (Some [''jpg'', ''jpeg'', ''png'', ''gif'']) None"
  by code_simp

end
